theory Spec2Isabelle
  imports Complex_Main
begin

section \<open>Strings\<close>

text \<open>
  Go strings are byte strings, and so is \<^typ>\<open>string\<close>: one \<^typ>\<open>char\<close> per byte.
  \<open>strings.ToLower\<close> lowers a string of ASCII bytes byte by byte (bytes \<open>0x41\<close> to
  \<open>0x5A\<close> gain \<open>0x20\<close>). A string with a byte from \<open>0x80\<close> on it hands to
  \<open>strings.Map(unicode.ToLower, s)\<close>, which is code of the library with its tables of
  Unicode: the model takes that function as the parameter \<open>unicodeLower\<close>.
\<close>

definition toLowerByte :: "char \<Rightarrow> char" where
  "toLowerByte c =
     (let n = (of_char c :: nat) in if 65 \<le> n \<and> n \<le> 90 then char_of (n + 32) else c)"

definition isASCII :: "string \<Rightarrow> bool" where
  "isASCII s = list_all (\<lambda>c. (of_char c :: nat) < 128) s"

definition toLower :: "(string \<Rightarrow> string) \<Rightarrow> string \<Rightarrow> string" where
  "toLower unicodeLower s = (if isASCII s then map toLowerByte s else unicodeLower s)"

text \<open>
  On ASCII strings the library function is never called; for runs on such strings the
  identity stands in its place.
\<close>

definition noUnicodeLower :: "string \<Rightarrow> string" where
  "noUnicodeLower s = s"

text \<open>\<open>strings.HasPrefix s p\<close>.\<close>

definition hasPrefix :: "string \<Rightarrow> string \<Rightarrow> bool" where
  "hasPrefix s p = (take (length p) s = p)"

text \<open>\<open>strings.Contains s sub\<close>: \<open>sub\<close> occurs in \<open>s\<close> as a contiguous run of bytes.\<close>

fun strContains :: "string \<Rightarrow> string \<Rightarrow> bool" where
  "strContains [] sub = (sub = [])"
| "strContains (c # cs) sub = (hasPrefix (c # cs) sub \<or> strContains cs sub)"

text \<open>
  \<open>parts := strings.Split(s, "/"); parts[len(parts)-1]\<close>: the bytes after the last
  slash, the whole string when there is none.
\<close>

definition lastSegment :: "string \<Rightarrow> string" where
  "lastSegment s = rev (takeWhile (\<lambda>c. c \<noteq> CHR ''/'') (rev s))"

section \<open>Codex model normalisation (openai\_codex\_transform.go)\<close>

definition codexModelMap :: "(string \<times> string) list" where
  "codexModelMap =
    [(''gpt-5.1-codex'', ''gpt-5.1-codex''),
     (''gpt-5.1-codex-low'', ''gpt-5.1-codex''),
     (''gpt-5.1-codex-medium'', ''gpt-5.1-codex''),
     (''gpt-5.1-codex-high'', ''gpt-5.1-codex''),
     (''gpt-5.1-codex-max'', ''gpt-5.1-codex-max''),
     (''gpt-5.1-codex-max-low'', ''gpt-5.1-codex-max''),
     (''gpt-5.1-codex-max-medium'', ''gpt-5.1-codex-max''),
     (''gpt-5.1-codex-max-high'', ''gpt-5.1-codex-max''),
     (''gpt-5.1-codex-max-xhigh'', ''gpt-5.1-codex-max''),
     (''gpt-5.2'', ''gpt-5.2''),
     (''gpt-5.2-none'', ''gpt-5.2''),
     (''gpt-5.2-low'', ''gpt-5.2''),
     (''gpt-5.2-medium'', ''gpt-5.2''),
     (''gpt-5.2-high'', ''gpt-5.2''),
     (''gpt-5.2-xhigh'', ''gpt-5.2''),
     (''gpt-5.2-codex'', ''gpt-5.2-codex''),
     (''gpt-5.2-codex-low'', ''gpt-5.2-codex''),
     (''gpt-5.2-codex-medium'', ''gpt-5.2-codex''),
     (''gpt-5.2-codex-high'', ''gpt-5.2-codex''),
     (''gpt-5.2-codex-xhigh'', ''gpt-5.2-codex''),
     (''gpt-5.1-codex-mini'', ''gpt-5.1-codex-mini''),
     (''gpt-5.1-codex-mini-medium'', ''gpt-5.1-codex-mini''),
     (''gpt-5.1-codex-mini-high'', ''gpt-5.1-codex-mini''),
     (''gpt-5.1'', ''gpt-5.1''),
     (''gpt-5.1-none'', ''gpt-5.1''),
     (''gpt-5.1-low'', ''gpt-5.1''),
     (''gpt-5.1-medium'', ''gpt-5.1''),
     (''gpt-5.1-high'', ''gpt-5.1''),
     (''gpt-5.1-chat-latest'', ''gpt-5.1''),
     (''gpt-5-codex'', ''gpt-5.1-codex''),
     (''codex-mini-latest'', ''gpt-5.1-codex-mini''),
     (''gpt-5-codex-mini'', ''gpt-5.1-codex-mini''),
     (''gpt-5-codex-mini-medium'', ''gpt-5.1-codex-mini''),
     (''gpt-5-codex-mini-high'', ''gpt-5.1-codex-mini''),
     (''gpt-5'', ''gpt-5.1''),
     (''gpt-5-mini'', ''gpt-5.1''),
     (''gpt-5-nano'', ''gpt-5.1'')]"

text \<open>
  \<open>getNormalizedCodexModel\<close>: the exact key first, then the keys compared in lower case.
  Go walks the map in no fixed order; the list is walked front to back, and
  \<open>codexModelMap_lower_keys_distinct\<close> below shows that at most one key can match.
\<close>

definition getNormalizedCodexModel :: "(string \<Rightarrow> string) \<Rightarrow> string \<Rightarrow> string" where
  "getNormalizedCodexModel unicodeLower modelID =
     (if modelID = [] then []
      else case map_of codexModelMap modelID of
        Some mapped \<Rightarrow> mapped
      | None \<Rightarrow>
          (case find (\<lambda>kv. toLower unicodeLower (fst kv) = toLower unicodeLower modelID)
                  codexModelMap of
             Some kv \<Rightarrow> snd kv
           | None \<Rightarrow> []))"

definition normalizeCodexModel :: "(string \<Rightarrow> string) \<Rightarrow> string \<Rightarrow> string" where
  "normalizeCodexModel unicodeLower model =
     (if model = [] then ''gpt-5.1''
      else
        let modelID = (if strContains model ''/'' then lastSegment model else model);
            mapped = getNormalizedCodexModel unicodeLower modelID
        in if mapped \<noteq> [] then mapped
        else
          let normalized = toLower unicodeLower modelID
          in if strContains normalized ''gpt-5.2-codex'' \<or> strContains normalized ''gpt 5.2 codex''
               then ''gpt-5.2-codex''
             else if strContains normalized ''gpt-5.2'' \<or> strContains normalized ''gpt 5.2''
               then ''gpt-5.2''
             else if strContains normalized ''gpt-5.1-codex-max''
                     \<or> strContains normalized ''gpt 5.1 codex max''
               then ''gpt-5.1-codex-max''
             else if strContains normalized ''gpt-5.1-codex-mini''
                     \<or> strContains normalized ''gpt 5.1 codex mini''
               then ''gpt-5.1-codex-mini''
             else if strContains normalized ''codex-mini-latest''
                     \<or> strContains normalized ''gpt-5-codex-mini''
                     \<or> strContains normalized ''gpt 5 codex mini''
               then ''codex-mini-latest''
             else if strContains normalized ''gpt-5.1-codex'' \<or> strContains normalized ''gpt 5.1 codex''
               then ''gpt-5.1-codex''
             else if strContains normalized ''gpt-5.1'' \<or> strContains normalized ''gpt 5.1''
               then ''gpt-5.1''
             else if strContains normalized ''codex'' then ''gpt-5.1-codex''
             else if strContains normalized ''gpt-5'' \<or> strContains normalized ''gpt 5''
               then ''gpt-5.1''
             else ''gpt-5.1'')"

text \<open>The names \<open>normalizeCodexModel\<close> can return: the canonical set.\<close>

definition canonicalCodexModels :: "string list" where
  "canonicalCodexModels =
    [''gpt-5.1'', ''gpt-5.1-codex'', ''gpt-5.1-codex-max'', ''gpt-5.1-codex-mini'',
     ''gpt-5.2'', ''gpt-5.2-codex'', ''codex-mini-latest'']"

text \<open>The substrings the fallback rules look for, in the order of the source.\<close>

definition codexFallbackPatterns :: "string list" where
  "codexFallbackPatterns =
    [''gpt-5.2-codex'', ''gpt 5.2 codex'', ''gpt-5.2'', ''gpt 5.2'',
     ''gpt-5.1-codex-max'', ''gpt 5.1 codex max'',
     ''gpt-5.1-codex-mini'', ''gpt 5.1 codex mini'',
     ''codex-mini-latest'', ''gpt-5-codex-mini'', ''gpt 5 codex mini'',
     ''gpt-5.1-codex'', ''gpt 5.1 codex'', ''gpt-5.1'', ''gpt 5.1'',
     ''codex'', ''gpt-5'', ''gpt 5'']"

section \<open>Accounts (package model)\<close>

datatype Platform = PlatformAnthropic | PlatformOpenAI | PlatformGemini | PlatformAntigravity

datatype AccountType = AccountTypeOAuth | AccountTypeSetupToken | AccountTypeApiKey | AccountTypeUpstream

datatype AccountStatus = StatusActive | StatusInactive

text \<open>
  The fields of \<open>model.Account\<close> that the selector and the request builder read.
  \<open>LastUsedAt\<close> is a \<open>*time.Time\<close>: an instant on the time line, \<open>None\<close> for \<open>nil\<close>.
  \<open>TempUnschedulable\<close> tells whether a temp-unschedulable rule holds the account at
  the time of the call.
  \<open>ModelMapping\<close> is the model mapping of the credentials bag; the rest of the bag is
  represented by what its getters return (\<open>GetOpenAIAccessToken\<close>, \<open>GetOpenAIApiKey\<close>,
  \<open>GetOpenAIBaseURL\<close>, \<open>GetChatGPTAccountID\<close> and \<open>GetOpenAIUserAgent\<close> give the empty
  string for a missing entry). \<open>ProxyURL\<close> is \<open>account.Proxy.URL()\<close>, empty for an account
  without a proxy. \<open>OpenAIPassthrough\<close> is the flag \<open>openai_passthrough\<close> of the bag
  \<open>extra\<close>; no function of the sources reads it.
\<close>

record Account =
  ID :: int
  Platform :: Platform
  Type :: AccountType
  Priority :: int
  LastUsedAt :: "int option"
  Status :: AccountStatus
  Schedulable :: bool
  TempUnschedulable :: bool
  ModelMapping :: "(string \<times> string) list"
  OpenAIAccessToken :: string
  OpenAIApiKey :: string
  OpenAIBaseURL :: string
  ChatGPTAccountID :: string
  OpenAIUserAgent :: string
  ProxyURL :: string
  OpenAIPassthrough :: bool

text \<open>
  Modelled from the spec: \<open>Account.IsSchedulable\<close>, \<open>Account.IsOpenAI\<close> and
  \<open>Account.IsModelSupported\<close> belong to package \<open>model\<close>, which is not among the
  sources. Only an active account whose \<open>schedulable\<close> flag is set and which is not
  temp-unschedulable may be selected; an account with an empty model mapping passes
  every model through, one with a mapping supports exactly its keys.
\<close>

definition IsSchedulable :: "Account \<Rightarrow> bool" where
  "IsSchedulable a = (Status a = StatusActive \<and> Schedulable a \<and> \<not> TempUnschedulable a)"

definition IsOpenAI :: "Account \<Rightarrow> bool" where
  "IsOpenAI a = (Platform a = PlatformOpenAI)"

definition IsModelSupported :: "Account \<Rightarrow> string \<Rightarrow> bool" where
  "IsModelSupported a m = (ModelMapping a = [] \<or> m \<in> fst ` set (ModelMapping a))"

text \<open>
  Modelled from the spec: \<open>Account.GetMappedModel\<close>, of the same package. The mapping
  sends a requested model to the effective one; a model without an entry is passed
  through.
\<close>

definition GetMappedModel :: "Account \<Rightarrow> string \<Rightarrow> string" where
  "GetMappedModel a m = (case map_of (ModelMapping a) m of Some mapped \<Rightarrow> mapped | None \<Rightarrow> m)"

section \<open>Collaborators of the selector (package ports)\<close>

datatype repoError = RepoError string

text \<open>
  \<open>ports.AccountRepository\<close> is an interface: the selector sees nothing of it but the
  results of these three queries, so the model takes the queries themselves.
\<close>

record AccountRepository =
  GetByID :: "int \<Rightarrow> repoError + Account"
  ListSchedulableByGroupIDAndPlatform :: "int \<Rightarrow> Platform \<Rightarrow> repoError + Account list"
  ListSchedulableByPlatform :: "Platform \<Rightarrow> repoError + Account list"

text \<open>
  Modelled from the spec: the sticky-session part of \<open>ports.GatewayCache\<close>, whose
  implementation is not among the sources. A binding maps a key to an account id and
  carries its remaining time to live in seconds. Reading a key that is not bound is an
  error; refreshing re-arms the time to live of an existing binding; setting installs or
  overwrites a binding.
\<close>

type_synonym StickyCache = "string \<rightharpoonup> (int \<times> nat)"

datatype cacheError = CacheMiss

definition GetSessionAccountID :: "StickyCache \<Rightarrow> string \<Rightarrow> cacheError + int" where
  "GetSessionAccountID cache key =
     (case cache key of None \<Rightarrow> Inl CacheMiss | Some (accountID, _) \<Rightarrow> Inr accountID)"

definition RefreshSessionTTL :: "StickyCache \<Rightarrow> string \<Rightarrow> nat \<Rightarrow> StickyCache" where
  "RefreshSessionTTL cache key ttl =
     (case cache key of None \<Rightarrow> cache | Some (accountID, _) \<Rightarrow> cache(key \<mapsto> (accountID, ttl)))"

definition SetSessionAccountID :: "StickyCache \<Rightarrow> string \<Rightarrow> int \<Rightarrow> nat \<Rightarrow> StickyCache" where
  "SetSessionAccountID cache key accountID ttl = cache(key \<mapsto> (accountID, ttl))"

section \<open>Account selection (openai\_gateway\_service.go)\<close>

text \<open>\<open>openaiStickySessionTTL = time.Hour\<close>, in seconds.\<close>

definition openaiStickySessionTTL :: nat where
  "openaiStickySessionTTL = 3600"

definition stickyKey :: "string \<Rightarrow> string" where
  "stickyKey sessionHash = ''openai:'' @ sessionHash"

datatype selectError =
    QueryAccountsFailed repoError
  | NoAccountsSupportingModel string
  | NoAccounts

text \<open>
  Step 1 of \<open>SelectAccountForModel\<close>: the account the sticky binding names, when the
  lookups succeed and the account passes the three checks.
\<close>

definition stickyAccount :: "AccountRepository \<Rightarrow> StickyCache \<Rightarrow> string \<Rightarrow> string \<Rightarrow> Account option" where
  "stickyAccount repo cache sessionHash requestedModel =
     (if sessionHash \<noteq> [] then
        (case GetSessionAccountID cache (stickyKey sessionHash) of
           Inl _ \<Rightarrow> None
         | Inr accountID \<Rightarrow>
             if accountID > 0 then
               (case GetByID repo accountID of
                  Inl _ \<Rightarrow> None
                | Inr account \<Rightarrow>
                    if IsSchedulable account \<and> IsOpenAI account
                       \<and> (requestedModel = [] \<or> IsModelSupported account requestedModel)
                    then Some account else None)
             else None)
      else None)"

text \<open>
  Step 3, the loop \<open>for i := range accounts\<close> with its variable \<open>selected\<close>
  (\<open>None\<close> for \<open>nil\<close>).
\<close>

fun selectByPriorityLRU :: "string \<Rightarrow> Account list \<Rightarrow> Account option \<Rightarrow> Account option" where
  "selectByPriorityLRU requestedModel [] selected = selected"
| "selectByPriorityLRU requestedModel (acc # accounts) selected =
     (if requestedModel \<noteq> [] \<and> \<not> IsModelSupported acc requestedModel
        then selectByPriorityLRU requestedModel accounts selected
      else case selected of
        None \<Rightarrow> selectByPriorityLRU requestedModel accounts (Some acc)
      | Some sel \<Rightarrow>
          if Priority acc < Priority sel
            then selectByPriorityLRU requestedModel accounts (Some acc)
          else if Priority acc = Priority sel
            then (if LastUsedAt acc = None
                     \<or> (LastUsedAt sel \<noteq> None \<and> the (LastUsedAt acc) < the (LastUsedAt sel))
                    then selectByPriorityLRU requestedModel accounts (Some acc)
                  else selectByPriorityLRU requestedModel accounts selected)
          else selectByPriorityLRU requestedModel accounts selected)"

text \<open>
  The test of the loop on an account \<open>acc\<close> that supports the model, once an account is
  selected: whether \<open>acc\<close> takes the place of \<open>selected\<close>.
\<close>

definition takesPlace :: "Account \<Rightarrow> Account \<Rightarrow> bool" where
  "takesPlace acc sel =
     (Priority acc < Priority sel
      \<or> (Priority acc = Priority sel
          \<and> (LastUsedAt acc = None
              \<or> (LastUsedAt sel \<noteq> None \<and> the (LastUsedAt acc) < the (LastUsedAt sel)))))"

text \<open>One round of the loop on such an account: the selected account after it.\<close>

definition afterRound :: "Account option \<Rightarrow> Account \<Rightarrow> Account option" where
  "afterRound sel acc =
     (case sel of None \<Rightarrow> Some acc | Some s \<Rightarrow> Some (if takesPlace acc s then acc else s))"

text \<open>Step 2: the query for the schedulable OpenAI accounts, of the group when one is given.\<close>

definition listSchedulable :: "AccountRepository \<Rightarrow> int option \<Rightarrow> repoError + Account list" where
  "listSchedulable repo groupID =
     (case groupID of
        Some g \<Rightarrow> ListSchedulableByGroupIDAndPlatform repo g PlatformOpenAI
      | None \<Rightarrow> ListSchedulableByPlatform repo PlatformOpenAI)"

text \<open>Steps 2 to 4: the query, the loop, and the write of the new binding.\<close>

definition selectFresh ::
  "AccountRepository \<Rightarrow> StickyCache \<Rightarrow> int option \<Rightarrow> string \<Rightarrow> string
    \<Rightarrow> (selectError + Account) \<times> StickyCache" where
  "selectFresh repo cache groupID sessionHash requestedModel =
     (case listSchedulable repo groupID of
        Inl err \<Rightarrow> (Inl (QueryAccountsFailed err), cache)
      | Inr accounts \<Rightarrow>
          (case selectByPriorityLRU requestedModel accounts None of
             None \<Rightarrow>
               (if requestedModel \<noteq> [] then (Inl (NoAccountsSupportingModel requestedModel), cache)
                else (Inl NoAccounts, cache))
           | Some selected \<Rightarrow>
               (Inr selected,
                if sessionHash \<noteq> []
                  then SetSessionAccountID cache (stickyKey sessionHash) (ID selected)
                         openaiStickySessionTTL
                else cache)))"

text \<open>
  \<open>SelectAccountForModel\<close>: the result and the cache after the call. The source ignores
  the errors of the two cache writes; the cache of the model has none.
\<close>

definition SelectAccountForModel ::
  "AccountRepository \<Rightarrow> StickyCache \<Rightarrow> int option \<Rightarrow> string \<Rightarrow> string
    \<Rightarrow> (selectError + Account) \<times> StickyCache" where
  "SelectAccountForModel repo cache groupID sessionHash requestedModel =
     (case stickyAccount repo cache sessionHash requestedModel of
        Some account \<Rightarrow>
          (Inr account,
           RefreshSessionTTL cache (stickyKey sessionHash) openaiStickySessionTTL)
      | None \<Rightarrow> selectFresh repo cache groupID sessionHash requestedModel)"

text \<open>
  The candidates of a call: the accounts the query returned that support the requested
  model (every account when no model is requested).
\<close>

definition candidates :: "string \<Rightarrow> Account list \<Rightarrow> Account list" where
  "candidates requestedModel accounts =
     filter (\<lambda>acc. requestedModel = [] \<or> IsModelSupported acc requestedModel) accounts"

text \<open>
  The order the loop selects by: smaller priority first, then the older \<open>LastUsedAt\<close>,
  \<open>nil\<close> being the oldest.
\<close>

definition lruOlderEq :: "int option \<Rightarrow> int option \<Rightarrow> bool" where
  "lruOlderEq s t = (case s of None \<Rightarrow> True | Some x \<Rightarrow> (case t of None \<Rightarrow> False | Some y \<Rightarrow> x \<le> y))"

definition priorityLRUBefore :: "Account \<Rightarrow> Account \<Rightarrow> bool" where
  "priorityLRUBefore a b =
     (Priority a < Priority b \<or> (Priority a = Priority b \<and> lruOlderEq (LastUsedAt a) (LastUsedAt b)))"

text \<open>
  The ranking as the specification words it, for comparison with the loop: priority,
  then the in-flight count (\<open>load\<close> gives it by account id), then \<open>LastUsedAt\<close> with
  \<open>nil\<close> oldest, then the id. \<open>specRankedBefore load a b\<close>: \<open>a\<close> ranks strictly
  before \<open>b\<close>.
\<close>

definition lruOlder :: "int option \<Rightarrow> int option \<Rightarrow> bool" where
  "lruOlder s t = (lruOlderEq s t \<and> s \<noteq> t)"

definition specRankedBefore :: "(int \<Rightarrow> nat) \<Rightarrow> Account \<Rightarrow> Account \<Rightarrow> bool" where
  "specRankedBefore load a b =
     (Priority a < Priority b
      \<or> (Priority a = Priority b
          \<and> (load (ID a) < load (ID b)
              \<or> (load (ID a) = load (ID b)
                  \<and> (lruOlder (LastUsedAt a) (LastUsedAt b)
                      \<or> (LastUsedAt a = LastUsedAt b \<and> ID a < ID b))))))"

text \<open>Concrete accounts, repositories and caches on which the selector is run below.\<close>

definition openaiAccount :: "int \<Rightarrow> int \<Rightarrow> int option \<Rightarrow> Account" where
  "openaiAccount i prio lastUsed =
     \<lparr>ID = i, Platform = PlatformOpenAI, Type = AccountTypeOAuth, Priority = prio,
      LastUsedAt = lastUsed, Status = StatusActive, Schedulable = True,
      TempUnschedulable = False, ModelMapping = [], OpenAIAccessToken = ''oauth-token'',
      OpenAIApiKey = [], OpenAIBaseURL = [], ChatGPTAccountID = ''chatgpt-acc'',
      OpenAIUserAgent = [], ProxyURL = [], OpenAIPassthrough = False\<rparr>"

definition repoOf :: "Account list \<Rightarrow> Account list \<Rightarrow> AccountRepository" where
  "repoOf stored listed =
     \<lparr>GetByID = (\<lambda>i. case find (\<lambda>a. ID a = i) stored of
                         None \<Rightarrow> Inl (RepoError ''account not found'')
                       | Some a \<Rightarrow> Inr a),
      ListSchedulableByGroupIDAndPlatform = (\<lambda>g p. Inr listed),
      ListSchedulableByPlatform = (\<lambda>p. Inr listed)\<rparr>"

definition pausedAccount :: Account where
  "pausedAccount = (openaiAccount 1 1 None)\<lparr>Schedulable := False\<rparr>"

definition staleCache :: StickyCache where
  "staleCache = [stickyKey ''s1'' \<mapsto> (1, 10)]"

definition idleLoad :: "int \<Rightarrow> nat" where
  "idleLoad i = 0"

definition busyFirstLoad :: "int \<Rightarrow> nat" where
  "busyFirstLoad i = (if i = 1 then 0 else 9)"

section \<open>JSON values and encoding/json\<close>

text \<open>
  What \<open>json.Unmarshal\<close> stores in an \<open>any\<close>: \<open>nil\<close>, a \<open>bool\<close>, a number, a
  \<open>string\<close>, a \<open>[]any\<close> or a \<open>map[string]any\<close>. A number is a \<open>float64\<close>, named here
  by the literal that \<open>json.Marshal\<close> writes for it (the gateway never computes with one). A map is an association list, read with
  \<^const>\<open>map_of\<close> and written with \<open>setField\<close>.
\<close>

datatype json =
    JNull
  | JBool bool
  | JNumber string
  | JString string
  | JArray "json list"
  | JObject "(string \<times> json) list"

text \<open>\<open>m[key] = value\<close> on a Go map: the entry is replaced where it stands, or added.\<close>

fun setField :: "string \<Rightarrow> json \<Rightarrow> (string \<times> json) list \<Rightarrow> (string \<times> json) list" where
  "setField key v [] = [(key, v)]"
| "setField key v ((k, w) # rest) =
     (if k = key then (key, v) # rest else (k, w) # setField key v rest)"

text \<open>
  The anonymous struct of \<open>parseSSEUsage\<close>: the \<open>type\<close> of an event and the three
  token counts under \<open>response.usage\<close>.
\<close>

record UsageEvent =
  eventType :: string
  eventInputTokens :: int
  eventOutputTokens :: int
  eventCachedTokens :: int

text \<open>
  Package \<open>encoding/json\<close> and \<open>fmt\<close> are libraries, not code of the repository: the
  model takes what they compute. \<open>UnmarshalMap\<close> is \<open>json.Unmarshal\<close> into a
  \<open>map[string]any\<close> (\<open>None\<close> for an error). The JSON text \<open>null\<close> leaves the map
  \<open>nil\<close>: a \<open>nil\<close> map reads like the empty map, which \<open>UnmarshalMap\<close> gives for it,
  and a write to it panics, so \<open>IsNull\<close> tells whether a text is the value \<open>null\<close>.
  \<open>UnmarshalUsage\<close> is \<open>json.Unmarshal\<close> into the anonymous struct of
  \<open>parseSSEUsage\<close> (a missing field is zero), \<open>UnmarshalBodyUsage\<close> the one into the
  struct of \<open>handleNonStreamingResponse\<close>, which gives the input, output and cached
  tokens under the top-level \<open>usage\<close>,
  \<open>Marshal\<close> is \<open>json.Marshal\<close>, and \<open>Sprint\<close> is \<open>fmt.Sprintf("%v", v)\<close>.
\<close>

record Codec =
  UnmarshalMap :: "string \<Rightarrow> (string \<times> json) list option"
  IsNull :: "string \<Rightarrow> bool"
  UnmarshalUsage :: "string \<Rightarrow> UsageEvent option"
  UnmarshalBodyUsage :: "string \<Rightarrow> (int \<times> int \<times> int) option"
  Marshal :: "json \<Rightarrow> string option"
  Sprint :: "json \<Rightarrow> string"

text \<open>
  A codec given by a table of JSON texts and the values they denote, for running the
  gateway on concrete texts: a text decodes to its value, a value encodes to its text.
  It knows no response body; a run that reads one adds the bodies it needs.
\<close>

definition tableCodec :: "(string \<times> json) list \<Rightarrow> (string \<times> UsageEvent) list \<Rightarrow> Codec" where
  "tableCodec values usages =
     \<lparr>UnmarshalMap = (\<lambda>text. case map_of values text of
                                 Some (JObject m) \<Rightarrow> Some m
                               | Some JNull \<Rightarrow> Some []
                               | _ \<Rightarrow> None),
      IsNull = (\<lambda>text. map_of values text = Some JNull),
      UnmarshalUsage = map_of usages,
      UnmarshalBodyUsage = (\<lambda>text. None),
      Marshal = (\<lambda>v. map_option fst (find (\<lambda>tv. snd tv = v) values)),
      Sprint = (\<lambda>v. [])\<rparr>"

section \<open>Orphaned tool outputs (openai\_codex\_transform.go)\<close>

text \<open>
  \<open>strings.TrimSpace\<close> removes the leading and the trailing white space of Unicode
  (\<open>unicode.IsSpace\<close>): the six of ASCII (tab, line feed, vertical tab, form feed,
  carriage return, space), and, in their UTF-8 encodings of two and three bytes,
  \<open>U+0085\<close>, \<open>U+00A0\<close>, \<open>U+1680\<close>, \<open>U+2000\<close> to \<open>U+200A\<close>, \<open>U+2028\<close>, \<open>U+2029\<close>,
  \<open>U+202F\<close>, \<open>U+205F\<close> and \<open>U+3000\<close>. A byte sequence that is not the UTF-8 encoding of
  one of them is kept.
\<close>

definition isSpaceByte :: "char \<Rightarrow> bool" where
  "isSpaceByte c = (c \<in> set [CHR 0x09, CHR 0x0A, CHR 0x0B, CHR 0x0C, CHR 0x0D, CHR '' ''])"

definition isSpace2 :: "char \<Rightarrow> char \<Rightarrow> bool" where
  "isSpace2 c d = (c = CHR 0xC2 \<and> (d = CHR 0x85 \<or> d = CHR 0xA0))"

definition isSpace3 :: "char \<Rightarrow> char \<Rightarrow> char \<Rightarrow> bool" where
  "isSpace3 c d e =
     ((c = CHR 0xE1 \<and> d = CHR 0x9A \<and> e = CHR 0x80)
      \<or> (c = CHR 0xE2 \<and> d = CHR 0x80
           \<and> ((0x80 \<le> (of_char e :: nat) \<and> (of_char e :: nat) \<le> 0x8A)
                \<or> e = CHR 0xA8 \<or> e = CHR 0xA9 \<or> e = CHR 0xAF))
      \<or> (c = CHR 0xE2 \<and> d = CHR 0x81 \<and> e = CHR 0x9F)
      \<or> (c = CHR 0xE3 \<and> d = CHR 0x80 \<and> e = CHR 0x80))"

text \<open>
  \<open>strings.TrimLeftFunc(s, unicode.IsSpace)\<close>; with \<open>backwards\<close> set, the same on the
  reversed string, whose encodings stand last byte first.
\<close>

fun trimLeftSpace :: "bool \<Rightarrow> string \<Rightarrow> string" where
  "trimLeftSpace backwards (c # d # e # s) =
     (if isSpaceByte c then trimLeftSpace backwards (d # e # s)
      else if (if backwards then isSpace2 d c else isSpace2 c d) then trimLeftSpace backwards (e # s)
      else if (if backwards then isSpace3 e d c else isSpace3 c d e) then trimLeftSpace backwards s
      else c # d # e # s)"
| "trimLeftSpace backwards [c, d] =
     (if isSpaceByte c then trimLeftSpace backwards [d]
      else if (if backwards then isSpace2 d c else isSpace2 c d) then []
      else [c, d])"
| "trimLeftSpace backwards [c] = (if isSpaceByte c then [] else [c])"
| "trimLeftSpace backwards [] = []"

definition trimSpace :: "string \<Rightarrow> string" where
  "trimSpace s = rev (trimLeftSpace True (rev (trimLeftSpace False s)))"

text \<open>\<open>getCallID\<close>: the trimmed \<open>call_id\<close> of an item, empty when it has none.\<close>

definition getCallID :: "(string \<times> json) list \<Rightarrow> string" where
  "getCallID item =
     (case map_of item ''call_id'' of
        Some (JString callID) \<Rightarrow> trimSpace callID
      | _ \<Rightarrow> [])"

definition stringifyOutput :: "Codec \<Rightarrow> json \<Rightarrow> string" where
  "stringifyOutput codec output =
     (case output of
        JString v \<Rightarrow> v
      | _ \<Rightarrow> (case Marshal codec output of Some data \<Rightarrow> data | None \<Rightarrow> Sprint codec output))"

text \<open>\<open>item[key]\<close> read as an \<open>any\<close>: \<open>nil\<close> for a missing key.\<close>

definition fieldOrNil :: "(string \<times> json) list \<Rightarrow> string \<Rightarrow> json" where
  "fieldOrNil item key = (case map_of item key of Some v \<Rightarrow> v | None \<Rightarrow> JNull)"

definition convertOrphanedOutputToMessage :: "Codec \<Rightarrow> (string \<times> json) list \<Rightarrow> string \<Rightarrow> json" where
  "convertOrphanedOutputToMessage codec item callID =
     (let toolName = (case map_of item ''name'' of
                        Some (JString name) \<Rightarrow> if name \<noteq> [] then name else ''tool''
                      | _ \<Rightarrow> ''tool'');
          labelID = (if callID = [] then ''unknown'' else callID);
          text = stringifyOutput codec (fieldOrNil item ''output'');
          text = (if length text > 16000 then take 16000 text @ [CHR 0x0A] @ ''...[truncated]''
                  else text)
      in JObject
           [(''type'', JString ''message''),
            (''role'', JString ''assistant''),
            (''content'',
               JString (''[Previous '' @ toolName @ '' result; call_id='' @ labelID @ '']: '' @ text))])"

text \<open>The three sets of the first loop of \<open>normalizeOrphanedToolOutputs\<close>.\<close>

record CallIDs =
  functionCallIDs :: "string set"
  localShellCallIDs :: "string set"
  customToolCallIDs :: "string set"

definition noCallIDs :: CallIDs where
  "noCallIDs = \<lparr>functionCallIDs = {}, localShellCallIDs = {}, customToolCallIDs = {}\<rparr>"

fun collectCallIDs :: "json list \<Rightarrow> CallIDs \<Rightarrow> CallIDs" where
  "collectCallIDs [] ids = ids"
| "collectCallIDs (item # input) ids =
     (case item of
        JObject m \<Rightarrow>
          (let callID = getCallID m in
           if callID = [] then collectCallIDs input ids
           else if map_of m ''type'' = Some (JString ''function_call'')
             then collectCallIDs input (ids\<lparr>functionCallIDs := insert callID (functionCallIDs ids)\<rparr>)
           else if map_of m ''type'' = Some (JString ''local_shell_call'')
             then collectCallIDs input (ids\<lparr>localShellCallIDs := insert callID (localShellCallIDs ids)\<rparr>)
           else if map_of m ''type'' = Some (JString ''custom_tool_call'')
             then collectCallIDs input (ids\<lparr>customToolCallIDs := insert callID (customToolCallIDs ids)\<rparr>)
           else collectCallIDs input ids)
      | _ \<Rightarrow> collectCallIDs input ids)"

text \<open>The second loop, appending to \<open>output\<close>.\<close>

fun rewriteOrphans :: "Codec \<Rightarrow> CallIDs \<Rightarrow> json list \<Rightarrow> json list \<Rightarrow> json list" where
  "rewriteOrphans codec ids [] output = output"
| "rewriteOrphans codec ids (item # input) output =
     (case item of
        JObject m \<Rightarrow>
          (let callID = getCallID m in
           if map_of m ''type'' = Some (JString ''function_call_output'')
                \<and> (callID = [] \<or> \<not> (callID \<in> functionCallIDs ids \<or> callID \<in> localShellCallIDs ids))
             then rewriteOrphans codec ids input
                    (output @ [convertOrphanedOutputToMessage codec m callID])
           else if map_of m ''type'' = Some (JString ''custom_tool_call_output'')
                \<and> (callID = [] \<or> callID \<notin> customToolCallIDs ids)
             then rewriteOrphans codec ids input
                    (output @ [convertOrphanedOutputToMessage codec m callID])
           else if map_of m ''type'' = Some (JString ''local_shell_call_output'')
                \<and> (callID = [] \<or> callID \<notin> localShellCallIDs ids)
             then rewriteOrphans codec ids input
                    (output @ [convertOrphanedOutputToMessage codec m callID])
           else rewriteOrphans codec ids input (output @ [JObject m]))
      | _ \<Rightarrow> rewriteOrphans codec ids input (output @ [item]))"

definition normalizeOrphanedToolOutputs :: "Codec \<Rightarrow> json list \<Rightarrow> json list" where
  "normalizeOrphanedToolOutputs codec input =
     rewriteOrphans codec (collectCallIDs input noCallIDs) input []"

text \<open>
  The reading of the rewrite that the properties below compare the loops with. An item
  is a call of one of the given types with the given id; an output item is orphaned when
  its id is empty or no call of a type that answers it stands anywhere in the input.
\<close>

definition isCallOf :: "string set \<Rightarrow> string \<Rightarrow> json \<Rightarrow> bool" where
  "isCallOf types callID item =
     (case item of
        JObject m \<Rightarrow> getCallID m = callID
                      \<and> (\<exists>t \<in> types. map_of m ''type'' = Some (JString t))
      | _ \<Rightarrow> False)"

definition answeringCallTypes :: "string \<Rightarrow> string set" where
  "answeringCallTypes outputType =
     (if outputType = ''function_call_output'' then {''function_call'', ''local_shell_call''}
      else if outputType = ''custom_tool_call_output'' then {''custom_tool_call''}
      else if outputType = ''local_shell_call_output'' then {''local_shell_call''}
      else {})"

definition toolOutputTypes :: "string list" where
  "toolOutputTypes = [''function_call_output'', ''custom_tool_call_output'', ''local_shell_call_output'']"

definition isOrphanedOutput :: "json list \<Rightarrow> json \<Rightarrow> bool" where
  "isOrphanedOutput input item =
     (case item of
        JObject m \<Rightarrow>
          (\<exists>t \<in> set toolOutputTypes.
              map_of m ''type'' = Some (JString t)
              \<and> (getCallID m = []
                  \<or> \<not> (\<exists>c \<in> set input. isCallOf (answeringCallTypes t) (getCallID m) c)))
      | _ \<Rightarrow> False)"

text \<open>The message the specification describes for an orphaned output of a tool.\<close>

definition orphanMessage :: "string \<Rightarrow> string \<Rightarrow> string \<Rightarrow> json" where
  "orphanMessage tool callID text =
     JObject
       [(''type'', JString ''message''),
        (''role'', JString ''assistant''),
        (''content'', JString (''[Previous '' @ tool @ '' result; call_id='' @ callID @ '']: '' @ text))]"

text \<open>
  The text of an output: cut after 16000 bytes, and then followed by a line feed and
  the marker \<open>...[truncated]\<close>.
\<close>

definition truncateOutput :: "string \<Rightarrow> string" where
  "truncateOutput text =
     (if length text > 16000 then take 16000 text @ [CHR 0x0A] @ ''...[truncated]'' else text)"

definition toolNameOf :: "(string \<times> json) list \<Rightarrow> string" where
  "toolNameOf m =
     (case map_of m ''name'' of
        Some (JString name) \<Rightarrow> if name \<noteq> [] then name else ''tool''
      | _ \<Rightarrow> ''tool'')"

definition callLabelOf :: "(string \<times> json) list \<Rightarrow> string" where
  "callLabelOf m = (if getCallID m = [] then ''unknown'' else getCallID m)"

definition rewriteItem :: "Codec \<Rightarrow> json list \<Rightarrow> json \<Rightarrow> json" where
  "rewriteItem codec input item =
     (case item of
        JObject m \<Rightarrow>
          if isOrphanedOutput input item
            then orphanMessage (toolNameOf m) (callLabelOf m)
                   (truncateOutput (stringifyOutput codec (fieldOrNil m ''output'')))
          else item
      | _ \<Rightarrow> item)"

text \<open>Concrete items: a function call and its output, with the same call id.\<close>

definition callItem :: "string \<Rightarrow> json" where
  "callItem callID =
     JObject [(''type'', JString ''function_call''), (''call_id'', JString callID),
              (''name'', JString ''shell''), (''arguments'', JString ''{}'')]"

definition outputItem :: "string \<Rightarrow> string \<Rightarrow> json" where
  "outputItem callID out =
     JObject [(''type'', JString ''function_call_output''), (''call_id'', JString callID),
              (''output'', JString out)]"

definition noCodec :: Codec where
  "noCodec = tableCodec [] []"

section \<open>HTTP headers (net/http)\<close>

text \<open>
  \<open>textproto.CanonicalMIMEHeaderKey\<close>: a key made of token bytes only gets an upper-case
  letter first and after every hyphen and lower-case letters elsewhere; any other key is
  left as it is.
\<close>

definition toUpperByte :: "char \<Rightarrow> char" where
  "toUpperByte c =
     (let n = (of_char c :: nat) in if 97 \<le> n \<and> n \<le> 122 then char_of (n - 32) else c)"

definition isDigitOrLetter :: "char \<Rightarrow> bool" where
  "isDigitOrLetter c =
     (let n = (of_char c :: nat)
      in (48 \<le> n \<and> n \<le> 57) \<or> (65 \<le> n \<and> n \<le> 90) \<or> (97 \<le> n \<and> n \<le> 122))"

definition validHeaderFieldByte :: "char \<Rightarrow> bool" where
  "validHeaderFieldByte c =
     (isDigitOrLetter c
      \<or> c \<in> set [CHR ''!'', CHR ''#'', CHR ''$'', CHR ''%'', CHR ''&'', CHR 0x27, CHR ''*'', CHR ''+'',
                  CHR ''-'', CHR ''.'', CHR ''^'', CHR ''_'', CHR 0x60, CHR ''|'', CHR ''~''])"

fun canonicalizeFrom :: "bool \<Rightarrow> string \<Rightarrow> string" where
  "canonicalizeFrom upper [] = []"
| "canonicalizeFrom upper (c # cs) =
     (let c' = (if upper then toUpperByte c else toLowerByte c)
      in c' # canonicalizeFrom (c' = CHR ''-'') cs)"

definition CanonicalMIMEHeaderKey :: "string \<Rightarrow> string" where
  "CanonicalMIMEHeaderKey s =
     (if list_all validHeaderFieldByte s then canonicalizeFrom True s else s)"

text \<open>
  An \<open>http.Header\<close> being built: canonical key to values. \<open>Set\<close>, \<open>Add\<close> and \<open>Get\<close>
  canonicalise the key they are given.
\<close>

type_synonym Header = "string \<rightharpoonup> string list"

definition headerSet :: "string \<Rightarrow> string \<Rightarrow> Header \<Rightarrow> Header" where
  "headerSet key v h = h(CanonicalMIMEHeaderKey key \<mapsto> [v])"

definition headerAdd :: "string \<Rightarrow> string \<Rightarrow> Header \<Rightarrow> Header" where
  "headerAdd key v h =
     h(CanonicalMIMEHeaderKey key \<mapsto>
         (case h (CanonicalMIMEHeaderKey key) of None \<Rightarrow> [v] | Some vs \<Rightarrow> vs @ [v]))"

definition headerGet :: "string \<Rightarrow> Header \<Rightarrow> string" where
  "headerGet key h =
     (case h (CanonicalMIMEHeaderKey key) of Some (v # _) \<Rightarrow> v | _ \<Rightarrow> [])"

section \<open>The upstream request (openai\_gateway\_service.go)\<close>

definition chatgptCodexURL :: string where
  "chatgptCodexURL = ''https://chatgpt.com/backend-api/codex/responses''"

definition openaiPlatformAPIURL :: string where
  "openaiPlatformAPIURL = ''https://api.openai.com/v1/responses''"

definition openaiAllowedHeaders :: "string list" where
  "openaiAllowedHeaders =
     [''accept-language'', ''content-type'', ''user-agent'', ''originator'', ''session_id'']"

record UpstreamRequest =
  reqMethod :: string
  reqURL :: string
  reqHost :: string
  reqHeader :: Header
  reqBody :: string

datatype buildError = NewRequestFailed string

text \<open>
  The loop \<open>for key, values := range c.Request.Header\<close>. The inbound header is the list
  of the map's entries in the order the loop visits them.
\<close>

fun addValues :: "string \<Rightarrow> string list \<Rightarrow> Header \<Rightarrow> Header" where
  "addValues key [] h = h"
| "addValues key (v # values) h = addValues key values (headerAdd key v h)"

fun passWhitelisted ::
  "(string \<Rightarrow> string) \<Rightarrow> (string \<times> string list) list \<Rightarrow> Header \<Rightarrow> Header" where
  "passWhitelisted unicodeLower [] h = h"
| "passWhitelisted unicodeLower ((key, values) # inbound) h =
     (if toLower unicodeLower key \<in> set openaiAllowedHeaders
        then passWhitelisted unicodeLower inbound (addValues key values h)
      else passWhitelisted unicodeLower inbound h)"

text \<open>
  The header of \<open>buildUpstreamRequest\<close>, in the three stages of the source: the
  credential and the headers of an OAuth account; the whitelisted inbound headers; the
  configured user agent and the default content type.
\<close>

definition setCredentialHeaders :: "Account \<Rightarrow> string \<Rightarrow> bool \<Rightarrow> Header" where
  "setCredentialHeaders account token isStream =
     (let h = headerSet ''authorization'' (''Bearer '' @ token) Map.empty
      in if Type account = AccountTypeOAuth then
           let h = (if ChatGPTAccountID account \<noteq> []
                      then headerSet ''chatgpt-account-id'' (ChatGPTAccountID account) h
                    else h)
           in if isStream then headerSet ''accept'' ''text/event-stream'' h
              else headerSet ''accept'' ''application/json'' h
         else h)"

definition setRequiredHeaders :: "Account \<Rightarrow> Header \<Rightarrow> Header" where
  "setRequiredHeaders account h =
     (let h = (if OpenAIUserAgent account \<noteq> []
                 then headerSet ''user-agent'' (OpenAIUserAgent account) h
               else h)
      in if headerGet ''content-type'' h = []
           then headerSet ''content-type'' ''application/json'' h
         else h)"

definition upstreamHeader ::
  "(string \<Rightarrow> string) \<Rightarrow> Account \<Rightarrow> (string \<times> string list) list \<Rightarrow> string \<Rightarrow> bool
    \<Rightarrow> Header" where
  "upstreamHeader unicodeLower account inbound token isStream =
     setRequiredHeaders account
       (passWhitelisted unicodeLower inbound (setCredentialHeaders account token isStream))"

text \<open>
  \<open>buildUpstreamRequest\<close>. \<open>hostOf\<close> stands for the URL parser of
  \<open>http.NewRequestWithContext\<close>: the host of a URL it accepts, \<open>None\<close> for one it
  rejects.
\<close>

definition buildUpstreamRequest ::
  "(string \<Rightarrow> string option) \<Rightarrow> (string \<Rightarrow> string) \<Rightarrow> Account
    \<Rightarrow> (string \<times> string list) list \<Rightarrow> string \<Rightarrow> string \<Rightarrow> bool
    \<Rightarrow> buildError + UpstreamRequest" where
  "buildUpstreamRequest hostOf unicodeLower account inbound body token isStream =
     (let targetURL =
            (case Type account of
               AccountTypeOAuth \<Rightarrow> chatgptCodexURL
             | AccountTypeApiKey \<Rightarrow>
                 if OpenAIBaseURL account \<noteq> [] then OpenAIBaseURL account @ ''/v1/responses''
                 else openaiPlatformAPIURL
             | _ \<Rightarrow> openaiPlatformAPIURL)
      in case hostOf targetURL of
           None \<Rightarrow> Inl (NewRequestFailed targetURL)
         | Some urlHost \<Rightarrow>
             Inr \<lparr>reqMethod = ''POST'', reqURL = targetURL,
                  reqHost = (if Type account = AccountTypeOAuth then ''chatgpt.com'' else urlHost),
                  reqHeader = upstreamHeader unicodeLower account inbound token isStream,
                  reqBody = body\<rparr>)"

text \<open>The inbound entries that the whitelist lets through.\<close>

definition whitelisted ::
  "(string \<Rightarrow> string) \<Rightarrow> (string \<times> string list) list \<Rightarrow> (string \<times> string list) list" where
  "whitelisted unicodeLower inbound =
     filter (\<lambda>kv. toLower unicodeLower (fst kv) \<in> set openaiAllowedHeaders) inbound"

text \<open>The keys an upstream header can have, in lower case.\<close>

definition upstreamHeaderNames :: "string list" where
  "upstreamHeaderNames =
     [''authorization'', ''chatgpt-account-id'', ''accept''] @ openaiAllowedHeaders"

text \<open>The URL parser on the two fixed URLs, and an inbound header as of a client.\<close>

definition fixedHosts :: "string \<Rightarrow> string option" where
  "fixedHosts url =
     (if url = chatgptCodexURL then Some ''chatgpt.com''
      else if url = openaiPlatformAPIURL then Some ''api.openai.com''
      else None)"

definition clientHeader :: "string \<Rightarrow> string \<Rightarrow> string \<Rightarrow> (string \<times> string list) list" where
  "clientHeader authorization cookie apiKey =
     [(''User-Agent'', [''codex_cli_rs/0.1.0'']),
      (''Authorization'', [authorization]),
      (''Cookie'', [cookie]),
      (''X-Api-Key'', [apiKey]),
      (''Session_id'', [''abc'']),
      (''X-Test'', [''keep''])]"

section \<open>Rewriting the model of a response (openai\_gateway\_service.go)\<close>

text \<open>\<open>json.Marshal(event)\<close> and the line it becomes; the unchanged line on an error.\<close>

definition marshalDataLine :: "Codec \<Rightarrow> (string \<times> json) list \<Rightarrow> string \<Rightarrow> string" where
  "marshalDataLine codec event line =
     (case Marshal codec (JObject event) of
        None \<Rightarrow> line
      | Some newData \<Rightarrow> ''data: '' @ newData)"

text \<open>
  \<open>replaceModelInSSELine\<close>. Its only caller passes a line that starts with \<open>data: \<close>, so
  \<open>line[6:]\<close> is in range. The response map is shared with the event, so the write to
  \<open>response["model"]\<close> shows in \<open>event["response"]\<close>.
\<close>

definition replaceModelInSSELine :: "Codec \<Rightarrow> string \<Rightarrow> string \<Rightarrow> string \<Rightarrow> string" where
  "replaceModelInSSELine codec line fromModel toModel =
     (let data = drop 6 line in
      if data = [] \<or> data = ''[DONE]'' then line
      else case UnmarshalMap codec data of
        None \<Rightarrow> line
      | Some event \<Rightarrow>
          if map_of event ''model'' = Some (JString fromModel)
            then marshalDataLine codec (setField ''model'' (JString toModel) event) line
          else (case map_of event ''response'' of
                  Some (JObject response) \<Rightarrow>
                    if map_of response ''model'' = Some (JString fromModel)
                      then marshalDataLine codec
                             (setField ''response''
                                (JObject (setField ''model'' (JString toModel) response)) event)
                             line
                    else line
                | _ \<Rightarrow> line))"

definition replaceModelInResponseBody :: "Codec \<Rightarrow> string \<Rightarrow> string \<Rightarrow> string \<Rightarrow> string" where
  "replaceModelInResponseBody codec body fromModel toModel =
     (case UnmarshalMap codec body of
        None \<Rightarrow> body
      | Some resp \<Rightarrow>
          if map_of resp ''model'' = Some (JString fromModel)
            then (case Marshal codec (JObject (setField ''model'' (JString toModel) resp)) of
                    None \<Rightarrow> body
                  | Some newBody \<Rightarrow> newBody)
          else body)"

section \<open>Streaming a response to the client (openai\_gateway\_service.go)\<close>

record OpenAIUsage =
  InputTokens :: int
  OutputTokens :: int
  CacheCreationInputTokens :: int
  CacheReadInputTokens :: int

definition emptyUsage :: OpenAIUsage where
  "emptyUsage = \<lparr>InputTokens = 0, OutputTokens = 0, CacheCreationInputTokens = 0,
                  CacheReadInputTokens = 0\<rparr>"

definition parseSSEUsage :: "Codec \<Rightarrow> string \<Rightarrow> OpenAIUsage \<Rightarrow> OpenAIUsage" where
  "parseSSEUsage codec data usage =
     (case UnmarshalUsage codec data of
        None \<Rightarrow> usage
      | Some event \<Rightarrow>
          if eventType event = ''response.completed''
            then usage\<lparr>InputTokens := eventInputTokens event,
                       OutputTokens := eventOutputTokens event,
                       CacheReadInputTokens := eventCachedTokens event\<rparr>
          else usage)"

text \<open>
  The client side of the \<open>gin.Context\<close>: the status of the response (200 in a fresh
  context), the response headers set so far, the chunks written so far, how many more
  writes will succeed (\<open>None\<close>: the client stays), and whether the writer is an
  \<open>http.Flusher\<close>.
\<close>

record ClientWriter =
  respStatus :: nat
  respHeaders :: "string \<rightharpoonup> string"
  written :: "string list"
  writesLeft :: "nat option"
  isFlusher :: bool

definition setHeader :: "string \<Rightarrow> string \<Rightarrow> ClientWriter \<Rightarrow> ClientWriter" where
  "setHeader key v w = w\<lparr>respHeaders := (respHeaders w)(CanonicalMIMEHeaderKey key \<mapsto> v)\<rparr>"

text \<open>\<open>fmt.Fprintf(w, "%s\n", line)\<close>: \<open>None\<close> when the write fails.\<close>

definition fprintLine :: "ClientWriter \<Rightarrow> string \<Rightarrow> ClientWriter option" where
  "fprintLine w line =
     (case writesLeft w of
        None \<Rightarrow> Some (w\<lparr>written := written w @ [line @ [CHR 0x0A]]\<rparr>)
      | Some 0 \<Rightarrow> None
      | Some (Suc n) \<Rightarrow> Some (w\<lparr>written := written w @ [line @ [CHR 0x0A]], writesLeft := Some n\<rparr>))"

text \<open>
  The errors of the streaming branch: the three that \<open>handleStreamingResponse\<close> returns,
  and the panic of \<open>Forward\<close> on a \<open>nil\<close> result that comes without an error.
\<close>

datatype streamError = StreamingNotSupported | WriteFailed | StreamReadError | NilResultPanic

text \<open>
  The variables of the loop \<open>for scanner.Scan()\<close>, and how many lines of the upstream
  body the scanner has handed out.
\<close>

record StreamState =
  stUsage :: OpenAIUsage
  stFirstTokenMs :: "int option"
  stWriter :: ClientWriter
  stLinesRead :: nat

text \<open>
  The end of the loop body, under the comment \<open>Parse usage data\<close>: the time of the
  first token and the usage of a forwarded data line. \<open>elapsedMs n\<close> is
  \<open>time.Since(startTime).Milliseconds()\<close> as read while the \<open>n\<close>-th line is handled.
\<close>

definition noteDataLine :: "Codec \<Rightarrow> (nat \<Rightarrow> int) \<Rightarrow> string \<Rightarrow> StreamState \<Rightarrow> StreamState" where
  "noteDataLine codec elapsedMs line st =
     (if hasPrefix line ''data: '' then
        let data = drop 6 line;
            st = (if stFirstTokenMs st = None \<and> data \<noteq> [] \<and> data \<noteq> ''[DONE]''
                    then st\<lparr>stFirstTokenMs := Some (elapsedMs (stLinesRead st))\<rparr>
                  else st)
        in st\<lparr>stUsage := parseSSEUsage codec data (stUsage st)\<rparr>
      else st)"

text \<open>The loop. A failed write returns at once, with the error.\<close>

fun streamLines ::
  "Codec \<Rightarrow> (nat \<Rightarrow> int) \<Rightarrow> bool \<Rightarrow> string \<Rightarrow> string \<Rightarrow> string list \<Rightarrow> StreamState
    \<Rightarrow> StreamState \<times> streamError option" where
  "streamLines codec elapsedMs needModelReplace mappedModel originalModel [] st = (st, None)"
| "streamLines codec elapsedMs needModelReplace mappedModel originalModel (scanned # rest) st =
     (let st = st\<lparr>stLinesRead := Suc (stLinesRead st)\<rparr>;
          line = (if needModelReplace \<and> hasPrefix scanned ''data: ''
                    then replaceModelInSSELine codec scanned mappedModel originalModel
                  else scanned)
      in case fprintLine (stWriter st) line of
           None \<Rightarrow> (st, Some WriteFailed)
         | Some w \<Rightarrow>
             streamLines codec elapsedMs needModelReplace mappedModel originalModel rest
               (noteDataLine codec elapsedMs line (st\<lparr>stWriter := w\<rparr>)))"

record openaiStreamingResult =
  usage :: OpenAIUsage
  firstTokenMs :: "int option"

text \<open>
  \<open>handleStreamingResponse\<close>: the result (\<open>None\<close> for \<open>nil\<close>), the error, and the final
  state of the loop. \<open>requestID\<close> is the upstream \<open>x-request-id\<close>, \<open>lines\<close> are the lines
  of the upstream body, and \<open>scanError\<close> tells whether the scanner ends with an error.
\<close>

definition handleStreamingResponse ::
  "Codec \<Rightarrow> (nat \<Rightarrow> int) \<Rightarrow> string \<Rightarrow> string list \<Rightarrow> bool \<Rightarrow> ClientWriter \<Rightarrow> string \<Rightarrow> string
    \<Rightarrow> openaiStreamingResult option \<times> streamError option \<times> StreamState" where
  "handleStreamingResponse codec elapsedMs requestID lines scanError client originalModel mappedModel =
     (let w = setHeader ''Content-Type'' ''text/event-stream'' client;
          w = setHeader ''Cache-Control'' ''no-cache'' w;
          w = setHeader ''Connection'' ''keep-alive'' w;
          w = setHeader ''X-Accel-Buffering'' ''no'' w;
          w = (if requestID \<noteq> [] then setHeader ''x-request-id'' requestID w else w);
          start = \<lparr>stUsage = emptyUsage, stFirstTokenMs = None, stWriter = w, stLinesRead = 0\<rparr>
      in if \<not> isFlusher w then (None, Some StreamingNotSupported, start)
         else
           case streamLines codec elapsedMs (originalModel \<noteq> mappedModel) mappedModel
                  originalModel lines start of
             (st, Some err) \<Rightarrow>
               (Some \<lparr>usage = stUsage st, firstTokenMs = stFirstTokenMs st\<rparr>, Some err, st)
           | (st, None) \<Rightarrow>
               if scanError
                 then (Some \<lparr>usage = stUsage st, firstTokenMs = stFirstTokenMs st\<rparr>,
                       Some StreamReadError, st)
               else (Some \<lparr>usage = stUsage st, firstTokenMs = stFirstTokenMs st\<rparr>, None, st))"

text \<open>\<open>OpenAIForwardResult\<close>, without its \<open>Duration\<close>, which is a reading of the clock.\<close>

record OpenAIForwardResult =
  RequestID :: string
  Usage :: OpenAIUsage
  Model :: string
  Stream :: bool
  FirstTokenMs :: "int option"

text \<open>
  The streaming branch at the end of \<open>Forward\<close>: an error of
  \<open>handleStreamingResponse\<close> is the error of \<open>Forward\<close>, and the usage read so far is
  dropped with it.
\<close>

definition forwardStreaming ::
  "Codec \<Rightarrow> (nat \<Rightarrow> int) \<Rightarrow> string \<Rightarrow> string list \<Rightarrow> bool \<Rightarrow> ClientWriter \<Rightarrow> string \<Rightarrow> string
    \<Rightarrow> streamError + OpenAIForwardResult" where
  "forwardStreaming codec elapsedMs requestID lines scanError client originalModel mappedModel =
     (case handleStreamingResponse codec elapsedMs requestID lines scanError client
             originalModel mappedModel of
        (_, Some err, _) \<Rightarrow> Inl err
      | (None, None, _) \<Rightarrow> Inl NilResultPanic
      | (Some streamResult, None, _) \<Rightarrow>
          Inr \<lparr>RequestID = requestID, Usage = usage streamResult, Model = originalModel,
               Stream = True, FirstTokenMs = firstTokenMs streamResult\<rparr>)"

text \<open>
  The stream of the test \<open>StreamClientDisconnectStillCollectsUsage\<close>, as the five lines
  the scanner makes of it (the text ends with a line feed): a text delta, the completed
  response with its usage, and the end marker, with an empty line after each of the
  first two; and a client whose first write succeeds and whose later writes fail.
\<close>

definition deltaData :: string where
  "deltaData = ''{\"type\":\"response.output_text.delta\",\"delta\":\"h\"}''"

definition completedData :: string where
  "completedData = ''{\"type\":\"response.completed\",\"response\":{\"usage\":{\"input_tokens\":11,\"output_tokens\":7,\"input_tokens_details\":{\"cached_tokens\":3}}}}''"

definition disconnectLines :: "string list" where
  "disconnectLines =
     [''data: '' @ deltaData, [], ''data: '' @ completedData, [], ''data: [DONE]'']"

definition usageCodec :: Codec where
  "usageCodec =
     tableCodec []
       [(deltaData, \<lparr>eventType = ''response.output_text.delta'', eventInputTokens = 0,
                     eventOutputTokens = 0, eventCachedTokens = 0\<rparr>),
        (completedData, \<lparr>eventType = ''response.completed'', eventInputTokens = 11,
                         eventOutputTokens = 7, eventCachedTokens = 3\<rparr>)]"

definition clientFailingAfter :: "nat \<Rightarrow> ClientWriter" where
  "clientFailingAfter n =
     \<lparr>respStatus = 200, respHeaders = Map.empty, written = [], writesLeft = Some n,
      isFlusher = True\<rparr>"

definition steadyClient :: ClientWriter where
  "steadyClient =
     \<lparr>respStatus = 200, respHeaders = Map.empty, written = [], writesLeft = None,
      isFlusher = True\<rparr>"

definition noClock :: "nat \<Rightarrow> int" where
  "noClock n = 0"

text \<open>
  A response body whose model stands under \<open>response\<close>, with the text it would have
  after a rewrite from \<open>gpt-5.1\<close> to \<open>gpt-5\<close>, and the codec of the two texts.
\<close>

definition nestedBody :: string where
  "nestedBody = ''{\"response\":{\"model\":\"gpt-5.1\"}}''"

definition nestedBodyRewritten :: string where
  "nestedBodyRewritten = ''{\"response\":{\"model\":\"gpt-5\"}}''"

definition nestedCodec :: Codec where
  "nestedCodec =
     tableCodec
       [(nestedBody, JObject [(''response'', JObject [(''model'', JString ''gpt-5.1'')])]),
        (nestedBodyRewritten, JObject [(''response'', JObject [(''model'', JString ''gpt-5'')])])]
       []"

text \<open>An event with a top-level model, its rewritten text, and their codec.\<close>

definition createdData :: string where
  "createdData = ''{\"type\":\"response.created\",\"model\":\"gpt-5.1\"}''"

definition createdDataRewritten :: string where
  "createdDataRewritten = ''{\"model\":\"gpt-5\",\"type\":\"response.created\"}''"

definition createdCodec :: Codec where
  "createdCodec =
     tableCodec
       [(createdData,
           JObject [(''type'', JString ''response.created''), (''model'', JString ''gpt-5.1'')]),
        (createdDataRewritten,
           JObject [(''type'', JString ''response.created''), (''model'', JString ''gpt-5'')])]
       []"

text \<open>
  The line the streaming loop forwards for a line of the upstream body, and the body
  that \<open>handleNonStreamingResponse\<close> hands to \<open>c.Data\<close>.
\<close>

definition forwardedLine :: "Codec \<Rightarrow> string \<Rightarrow> string \<Rightarrow> string \<Rightarrow> string" where
  "forwardedLine codec originalModel mappedModel scanned =
     (if originalModel \<noteq> mappedModel \<and> hasPrefix scanned ''data: ''
        then replaceModelInSSELine codec scanned mappedModel originalModel
      else scanned)"

definition forwardedBody :: "Codec \<Rightarrow> string \<Rightarrow> string \<Rightarrow> string \<Rightarrow> string" where
  "forwardedBody codec originalModel mappedModel body =
     (if originalModel \<noteq> mappedModel
        then replaceModelInResponseBody codec body mappedModel originalModel
      else body)"

section \<open>Forwarding a request (openai\_gateway\_service.go)\<close>

text \<open>
  What \<open>gin\<close> does with the client writer. \<open>c.Header\<close> sets a header, and deletes it
  when the value is empty. A response body is one write, whose error \<open>gin\<close> keeps to
  itself. \<open>c.JSON\<close> and \<open>c.Data\<close> set the status, set the content type unless the
  response has one, and write the body; \<open>c.Data\<close> writes none for a status that allows
  no body (1xx, 204, 304), and \<open>c.JSON\<close> writes none when the object does not encode.
\<close>

definition contextHeader :: "string \<Rightarrow> string \<Rightarrow> ClientWriter \<Rightarrow> ClientWriter" where
  "contextHeader key v w =
     (if v = [] then w\<lparr>respHeaders := (respHeaders w)(CanonicalMIMEHeaderKey key := None)\<rparr>
      else setHeader key v w)"

definition writeBody :: "ClientWriter \<Rightarrow> string \<Rightarrow> ClientWriter" where
  "writeBody w text =
     (case writesLeft w of
        None \<Rightarrow> w\<lparr>written := written w @ [text]\<rparr>
      | Some 0 \<Rightarrow> w
      | Some (Suc n) \<Rightarrow> w\<lparr>written := written w @ [text], writesLeft := Some n\<rparr>)"

definition writeContentType :: "string \<Rightarrow> ClientWriter \<Rightarrow> ClientWriter" where
  "writeContentType contentType w =
     (if respHeaders w ''Content-Type'' = None
        then w\<lparr>respHeaders := (respHeaders w)(''Content-Type'' \<mapsto> contentType)\<rparr>
      else w)"

definition bodyAllowedForStatus :: "nat \<Rightarrow> bool" where
  "bodyAllowedForStatus code = (\<not> (100 \<le> code \<and> code \<le> 199) \<and> code \<noteq> 204 \<and> code \<noteq> 304)"

definition contextJSON :: "Codec \<Rightarrow> nat \<Rightarrow> json \<Rightarrow> ClientWriter \<Rightarrow> ClientWriter" where
  "contextJSON codec code obj w =
     (let w = writeContentType ''application/json; charset=utf-8'' (w\<lparr>respStatus := code\<rparr>)
      in if bodyAllowedForStatus code
           then (case Marshal codec obj of None \<Rightarrow> w | Some text \<Rightarrow> writeBody w text)
         else w)"

definition contextData :: "nat \<Rightarrow> string \<Rightarrow> string \<Rightarrow> ClientWriter \<Rightarrow> ClientWriter" where
  "contextData code contentType body w =
     (let w = writeContentType contentType (w\<lparr>respStatus := code\<rparr>)
      in if bodyAllowedForStatus code then writeBody w body else w)"

text \<open>\<open>gin.H{"error": gin.H{"type": errType, "message": message}}\<close>.\<close>

definition errorBody :: "string \<Rightarrow> string \<Rightarrow> json" where
  "errorBody errType message =
     JObject [(''error'', JObject [(''type'', JString errType), (''message'', JString message)])]"

text \<open>
  The \<open>http.Response\<close> of the upstream: its status, its header with the keys as the map
  holds them, and its body as the two readers of \<open>Forward\<close> see it, of which one runs:
  the lines that the \<open>bufio.Scanner\<close> hands out and whether it ends with an error, and
  the bytes that \<open>io.ReadAll\<close> returns and whether it returns an error with them.
\<close>

record UpstreamResponse =
  upStatus :: nat
  upHeader :: "(string \<times> string list) list"
  upLines :: "string list"
  upScanError :: bool
  upBody :: string
  upBodyError :: bool

text \<open>\<open>resp.Header.Get(key)\<close>: the first value under the canonical form of the key.\<close>

definition responseHeaderGet :: "string \<Rightarrow> UpstreamResponse \<Rightarrow> string" where
  "responseHeaderGet key resp =
     (case map_of (upHeader resp) (CanonicalMIMEHeaderKey key) of Some (v # _) \<Rightarrow> v | _ \<Rightarrow> [])"

text \<open>The loop \<open>for key, values := range resp.Header\<close> of \<open>handleNonStreamingResponse\<close>.\<close>

fun passHeaders :: "(string \<times> string list) list \<Rightarrow> ClientWriter \<Rightarrow> ClientWriter" where
  "passHeaders [] w = w"
| "passHeaders ((key, values) # header) w =
     passHeaders header (fold (contextHeader key) values w)"

text \<open>
  The errors of \<open>Forward\<close>. \<open>NilMapPanic\<close> is no returned error but the panic of a write
  into the \<open>nil\<close> map that the body \<open>null\<close> leaves. \<open>UpstreamError\<close> carries the status of
  the upstream.
\<close>

datatype forwardError =
    ParseRequestFailed
  | NilMapPanic
  | SerializeRequestFailed
  | AccessTokenNotFound
  | ApiKeyNotFound
  | UnsupportedAccountType
  | BuildRequestFailed buildError
  | UpstreamRequestFailed
  | UpstreamErrorNotHandled nat
  | UpstreamError nat
  | StreamFailed streamError
  | ReadResponseFailed
  | ParseResponseFailed

text \<open>
  What \<open>Forward\<close> takes from outside the sources: the URL parser of \<open>net/http\<close>, the
  lower-casing of Unicode, the clock, \<open>ports.HTTPUpstream.Do\<close> (\<open>None\<close> for an error), and
  \<open>Account.ShouldHandleErrorCode\<close> of package \<open>model\<close>.
\<close>

record ForwardDeps =
  parseHost :: "string \<Rightarrow> string option"
  lowerUnicode :: "string \<Rightarrow> string"
  clock :: "nat \<Rightarrow> int"
  doUpstream :: "UpstreamRequest \<Rightarrow> string \<Rightarrow> UpstreamResponse option"
  handlesErrorCode :: "Account \<Rightarrow> nat \<Rightarrow> bool"

text \<open>
  What a call of \<open>Forward\<close> leaves: its result, the client writer, the calls of
  \<open>httpUpstream.Do\<close> with their proxy URL, and the upstream statuses handed to
  \<open>rateLimitService.HandleUpstreamError\<close>.
\<close>

record ForwardOutcome =
  fwdResult :: "forwardError + OpenAIForwardResult"
  fwdClient :: ClientWriter
  fwdUpstreamCalls :: "(UpstreamRequest \<times> string) list"
  fwdHealthReports :: "nat list"

definition requestModel :: "(string \<times> json) list \<Rightarrow> string" where
  "requestModel parsed = (case map_of parsed ''model'' of Some (JString m) \<Rightarrow> m | _ \<Rightarrow> [])"

definition requestStream :: "(string \<times> json) list \<Rightarrow> bool" where
  "requestStream parsed = (case map_of parsed ''stream'' of Some (JBool b) \<Rightarrow> b | _ \<Rightarrow> False)"

text \<open>
  The body that goes upstream: the inbound bytes when nothing is modified, otherwise
  the encoding of the parsed body with the mapped model and, for an OAuth account,
  \<open>store\<close> set to \<open>false\<close>.
\<close>

definition prepareBody :: "Codec \<Rightarrow> Account \<Rightarrow> string \<Rightarrow> (string \<times> json) list \<Rightarrow> forwardError + string" where
  "prepareBody codec account body parsed =
     (let reqModel = requestModel parsed;
          mappedModel = GetMappedModel account reqModel
      in if mappedModel = reqModel \<and> Type account \<noteq> AccountTypeOAuth then Inr body
         else if IsNull codec body then Inl NilMapPanic
         else
           let parsed = (if mappedModel \<noteq> reqModel
                            then setField ''model'' (JString mappedModel) parsed else parsed);
               parsed = (if Type account = AccountTypeOAuth
                            then setField ''store'' (JBool False) parsed else parsed)
           in case Marshal codec (JObject parsed) of
                None \<Rightarrow> Inl SerializeRequestFailed
              | Some newBody \<Rightarrow> Inr newBody)"

text \<open>\<open>GetAccessToken\<close>, without the kind of the token, which \<open>Forward\<close> drops.\<close>

definition GetAccessToken :: "Account \<Rightarrow> forwardError + string" where
  "GetAccessToken account =
     (case Type account of
        AccountTypeOAuth \<Rightarrow>
          if OpenAIAccessToken account = [] then Inl AccessTokenNotFound
          else Inr (OpenAIAccessToken account)
      | AccountTypeApiKey \<Rightarrow>
          if OpenAIApiKey account = [] then Inl ApiKeyNotFound else Inr (OpenAIApiKey account)
      | _ \<Rightarrow> Inl UnsupportedAccountType)"

text \<open>
  \<open>handleErrorResponse\<close>: the status, the type and the message sent for an upstream
  status (\<open>http.StatusBadGateway\<close> is 502), then the function itself with the error it
  returns, the client writer, and the statuses it reports.
\<close>

definition upstreamErrorAnswer :: "nat \<Rightarrow> nat \<times> string \<times> string" where
  "upstreamErrorAnswer upstreamStatus =
     (if upstreamStatus = 401
        then (502, ''upstream_error'', ''Upstream authentication failed, please contact administrator'')
      else if upstreamStatus = 403
        then (502, ''upstream_error'', ''Upstream access forbidden, please contact administrator'')
      else if upstreamStatus = 429
        then (429, ''rate_limit_error'', ''Upstream rate limit exceeded, please retry later'')
      else (502, ''upstream_error'', ''Upstream request failed''))"

definition handleErrorResponse ::
  "Codec \<Rightarrow> ForwardDeps \<Rightarrow> UpstreamResponse \<Rightarrow> ClientWriter \<Rightarrow> Account
    \<Rightarrow> forwardError \<times> ClientWriter \<times> nat list" where
  "handleErrorResponse codec deps resp client account =
     (if \<not> handlesErrorCode deps account (upStatus resp)
        then (UpstreamErrorNotHandled (upStatus resp),
              contextJSON codec 500 (errorBody ''upstream_error'' ''Upstream gateway error'') client,
              [])
      else case upstreamErrorAnswer (upStatus resp) of
        (statusCode, errType, errMsg) \<Rightarrow>
          (UpstreamError (upStatus resp),
           contextJSON codec statusCode (errorBody errType errMsg) client,
           [upStatus resp]))"

definition handleNonStreamingResponse ::
  "Codec \<Rightarrow> UpstreamResponse \<Rightarrow> ClientWriter \<Rightarrow> string \<Rightarrow> string
    \<Rightarrow> (forwardError + OpenAIUsage) \<times> ClientWriter" where
  "handleNonStreamingResponse codec resp client originalModel mappedModel =
     (if upBodyError resp then (Inl ReadResponseFailed, client)
      else case UnmarshalBodyUsage codec (upBody resp) of
        None \<Rightarrow> (Inl ParseResponseFailed, client)
      | Some (inputTokens, outputTokens, cachedTokens) \<Rightarrow>
          (Inr \<lparr>InputTokens = inputTokens, OutputTokens = outputTokens,
                CacheCreationInputTokens = 0, CacheReadInputTokens = cachedTokens\<rparr>,
           contextData (upStatus resp) ''application/json''
             (forwardedBody codec originalModel mappedModel (upBody resp))
             (passHeaders (upHeader resp) client)))"

text \<open>
  \<open>Forward\<close> from the answer of the upstream on, and \<open>Forward\<close> itself. \<open>inbound\<close> is the
  header of the client's request and \<open>client\<close> the writer of the \<open>gin.Context\<close>.
\<close>

definition forwardResponse ::
  "Codec \<Rightarrow> ForwardDeps \<Rightarrow> UpstreamResponse \<Rightarrow> ClientWriter \<Rightarrow> Account \<Rightarrow> bool \<Rightarrow> string
    \<Rightarrow> string \<Rightarrow> (forwardError + OpenAIForwardResult) \<times> ClientWriter \<times> nat list" where
  "forwardResponse codec deps resp client account reqStream originalModel mappedModel =
     (if upStatus resp \<ge> 400 then
        (case handleErrorResponse codec deps resp client account of
           (err, w, reports) \<Rightarrow> (Inl err, w, reports))
      else if reqStream then
        (map_sum StreamFailed id
           (forwardStreaming codec (clock deps) (responseHeaderGet ''x-request-id'' resp)
              (upLines resp) (upScanError resp) client originalModel mappedModel),
         stWriter (snd (snd
           (handleStreamingResponse codec (clock deps) (responseHeaderGet ''x-request-id'' resp)
              (upLines resp) (upScanError resp) client originalModel mappedModel))),
         [])
      else
        (case handleNonStreamingResponse codec resp client originalModel mappedModel of
           (Inl err, w) \<Rightarrow> (Inl err, w, [])
         | (Inr bodyUsage, w) \<Rightarrow>
             (Inr \<lparr>RequestID = responseHeaderGet ''x-request-id'' resp, Usage = bodyUsage,
                   Model = originalModel, Stream = reqStream, FirstTokenMs = None\<rparr>,
              w, [])))"

definition Forward ::
  "Codec \<Rightarrow> ForwardDeps \<Rightarrow> (string \<times> string list) list \<Rightarrow> ClientWriter \<Rightarrow> Account \<Rightarrow> string
    \<Rightarrow> ForwardOutcome" where
  "Forward codec deps inbound client account body =
     (case UnmarshalMap codec body of
        None \<Rightarrow>
          \<lparr>fwdResult = Inl ParseRequestFailed, fwdClient = client, fwdUpstreamCalls = [],
           fwdHealthReports = []\<rparr>
      | Some parsed \<Rightarrow>
          (case prepareBody codec account body parsed of
             Inl err \<Rightarrow>
               \<lparr>fwdResult = Inl err, fwdClient = client, fwdUpstreamCalls = [],
                fwdHealthReports = []\<rparr>
           | Inr newBody \<Rightarrow>
               (case GetAccessToken account of
                  Inl err \<Rightarrow>
                    \<lparr>fwdResult = Inl err, fwdClient = client, fwdUpstreamCalls = [],
                     fwdHealthReports = []\<rparr>
                | Inr token \<Rightarrow>
                    (case buildUpstreamRequest (parseHost deps) (lowerUnicode deps) account inbound
                            newBody token (requestStream parsed) of
                       Inl err \<Rightarrow>
                         \<lparr>fwdResult = Inl (BuildRequestFailed err), fwdClient = client,
                          fwdUpstreamCalls = [], fwdHealthReports = []\<rparr>
                     | Inr upstreamReq \<Rightarrow>
                         (case doUpstream deps upstreamReq (ProxyURL account) of
                            None \<Rightarrow>
                              \<lparr>fwdResult = Inl UpstreamRequestFailed, fwdClient = client,
                               fwdUpstreamCalls = [(upstreamReq, ProxyURL account)],
                               fwdHealthReports = []\<rparr>
                          | Some resp \<Rightarrow>
                              (case forwardResponse codec deps resp client account
                                      (requestStream parsed) (requestModel parsed)
                                      (GetMappedModel account (requestModel parsed)) of
                                 (result, w, reports) \<Rightarrow>
                                   \<lparr>fwdResult = result, fwdClient = w,
                                    fwdUpstreamCalls = [(upstreamReq, ProxyURL account)],
                                    fwdHealthReports = reports\<rparr>))))))"

text \<open>
  The request of the test \<open>CodexMissingInstructionsRejectedBeforeUpstream\<close>: its body
  with the map it parses to, the body that \<open>json.Marshal\<close> makes of the map once \<open>store\<close>
  is \<open>false\<close> (keys in order), its header, its account, and the upstream of the test,
  which answers every request with status 200 and a body with a usage of one token in
  and one out.
\<close>

definition codexMaxBody :: string where
  "codexMaxBody = ''{\"model\":\"gpt-5.1-codex-max\",\"stream\":false,\"store\":true,\"input\":[{\"type\":\"text\",\"text\":\"hi\"}]}''"

definition codexMaxParsed :: "(string \<times> json) list" where
  "codexMaxParsed =
     [(''model'', JString ''gpt-5.1-codex-max''), (''stream'', JBool False), (''store'', JBool True),
      (''input'', JArray [JObject [(''type'', JString ''text''), (''text'', JString ''hi'')]])]"

definition codexMaxSent :: string where
  "codexMaxSent = ''{\"input\":[{\"text\":\"hi\",\"type\":\"text\"}],\"model\":\"gpt-5.1-codex-max\",\"store\":false,\"stream\":false}''"

definition codexMaxInbound :: "(string \<times> string list) list" where
  "codexMaxInbound =
     [(''User-Agent'', [''codex_cli_rs/0.98.0 (Windows 10.0.19045; x86_64) unknown'']),
      (''Content-Type'', [''application/json'']),
      (''Openai-Beta'', [''responses=experimental''])]"

definition passthroughAccount :: Account where
  "passthroughAccount = (openaiAccount 123 0 None)\<lparr>OpenAIPassthrough := True\<rparr>"

definition recordedBody :: string where
  "recordedBody = ''{\"output\":[],\"usage\":{\"input_tokens\":1,\"output_tokens\":1}}''"

definition recordedResponse :: UpstreamResponse where
  "recordedResponse =
     \<lparr>upStatus = 200,
      upHeader = [(''Content-Type'', [''application/json'']), (''x-request-id'', [''rid''])],
      upLines = [recordedBody], upScanError = False,
      upBody = recordedBody, upBodyError = False\<rparr>"

definition codexMaxCodec :: Codec where
  "codexMaxCodec =
     (tableCodec
        [(codexMaxBody, JObject codexMaxParsed),
         (codexMaxSent, JObject (setField ''store'' (JBool False) codexMaxParsed))]
        [])\<lparr>UnmarshalBodyUsage := map_of [(recordedBody, (1, 1, 0))]\<rparr>"

definition recordingUpstream :: ForwardDeps where
  "recordingUpstream =
     \<lparr>parseHost = fixedHosts, lowerUnicode = noUnicodeLower, clock = noClock,
      doUpstream = (\<lambda>req proxyURL. Some recordedResponse),
      handlesErrorCode = (\<lambda>account code. True)\<rparr>"

section \<open>The Responses handler (openai\_gateway\_handler.go)\<close>

text \<open>What the handler sends to the client: a JSON error body with its status, or an
  SSE error event on a stream that has started.\<close>

datatype clientResponse =
    JSONError nat string string
  | SSEErrorEvent string string

text \<open>
  The calls of the handler that are visible outside it, in the order it makes them.
  \<open>SpawnRecordUsage\<close> is the \<open>go\<close> statement that starts \<open>RecordUsage\<close> in a goroutine:
  the statement has its place in the handler, the recording itself runs beside it at no
  fixed place. \<open>Panic\<close> is a panic that leaves the handler.
\<close>

datatype handlerEvent =
    IncrementWaitCount
  | DecrementWaitCount
  | AcquireUserSlot
  | ReleaseUserSlot
  | CheckBillingEligibility
  | SelectAccount
  | AcquireAccountSlot
  | ReleaseAccountSlot
  | ForwardRequest
  | SpawnRecordUsage
  | Respond clientResponse
  | Panic string

text \<open>
  \<open>AcquireUserSlotWithWait\<close> and \<open>AcquireAccountSlotWithWait\<close> belong to the
  \<open>ConcurrencyHelper\<close>, which is not among the sources: the handler sees whether they
  return an error, whether the release function they return is \<open>nil\<close>, and whether they
  have set \<open>*streamStarted\<close>.
\<close>

record slotOutcome =
  slotError :: bool
  hasRelease :: bool
  startedStream :: bool

text \<open>How the call of \<open>Forward\<close> ends: with a result, with an error, or in a panic.\<close>

datatype forwardOutcome = ForwardDone | ForwardFailed | ForwardPanicked string

text \<open>
  What the collaborators of one request answer. \<open>incrementWait\<close> is the result of
  \<open>IncrementWaitCount\<close>: \<open>None\<close> for an error, otherwise \<open>canWait\<close>. \<open>billingError\<close> and
  the left side of \<open>selection\<close> are error texts; \<open>forwarding\<close> tells how \<open>Forward\<close> ends.
\<close>

record HandlerEnv =
  hasApiKey :: bool
  hasUser :: bool
  readBody :: "string option"
  isCodexCLI :: bool
  defaultInstructions :: string
  clientFlushes :: bool
  incrementWait :: "bool option"
  userSlot :: slotOutcome
  billingError :: "string option"
  selection :: "string + int"
  accountSlot :: slotOutcome
  forwarding :: forwardOutcome

definition errorResponse :: "nat \<Rightarrow> string \<Rightarrow> string \<Rightarrow> handlerEvent list" where
  "errorResponse status errType message = [Respond (JSONError status errType message)]"

definition handleStreamingAwareError ::
  "HandlerEnv \<Rightarrow> nat \<Rightarrow> string \<Rightarrow> string \<Rightarrow> bool \<Rightarrow> handlerEvent list" where
  "handleStreamingAwareError env status errType message streamStarted =
     (if streamStarted then
        (if clientFlushes env then [Respond (SSEErrorEvent errType message)] else [])
      else errorResponse status errType message)"

text \<open>\<open>http.StatusTooManyRequests\<close> is 429.\<close>

definition handleConcurrencyError :: "HandlerEnv \<Rightarrow> string \<Rightarrow> bool \<Rightarrow> handlerEvent list" where
  "handleConcurrencyError env slotType streamStarted =
     handleStreamingAwareError env 429 ''rate_limit_error''
       (''Concurrency limit exceeded for '' @ slotType @ '', please retry later'') streamStarted"

text \<open>
  The handler from the account selection on. The deferred release of the account slot
  runs when the handler returns, after everything else here; when \<open>Forward\<close> panics it
  runs while the panic unwinds, and so do the deferred calls of \<open>admit\<close>.
\<close>

definition serveWithAccount :: "HandlerEnv \<Rightarrow> bool \<Rightarrow> handlerEvent list" where
  "serveWithAccount env streamStarted =
     SelectAccount #
     (case selection env of
        Inl err \<Rightarrow>
          handleStreamingAwareError env 503 ''api_error'' (''No available accounts: '' @ err)
            streamStarted
      | Inr account \<Rightarrow>
          AcquireAccountSlot #
          (let streamStarted = (streamStarted \<or> startedStream (accountSlot env)) in
           if slotError (accountSlot env)
             then handleConcurrencyError env ''account'' streamStarted
           else
             (ForwardRequest #
              (case forwarding env of
                 ForwardDone \<Rightarrow> [SpawnRecordUsage]
               | ForwardFailed \<Rightarrow> []
               | ForwardPanicked message \<Rightarrow> [Panic message]))
             @ (if hasRelease (accountSlot env) then [ReleaseAccountSlot] else [])))"

text \<open>
  The handler from the wait queue on (the comments \<open>0.\<close> to \<open>3.\<close> of the source). An
  error of \<open>IncrementWaitCount\<close> is logged and the request goes on; the deferred
  \<open>DecrementWaitCount\<close> and the deferred release of the user slot run at the return.
\<close>

definition admit :: "HandlerEnv \<Rightarrow> handlerEvent list" where
  "admit env =
     IncrementWaitCount #
     (if incrementWait env = Some False
        then errorResponse 429 ''rate_limit_error'' ''Too many pending requests, please retry later''
      else
        (AcquireUserSlot #
         (let streamStarted = startedStream (userSlot env) in
          if slotError (userSlot env)
            then handleConcurrencyError env ''user'' streamStarted
          else
            (CheckBillingEligibility #
             (case billingError env of
                Some message \<Rightarrow>
                  handleStreamingAwareError env 403 ''billing_error'' message streamStarted
              | None \<Rightarrow> serveWithAccount env streamStarted))
            @ (if hasRelease (userSlot env) then [ReleaseUserSlot] else [])))
        @ [DecrementWaitCount])"

text \<open>
  \<open>Responses\<close>: the checks of the request, then the admission. For a client that is not
  the Codex CLI the default instructions are written into the parsed body; when the body
  is the JSON text \<open>null\<close> the map is \<open>nil\<close> and the write panics.
\<close>

definition Responses :: "Codec \<Rightarrow> HandlerEnv \<Rightarrow> handlerEvent list" where
  "Responses codec env =
     (if \<not> hasApiKey env then errorResponse 401 ''authentication_error'' ''Invalid API key''
      else if \<not> hasUser env then errorResponse 500 ''api_error'' ''User context not found''
      else case readBody env of
        None \<Rightarrow> errorResponse 400 ''invalid_request_error'' ''Failed to read request body''
      | Some body \<Rightarrow>
          if body = [] then errorResponse 400 ''invalid_request_error'' ''Request body is empty''
          else case UnmarshalMap codec body of
            None \<Rightarrow> errorResponse 400 ''invalid_request_error'' ''Failed to parse request body''
          | Some parsed \<Rightarrow>
              if isCodexCLI env then admit env
              else if IsNull codec body then [Panic ''assignment to entry in nil map'']
              else if Marshal codec
                        (JObject (setField ''instructions'' (JString (defaultInstructions env)) parsed))
                      = None
                then errorResponse 500 ''api_error'' ''Failed to process request''
              else admit env)"

text \<open>The statuses of the JSON errors among the events of a run.\<close>

fun jsonStatuses :: "handlerEvent list \<Rightarrow> nat list" where
  "jsonStatuses [] = []"
| "jsonStatuses (Respond (JSONError status errType message) # events) = status # jsonStatuses events"
| "jsonStatuses (event # events) = jsonStatuses events"

text \<open>A request for which every collaborator answers well.\<close>

definition smoothSlot :: slotOutcome where
  "smoothSlot = \<lparr>slotError = False, hasRelease = True, startedStream = False\<rparr>"

definition failedSlot :: slotOutcome where
  "failedSlot = \<lparr>slotError = True, hasRelease = False, startedStream = False\<rparr>"

definition smoothRequest :: HandlerEnv where
  "smoothRequest =
     \<lparr>hasApiKey = True, hasUser = True, readBody = Some ''{}'', isCodexCLI = True,
      defaultInstructions = [], clientFlushes = True, incrementWait = Some True,
      userSlot = smoothSlot, billingError = None, selection = Inr 1,
      accountSlot = smoothSlot, forwarding = ForwardDone\<rparr>"

definition emptyObjectCodec :: Codec where
  "emptyObjectCodec = tableCodec [(''{}'', JObject [])] []"

section \<open>Image prices\<close>

text \<open>
  \<open>BillingService.CalculateImageCost\<close> is not among the sources; its unit tests are
  (\<open>part_003\<close>). They read two fields of the cost it returns and build the group's
  price table from optional prices. Money is \<open>float64\<close> in the source; the rationals
  stand for it here, and the tests compare within 0.0001.
\<close>

record ImagePriceConfig =
  Price1K :: "rat option"
  Price2K :: "rat option"
  Price4K :: "rat option"

record CostBreakdown =
  TotalCost :: rat
  ActualCost :: rat

text \<open>
  The type of \<open>CalculateImageCost(model, imageSize, imageCount, groupConfig,
  rateMultiplier)\<close>, as the tests call it.
\<close>

type_synonym imageCostFn =
  "string \<Rightarrow> string \<Rightarrow> int \<Rightarrow> ImagePriceConfig option \<Rightarrow> rat \<Rightarrow> CostBreakdown"

text \<open>\<open>require.InDelta(t, expected, actual, delta)\<close>.\<close>

definition inDelta :: "rat \<Rightarrow> rat \<Rightarrow> rat \<Rightarrow> bool" where
  "inDelta expected actual delta = (\<bar>expected - actual\<bar> \<le> delta)"




definition TestCalculateImageCost_4KDoublePrice :: "imageCostFn \<Rightarrow> bool" where
  "TestCalculateImageCost_4KDoublePrice calc =
     inDelta (268 / 1000) (TotalCost (calc ''gemini-3-pro-image'' ''4K'' 1 None 1)) (1 / 10000)"









definition TestGetDefaultImagePrice_FallbackHardcoded :: "imageCostFn \<Rightarrow> bool" where
  "TestGetDefaultImagePrice_FallbackHardcoded calc =
     (inDelta (134 / 1000) (TotalCost (calc ''gemini-3-pro-image'' ''1K'' 1 None 1)) (1 / 10000)
      \<and> inDelta (201 / 1000) (TotalCost (calc ''gemini-3-pro-image'' ''2K'' 1 None 1)) (1 / 10000))"



text \<open>
  Modelled from the spec: the pricing of images, whose function
  \<open>BillingService.CalculateImageCost\<close> is missing. Section 4.8 of the specification: image
  models price per image per resolution, with 4K defaulting to twice the 2K price and 2K
  defaulting to 1.5 times the 1K price; the table of the group comes first, then the
  hard-coded defaults; the total is the sum of the buckets times the rate multiplier, and
  the actual cost is the total times the rate multiplier. The specification names no
  price of 1K and none of a size it does not know: \<open>base\<close> and \<open>other\<close> stand for them.
\<close>

definition specDefaultImagePrice :: "rat \<Rightarrow> rat \<Rightarrow> string \<Rightarrow> rat" where
  "specDefaultImagePrice base other imageSize =
     (if imageSize = ''1K'' then base
      else if imageSize = ''2K'' then (3 / 2) * base
      else if imageSize = ''4K'' then 2 * ((3 / 2) * base)
      else other)"

definition specGroupImagePrice :: "ImagePriceConfig \<Rightarrow> string \<Rightarrow> rat option" where
  "specGroupImagePrice config imageSize =
     (if imageSize = ''1K'' then Price1K config
      else if imageSize = ''2K'' then Price2K config
      else if imageSize = ''4K'' then Price4K config
      else None)"

definition specImageUnitPrice :: "rat \<Rightarrow> rat \<Rightarrow> string \<Rightarrow> ImagePriceConfig option \<Rightarrow> rat" where
  "specImageUnitPrice base other imageSize groupConfig =
     (case groupConfig of
        None \<Rightarrow> specDefaultImagePrice base other imageSize
      | Some config \<Rightarrow>
          (case specGroupImagePrice config imageSize of
             Some price \<Rightarrow> price
           | None \<Rightarrow> specDefaultImagePrice base other imageSize))"

definition specImageCost :: "rat \<Rightarrow> rat \<Rightarrow> imageCostFn" where
  "specImageCost base other model imageSize imageCount groupConfig rateMultiplier =
     (let total = specImageUnitPrice base other imageSize groupConfig * of_int imageCount
                    * rateMultiplier
      in \<lparr>TotalCost = total, ActualCost = total * rateMultiplier\<rparr>)"


chapter \<open>Verified properties\<close>

section \<open>Evaluating strings\<close>

lemmas lower_eval = toLower_def isASCII_def toLowerByte_def char_of_def bit_Suc_0_iff

section \<open>Evaluating the concrete repositories\<close>

lemma GetByID_repoOf [simp]:
  "GetByID (repoOf stored listed) i =
     (case find (\<lambda>a. ID a = i) stored of None \<Rightarrow> Inl (RepoError ''account not found'') | Some a \<Rightarrow> Inr a)"
  by (simp add: repoOf_def)

lemma listSchedulable_repoOf [simp]: "listSchedulable (repoOf stored listed) g = Inr listed"
  by (simp add: repoOf_def listSchedulable_def split: option.splits)

lemmas account_eval =
  openaiAccount_def pausedAccount_def IsSchedulable_def IsOpenAI_def IsModelSupported_def

section \<open>The selection loop returns a minimum of its order\<close>

lemma lruOlderEq_refl: "lruOlderEq s s"
  by (simp add: lruOlderEq_def split: option.splits)

lemma lruOlderEq_trans: "lruOlderEq s t \<Longrightarrow> lruOlderEq t u \<Longrightarrow> lruOlderEq s u"
  by (auto simp: lruOlderEq_def split: option.splits)

lemma priorityLRUBefore_refl: "priorityLRUBefore a a"
  by (simp add: priorityLRUBefore_def lruOlderEq_refl)

lemma priorityLRUBefore_trans:
  "priorityLRUBefore a b \<Longrightarrow> priorityLRUBefore b c \<Longrightarrow> priorityLRUBefore a c"
  unfolding priorityLRUBefore_def using lruOlderEq_trans by force

lemma takesPlace_before: "takesPlace acc sel \<Longrightarrow> priorityLRUBefore acc sel"
  by (auto simp: takesPlace_def priorityLRUBefore_def lruOlderEq_def split: option.splits)

lemma kept_before: "\<not> takesPlace acc sel \<Longrightarrow> priorityLRUBefore sel acc"
  by (auto simp: takesPlace_def priorityLRUBefore_def lruOlderEq_def split: option.splits)

lemma takesPlace_through:
  "takesPlace x r \<Longrightarrow> priorityLRUBefore r c \<Longrightarrow> takesPlace x c"
  by (auto simp: takesPlace_def priorityLRUBefore_def lruOlderEq_def split: option.splits)

lemma candidates_Cons:
  "candidates m (acc # accounts) =
     (if m \<noteq> [] \<and> \<not> IsModelSupported acc m then candidates m accounts
      else acc # candidates m accounts)"
  by (auto simp: candidates_def)

text \<open>One round of the loop.\<close>

lemma loop_Cons_supported:
  "m = [] \<or> IsModelSupported acc m \<Longrightarrow>
     selectByPriorityLRU m (acc # accounts) sel = selectByPriorityLRU m accounts (afterRound sel acc)"
  by (cases sel) (auto simp: afterRound_def takesPlace_def)

lemma loop_Cons_unsupported:
  "m \<noteq> [] \<Longrightarrow> \<not> IsModelSupported acc m \<Longrightarrow>
     selectByPriorityLRU m (acc # accounts) sel = selectByPriorityLRU m accounts sel"
  by (cases sel) auto

text \<open>The loop sees the candidates only.\<close>

lemma loop_candidates:
  "selectByPriorityLRU m accounts sel = selectByPriorityLRU [] (candidates m accounts) sel"
proof (induction accounts arbitrary: sel)
  case Nil
  show ?case by (simp add: candidates_def)
next
  case (Cons acc accounts)
  show ?case
  proof (cases "m = [] \<or> IsModelSupported acc m")
    case True
    then have "candidates m (acc # accounts) = acc # candidates m accounts"
      by (auto simp: candidates_Cons)
    then show ?thesis
      using True Cons.IH[of "afterRound sel acc"]
      by (simp only: loop_Cons_supported[OF True] loop_Cons_supported[of "[]", OF disjI1[OF refl]])
  next
    case False
    then have "candidates m (acc # accounts) = candidates m accounts"
      by (auto simp: candidates_Cons)
    moreover have "selectByPriorityLRU m (acc # accounts) sel = selectByPriorityLRU m accounts sel"
      using False by (intro loop_Cons_unsupported) simp_all
    ultimately show ?thesis using Cons.IH[of sel] by simp
  qed
qed

lemma loop_step:
  "selectByPriorityLRU [] (acc # cs) (Some s)
     = selectByPriorityLRU [] cs (Some (if takesPlace acc s then acc else s))"
  using loop_Cons_supported[of "[]" acc cs "Some s"] by (simp add: afterRound_def)

lemma loop_append:
  "selectByPriorityLRU [] (cs @ [x]) sel =
     (case selectByPriorityLRU [] cs sel of
        None \<Rightarrow> Some x
      | Some r \<Rightarrow> Some (if takesPlace x r then x else r))"
proof (induction cs arbitrary: sel)
  case Nil
  show ?case by (cases sel) (auto simp: takesPlace_def)
next
  case (Cons c cs)
  show ?case
  proof (cases sel)
    case None
    then show ?thesis using Cons.IH[of "Some c"] by simp
  next
    case (Some s)
    then show ?thesis using Cons.IH[of "Some (if takesPlace c s then c else s)"]
      by (simp only: append_Cons loop_step)
  qed
qed

lemma loop_position:
  "cs \<noteq> [] \<Longrightarrow>
     \<exists>r pre post. selectByPriorityLRU [] cs None = Some r
       \<and> cs = pre @ r # post
       \<and> (\<forall>c \<in> set cs. priorityLRUBefore r c)
       \<and> (\<forall>c \<in> set pre. takesPlace r c)
       \<and> (\<forall>c \<in> set post. \<not> takesPlace c r)"
proof (induction cs rule: rev_induct)
  case Nil
  then show ?case by simp
next
  case (snoc x cs)
  show ?case
  proof (cases "cs = []")
    case True
    have "selectByPriorityLRU [] [x] None = Some x" by simp
    moreover have "[x] = [] @ x # []" by simp
    ultimately show ?thesis using True priorityLRUBefore_refl[of x] by fastforce
  next
    case False
    from snoc.IH[OF False] obtain r pre post where r:
      "selectByPriorityLRU [] cs None = Some r"
      "cs = pre @ r # post"
      "\<forall>c \<in> set cs. priorityLRUBefore r c"
      "\<forall>c \<in> set pre. takesPlace r c"
      "\<forall>c \<in> set post. \<not> takesPlace c r"
      by blast
    show ?thesis
    proof (cases "takesPlace x r")
      case True
      have res: "selectByPriorityLRU [] (cs @ [x]) None = Some x"
        using r(1) True by (simp add: loop_append)
      have all: "\<forall>c \<in> set cs. takesPlace x c"
        using r(3) True takesPlace_through by blast
      then have "\<forall>c \<in> set (cs @ [x]). priorityLRUBefore x c"
        using takesPlace_before priorityLRUBefore_refl by auto
      moreover have "cs @ [x] = cs @ x # []" by simp
      ultimately show ?thesis using res all by (intro exI[of _ x] exI[of _ cs] exI[of _ "[]"]) simp
    next
      case False
      have res: "selectByPriorityLRU [] (cs @ [x]) None = Some r"
        using r(1) False by (simp add: loop_append)
      have "priorityLRUBefore r x" using False by (rule kept_before)
      then have "\<forall>c \<in> set (cs @ [x]). priorityLRUBefore r c" using r(3) by auto
      moreover have "cs @ [x] = pre @ r # (post @ [x])" using r(2) by simp
      moreover have "\<forall>c \<in> set (post @ [x]). \<not> takesPlace c r" using r(5) False by auto
      ultimately show ?thesis using res r(4)
        by (intro exI[of _ r] exI[of _ pre] exI[of _ "post @ [x]"]) simp
    qed
  qed
qed

lemma never_used_is_last:
  "\<forall>c \<in> set post. \<not> takesPlace c r \<Longrightarrow> LastUsedAt r = None \<Longrightarrow>
     \<forall>c \<in> set post. \<not> (Priority c = Priority r \<and> LastUsedAt c = None)"
  by (auto simp: takesPlace_def)

lemma used_is_first:
  "\<forall>c \<in> set pre. takesPlace r c \<Longrightarrow> LastUsedAt r \<noteq> None \<Longrightarrow>
     \<forall>c \<in> set pre. \<not> (Priority c = Priority r \<and> LastUsedAt c = LastUsedAt r)"
  by (auto simp: takesPlace_def)

text \<open>The loop does not read the id of an account.\<close>

lemma supported_relabel [simp]: "IsModelSupported (a\<lparr>ID := i\<rparr>) m = IsModelSupported a m"
  by (simp add: IsModelSupported_def)

lemma takesPlace_relabel [simp]:
  "takesPlace (a\<lparr>ID := i\<rparr>) (b\<lparr>ID := j\<rparr>) = takesPlace a b"
  by (simp add: takesPlace_def)

lemma afterRound_relabel:
  "afterRound (map_option (\<lambda>a. a\<lparr>ID := relabel a\<rparr>) sel) (acc\<lparr>ID := relabel acc\<rparr>)
     = map_option (\<lambda>a. a\<lparr>ID := relabel a\<rparr>) (afterRound sel acc)"
  by (cases sel) (simp_all add: afterRound_def)

lemma loop_relabel:
  "selectByPriorityLRU m (map (\<lambda>a. a\<lparr>ID := relabel a\<rparr>) accounts)
       (map_option (\<lambda>a. a\<lparr>ID := relabel a\<rparr>) sel)
     = map_option (\<lambda>a. a\<lparr>ID := relabel a\<rparr>) (selectByPriorityLRU m accounts sel)"
proof (induction accounts arbitrary: sel)
  case Nil
  show ?case by simp
next
  case (Cons acc accounts)
  let ?g = "\<lambda>a. a\<lparr>ID := relabel a\<rparr>"
  show ?case
  proof (cases "m = [] \<or> IsModelSupported acc m")
    case True
    then have sup: "m = [] \<or> IsModelSupported (?g acc) m" by simp
    have "selectByPriorityLRU m (map ?g (acc # accounts)) (map_option ?g sel)
        = selectByPriorityLRU m (map ?g accounts) (afterRound (map_option ?g sel) (?g acc))"
      using loop_Cons_supported[OF sup] by simp
    also have "\<dots> = selectByPriorityLRU m (map ?g accounts) (map_option ?g (afterRound sel acc))"
      by (simp only: afterRound_relabel)
    also have "\<dots> = map_option ?g (selectByPriorityLRU m accounts (afterRound sel acc))"
      by (rule Cons.IH)
    also have "\<dots> = map_option ?g (selectByPriorityLRU m (acc # accounts) sel)"
      by (simp only: loop_Cons_supported[OF True])
    finally show ?thesis .
  next
    case False
    then have unsup: "m \<noteq> []" "\<not> IsModelSupported (?g acc) m" "\<not> IsModelSupported acc m"
      by simp_all
    have "selectByPriorityLRU m (map ?g (acc # accounts)) (map_option ?g sel)
        = selectByPriorityLRU m (map ?g accounts) (map_option ?g sel)"
      using loop_Cons_unsupported[OF unsup(1,2)] by simp
    also have "\<dots> = map_option ?g (selectByPriorityLRU m accounts sel)"
      by (rule Cons.IH)
    also have "\<dots> = map_option ?g (selectByPriorityLRU m (acc # accounts) sel)"
      by (simp only: loop_Cons_unsupported[OF unsup(1,3)])
    finally show ?thesis .
  qed
qed

text \<open>
  C2 (as amended). For every selection call that reaches the candidate loop (no usable
  sticky binding) and whose candidate set is not empty, the call returns a candidate
  that is minimal in the order: ascending priority, then the oldest \<open>LastUsedAt\<close>,
  \<open>nil\<close> being the oldest. Candidates equal in both keys are told apart by their place in
  the queried list: of never-used ones the one listed last is returned, of ones used at
  the same instant the one listed first. Neither the in-flight count nor the account id
  takes part: the loop has no count to read, and giving the accounts other ids changes
  nothing but the id of the account returned.
\<close>

theorem selected_is_minimal:
  assumes "stickyAccount repo cache sessionHash requestedModel = None"
    and "listSchedulable repo groupID = Inr accounts"
    and "candidates requestedModel accounts \<noteq> []"
  shows "\<exists>selected pre post.
     fst (SelectAccountForModel repo cache groupID sessionHash requestedModel) = Inr selected
     \<and> selected \<in> set (candidates requestedModel accounts)
     \<and> (\<forall>c \<in> set (candidates requestedModel accounts). priorityLRUBefore selected c)
     \<and> candidates requestedModel accounts = pre @ selected # post
     \<and> (LastUsedAt selected = None \<longrightarrow>
          (\<forall>c \<in> set post. \<not> (Priority c = Priority selected \<and> LastUsedAt c = None)))
     \<and> (LastUsedAt selected \<noteq> None \<longrightarrow>
          (\<forall>c \<in> set pre. \<not> (Priority c = Priority selected \<and> LastUsedAt c = LastUsedAt selected)))
     \<and> (\<forall>relabel.
          selectByPriorityLRU requestedModel (map (\<lambda>a. a\<lparr>ID := relabel a\<rparr>) accounts) None
            = Some (selected\<lparr>ID := relabel selected\<rparr>))"
proof -
  let ?cs = "candidates requestedModel accounts"
  from loop_position[OF assms(3)] obtain r pre post where r:
    "selectByPriorityLRU [] ?cs None = Some r"
    "?cs = pre @ r # post"
    "\<forall>c \<in> set ?cs. priorityLRUBefore r c"
    "\<forall>c \<in> set pre. takesPlace r c"
    "\<forall>c \<in> set post. \<not> takesPlace c r"
    by blast
  have loop: "selectByPriorityLRU requestedModel accounts None = Some r"
    using r(1) loop_candidates[of requestedModel accounts None] by simp
  have res: "fst (SelectAccountForModel repo cache groupID sessionHash requestedModel) = Inr r"
    by (simp add: SelectAccountForModel_def selectFresh_def assms(1,2) loop)
  have mem: "r \<in> set ?cs" using r(2) by (metis in_set_conv_decomp)
  have last: "LastUsedAt r = None \<longrightarrow>
      (\<forall>c \<in> set post. \<not> (Priority c = Priority r \<and> LastUsedAt c = None))"
    using never_used_is_last[OF r(5)] by blast
  have first: "LastUsedAt r \<noteq> None \<longrightarrow>
      (\<forall>c \<in> set pre. \<not> (Priority c = Priority r \<and> LastUsedAt c = LastUsedAt r))"
    using used_is_first[OF r(4)] by blast
  have relabel: "selectByPriorityLRU requestedModel (map (\<lambda>a. a\<lparr>ID := relabel a\<rparr>) accounts) None
      = Some (r\<lparr>ID := relabel r\<rparr>)" for relabel
    using loop_relabel[of requestedModel relabel accounts None] loop by simp
  show ?thesis
  proof (rule exI[of _ r], rule exI[of _ pre], rule exI[of _ post], intro conjI allI)
    show "fst (SelectAccountForModel repo cache groupID sessionHash requestedModel) = Inr r"
      by (rule res)
    show "r \<in> set ?cs" by (rule mem)
    show "\<forall>c \<in> set ?cs. priorityLRUBefore r c" by (rule r(3))
    show "?cs = pre @ r # post" by (rule r(2))
    show "LastUsedAt r = None \<longrightarrow>
      (\<forall>c \<in> set post. \<not> (Priority c = Priority r \<and> LastUsedAt c = None))" by (rule last)
    show "LastUsedAt r \<noteq> None \<longrightarrow>
      (\<forall>c \<in> set pre. \<not> (Priority c = Priority r \<and> LastUsedAt c = LastUsedAt r))" by (rule first)
  next
    fix relabel
    show "selectByPriorityLRU requestedModel (map (\<lambda>a. a\<lparr>ID := relabel a\<rparr>) accounts) None
      = Some (r\<lparr>ID := relabel r\<rparr>)" by (rule relabel)
  qed
qed

theorem selected_is_minimal_witness:
  "stickyAccount (repoOf [] [openaiAccount 1 1 None, openaiAccount 2 1 None, openaiAccount 3 1 (Some 40)])
       Map.empty [] ''gpt-5.2'' = None
   \<and> candidates ''gpt-5.2'' [openaiAccount 1 1 None, openaiAccount 2 1 None, openaiAccount 3 1 (Some 40)] \<noteq> []
   \<and> (\<exists>selected pre post.
     fst (SelectAccountForModel (repoOf [] 
          [openaiAccount 1 1 None, openaiAccount 2 1 None, openaiAccount 3 1 (Some 40)]) Map.empty None [] ''gpt-5.2'') = Inr selected
     \<and> selected \<in> set (candidates ''gpt-5.2'' 
          [openaiAccount 1 1 None, openaiAccount 2 1 None, openaiAccount 3 1 (Some 40)])
     \<and> (\<forall>c \<in> set (candidates ''gpt-5.2'' 
          [openaiAccount 1 1 None, openaiAccount 2 1 None, openaiAccount 3 1 (Some 40)]). priorityLRUBefore selected c)
     \<and> candidates ''gpt-5.2'' 
          [openaiAccount 1 1 None, openaiAccount 2 1 None, openaiAccount 3 1 (Some 40)] = pre @ selected # post
     \<and> (LastUsedAt selected = None \<longrightarrow>
          (\<forall>c \<in> set post. \<not> (Priority c = Priority selected \<and> LastUsedAt c = None)))
     \<and> (LastUsedAt selected \<noteq> None \<longrightarrow>
          (\<forall>c \<in> set pre. \<not> (Priority c = Priority selected \<and> LastUsedAt c = LastUsedAt selected)))
     \<and> (\<forall>relabel.
          selectByPriorityLRU ''gpt-5.2'' (map (\<lambda>a. a\<lparr>ID := relabel a\<rparr>) 
          [openaiAccount 1 1 None, openaiAccount 2 1 None, openaiAccount 3 1 (Some 40)]) None
            = Some (selected\<lparr>ID := relabel selected\<rparr>)))
   \<and> fst (SelectAccountForModel (repoOf []
          [openaiAccount 1 1 None, openaiAccount 2 1 None, openaiAccount 3 1 (Some 40)]) Map.empty None [] ''gpt-5.2'')
       = Inr (openaiAccount 2 1 None)"
proof -
  let ?accounts = "[openaiAccount 1 1 None, openaiAccount 2 1 None, openaiAccount 3 1 (Some 40)]"
  have h1: "stickyAccount (repoOf [] ?accounts) Map.empty [] ''gpt-5.2'' = None"
    by (simp add: stickyAccount_def)
  have h2: "listSchedulable (repoOf [] ?accounts) None = Inr ?accounts" by simp
  have h3: "candidates ''gpt-5.2'' ?accounts \<noteq> []"
    by (simp add: candidates_def openaiAccount_def IsModelSupported_def)
  have h4: "fst (SelectAccountForModel (repoOf [] ?accounts) Map.empty None [] ''gpt-5.2'')
      = Inr (openaiAccount 2 1 None)"
    by (simp add: SelectAccountForModel_def selectFresh_def stickyAccount_def openaiAccount_def
        IsModelSupported_def)
  from selected_is_minimal[OF h1 h2 h3] h1 h3 h4 show ?thesis by blast
qed

text \<open>
  The ranking of the specification is not what the loop computes. Two accounts of equal
  priority that were never used: the loop returns the one listed last (id 2), the
  specification's order puts id 1 first. Two accounts of equal priority, the first
  idle and used later, the second with nine requests in flight and used earlier: the
  loop returns the second, the specification's order puts the idle one first.
\<close>

theorem ranking_counterexample:
  "openaiAccount 1 1 None \<in> set (candidates [] [openaiAccount 1 1 None, openaiAccount 2 1 None])
   \<and> fst (SelectAccountForModel (repoOf [] [openaiAccount 1 1 None, openaiAccount 2 1 None])
          Map.empty None [] []) = Inr (openaiAccount 2 1 None)
   \<and> specRankedBefore idleLoad (openaiAccount 1 1 None) (openaiAccount 2 1 None)
   \<and> fst (SelectAccountForModel (repoOf [] [openaiAccount 1 1 (Some 50), openaiAccount 2 1 (Some 40)])
          Map.empty None [] []) = Inr (openaiAccount 2 1 (Some 40))
   \<and> specRankedBefore busyFirstLoad (openaiAccount 1 1 (Some 50)) (openaiAccount 2 1 (Some 40))"
  by (simp add: SelectAccountForModel_def selectFresh_def stickyAccount_def openaiAccount_def
      specRankedBefore_def idleLoad_def busyFirstLoad_def lruOlder_def lruOlderEq_def
      candidates_def)

section \<open>The sticky binding\<close>

lemma stickyAccount_bound:
  assumes "sessionHash \<noteq> []"
    and "cache (stickyKey sessionHash) = Some (accountID, ttl)"
    and "accountID > 0"
    and "GetByID repo accountID = Inr A"
  shows "stickyAccount repo cache sessionHash requestedModel =
     (if IsSchedulable A \<and> IsOpenAI A \<and> (requestedModel = [] \<or> IsModelSupported A requestedModel)
      then Some A else None)"
  using assms by (simp add: stickyAccount_def GetSessionAccountID_def)

lemma selectFresh_cache:
  "(case fst (selectFresh repo cache groupID sessionHash requestedModel) of
      Inl e \<Rightarrow> snd (selectFresh repo cache groupID sessionHash requestedModel) = cache
    | Inr B \<Rightarrow> sessionHash \<noteq> [] \<longrightarrow>
        snd (selectFresh repo cache groupID sessionHash requestedModel)
          = cache(stickyKey sessionHash \<mapsto> (ID B, openaiStickySessionTTL)))"
  by (simp add: selectFresh_def SetSessionAccountID_def split: sum.splits option.splits)

text \<open>
  C1 (as amended). For every selection call with a non-empty session hash whose cached
  binding names an account \<open>A\<close> that the repository resolves: if \<open>A\<close> is
  schedulable, an OpenAI account and supports the requested model, the call returns
  \<open>A\<close> and re-arms the binding's time to live to one hour, and the same call repeated
  returns \<open>A\<close> again. Otherwise the call behaves as the candidate selection run on the
  cache with the binding still in it: a failed selection leaves the cache as it was, a
  successful one overwrites the binding with the new account.
\<close>

theorem sticky_binding_reused_or_kept:
  assumes "sessionHash \<noteq> []"
    and "cache (stickyKey sessionHash) = Some (accountID, ttl)"
    and "accountID > 0"
    and "GetByID repo accountID = Inr A"
  shows
    "(IsSchedulable A \<and> IsOpenAI A \<and> (requestedModel = [] \<or> IsModelSupported A requestedModel) \<longrightarrow>
        SelectAccountForModel repo cache groupID sessionHash requestedModel
          = (Inr A, cache(stickyKey sessionHash \<mapsto> (accountID, openaiStickySessionTTL)))
        \<and> SelectAccountForModel repo
             (cache(stickyKey sessionHash \<mapsto> (accountID, openaiStickySessionTTL)))
             groupID sessionHash requestedModel
          = (Inr A, cache(stickyKey sessionHash \<mapsto> (accountID, openaiStickySessionTTL))))
     \<and> (\<not> (IsSchedulable A \<and> IsOpenAI A \<and> (requestedModel = [] \<or> IsModelSupported A requestedModel)) \<longrightarrow>
        SelectAccountForModel repo cache groupID sessionHash requestedModel
          = selectFresh repo cache groupID sessionHash requestedModel
        \<and> (case fst (SelectAccountForModel repo cache groupID sessionHash requestedModel) of
              Inl e \<Rightarrow> snd (SelectAccountForModel repo cache groupID sessionHash requestedModel) = cache
            | Inr B \<Rightarrow> snd (SelectAccountForModel repo cache groupID sessionHash requestedModel)
                = cache(stickyKey sessionHash \<mapsto> (ID B, openaiStickySessionTTL))))"
proof (intro conjI impI)
  assume ok: "IsSchedulable A \<and> IsOpenAI A \<and> (requestedModel = [] \<or> IsModelSupported A requestedModel)"
  let ?cache' = "cache(stickyKey sessionHash \<mapsto> (accountID, openaiStickySessionTTL))"
  have "stickyAccount repo cache sessionHash requestedModel = Some A"
    using stickyAccount_bound[where cache=cache and sessionHash=sessionHash, OF assms] ok by simp
  then show "SelectAccountForModel repo cache groupID sessionHash requestedModel = (Inr A, ?cache')"
    using assms(2) by (simp add: SelectAccountForModel_def RefreshSessionTTL_def)
  have "?cache' (stickyKey sessionHash) = Some (accountID, openaiStickySessionTTL)" by simp
  from stickyAccount_bound[where cache="?cache'" and sessionHash=sessionHash, OF assms(1) this assms(3,4)] ok
  have "stickyAccount repo ?cache' sessionHash requestedModel = Some A" by simp
  then show "SelectAccountForModel repo ?cache' groupID sessionHash requestedModel = (Inr A, ?cache')"
    by (simp add: SelectAccountForModel_def RefreshSessionTTL_def)
next
  assume bad: "\<not> (IsSchedulable A \<and> IsOpenAI A \<and> (requestedModel = [] \<or> IsModelSupported A requestedModel))"
  have none: "stickyAccount repo cache sessionHash requestedModel = None"
    using stickyAccount_bound[where cache=cache and sessionHash=sessionHash, OF assms] bad by simp
  then show eq: "SelectAccountForModel repo cache groupID sessionHash requestedModel
      = selectFresh repo cache groupID sessionHash requestedModel"
    by (simp add: SelectAccountForModel_def)
  show "(case fst (SelectAccountForModel repo cache groupID sessionHash requestedModel) of
              Inl e \<Rightarrow> snd (SelectAccountForModel repo cache groupID sessionHash requestedModel) = cache
            | Inr B \<Rightarrow> snd (SelectAccountForModel repo cache groupID sessionHash requestedModel)
                = cache(stickyKey sessionHash \<mapsto> (ID B, openaiStickySessionTTL)))"
    using selectFresh_cache[of repo cache groupID sessionHash requestedModel] assms(1)
    unfolding eq by (auto split: sum.splits)
qed

theorem sticky_binding_reused_or_kept_witness:
  "SelectAccountForModel (repoOf [openaiAccount 1 1 None] []) staleCache None ''s1'' ''gpt-5.2''
     = (Inr (openaiAccount 1 1 None), staleCache(stickyKey ''s1'' \<mapsto> (1, openaiStickySessionTTL)))
   \<and> SelectAccountForModel (repoOf [pausedAccount] [openaiAccount 2 1 None]) staleCache None ''s1'' ''gpt-5.2''
     = (Inr (openaiAccount 2 1 None), staleCache(stickyKey ''s1'' \<mapsto> (2, openaiStickySessionTTL)))"
proof -
  have h1: "''s1'' \<noteq> []" by simp
  have h2: "staleCache (stickyKey ''s1'') = Some (1, 10)" by (simp add: staleCache_def)
  have h3: "(1::int) > 0" by simp
  have h4: "GetByID (repoOf [openaiAccount 1 1 None] []) 1 = Inr (openaiAccount 1 1 None)"
    by (simp add: openaiAccount_def)
  have ok: "IsSchedulable (openaiAccount 1 1 None) \<and> IsOpenAI (openaiAccount 1 1 None)
      \<and> (''gpt-5.2'' = [] \<or> IsModelSupported (openaiAccount 1 1 None) ''gpt-5.2'')"
    by (simp add: account_eval)
  have h4': "GetByID (repoOf [pausedAccount] [openaiAccount 2 1 None]) 1 = Inr pausedAccount"
    by (simp add: account_eval)
  have bad: "\<not> (IsSchedulable pausedAccount \<and> IsOpenAI pausedAccount
      \<and> (''gpt-5.2'' = [] \<or> IsModelSupported pausedAccount ''gpt-5.2''))"
    by (simp add: account_eval)
  have fresh: "selectFresh (repoOf [pausedAccount] [openaiAccount 2 1 None]) staleCache None ''s1'' ''gpt-5.2''
     = (Inr (openaiAccount 2 1 None), staleCache(stickyKey ''s1'' \<mapsto> (2, openaiStickySessionTTL)))"
    by (simp add: selectFresh_def account_eval SetSessionAccountID_def)
  from sticky_binding_reused_or_kept[where cache=staleCache and sessionHash="''s1''"
        and requestedModel="''gpt-5.2''" and groupID=None, OF h1 h2 h3 h4] ok
    sticky_binding_reused_or_kept[where cache=staleCache and sessionHash="''s1''"
        and requestedModel="''gpt-5.2''" and groupID=None, OF h1 h2 h3 h4'] bad fresh
  show ?thesis by simp
qed

text \<open>
  The binding is not dropped: a call whose binding names a paused account, and which
  finds no candidate, fails and leaves the binding in the cache.
\<close>

theorem stale_binding_counterexample:
  "staleCache (stickyKey ''s1'') = Some (1, 10)
   \<and> GetByID (repoOf [pausedAccount] []) 1 = Inr pausedAccount
   \<and> \<not> IsSchedulable pausedAccount
   \<and> fst (SelectAccountForModel (repoOf [pausedAccount] []) staleCache None ''s1'' ''gpt-5.2'')
       = Inl (NoAccountsSupportingModel ''gpt-5.2'')
   \<and> snd (SelectAccountForModel (repoOf [pausedAccount] []) staleCache None ''s1'' ''gpt-5.2'')
       (stickyKey ''s1'') = Some (1, 10)"
  by (simp add: SelectAccountForModel_def selectFresh_def stickyAccount_def GetSessionAccountID_def
      staleCache_def account_eval)

section \<open>Orphaned tool outputs\<close>

lemma convert_is_orphanMessage:
  "convertOrphanedOutputToMessage codec m (getCallID m) =
     orphanMessage (toolNameOf m) (callLabelOf m)
       (truncateOutput (stringifyOutput codec (fieldOrNil m ''output'')))"
  by (simp add: convertOrphanedOutputToMessage_def orphanMessage_def toolNameOf_def
      callLabelOf_def truncateOutput_def Let_def)

lemma isCallOf_pair:
  "isCallOf {s, t} callID item \<longleftrightarrow> isCallOf {s} callID item \<or> isCallOf {t} callID item"
  by (auto simp: isCallOf_def split: json.splits)

text \<open>What the first loop collects.\<close>

lemma collected_function_calls:
  "functionCallIDs (collectCallIDs input ids) =
     functionCallIDs ids \<union> {c. c \<noteq> [] \<and> (\<exists>item \<in> set input. isCallOf {''function_call''} c item)}"
proof (induction input arbitrary: ids)
  case Nil
  show ?case by simp
next
  case (Cons item input)
  show ?case
    by (cases item) (auto simp: Cons.IH isCallOf_def Let_def)
qed

lemma collected_local_shell_calls:
  "localShellCallIDs (collectCallIDs input ids) =
     localShellCallIDs ids \<union> {c. c \<noteq> [] \<and> (\<exists>item \<in> set input. isCallOf {''local_shell_call''} c item)}"
proof (induction input arbitrary: ids)
  case Nil
  show ?case by simp
next
  case (Cons item input)
  show ?case
    by (cases item) (auto simp: Cons.IH isCallOf_def Let_def)
qed

lemma collected_custom_tool_calls:
  "customToolCallIDs (collectCallIDs input ids) =
     customToolCallIDs ids \<union> {c. c \<noteq> [] \<and> (\<exists>item \<in> set input. isCallOf {''custom_tool_call''} c item)}"
proof (induction input arbitrary: ids)
  case Nil
  show ?case by simp
next
  case (Cons item input)
  show ?case
    by (cases item) (auto simp: Cons.IH isCallOf_def Let_def)
qed


text \<open>The second loop, for sets that hold what the first loop collects from \<open>all\<close>.\<close>

lemma orphan_test:
  assumes F: "functionCallIDs ids = {c. c \<noteq> [] \<and> (\<exists>item \<in> set all. isCallOf {''function_call''} c item)}"
    and L: "localShellCallIDs ids = {c. c \<noteq> [] \<and> (\<exists>item \<in> set all. isCallOf {''local_shell_call''} c item)}"
    and C: "customToolCallIDs ids = {c. c \<noteq> [] \<and> (\<exists>item \<in> set all. isCallOf {''custom_tool_call''} c item)}"
  shows "isOrphanedOutput all (JObject m) \<longleftrightarrow>
     (map_of m ''type'' = Some (JString ''function_call_output'')
        \<and> (getCallID m = [] \<or> \<not> (getCallID m \<in> functionCallIDs ids \<or> getCallID m \<in> localShellCallIDs ids)))
     \<or> (map_of m ''type'' = Some (JString ''custom_tool_call_output'')
        \<and> (getCallID m = [] \<or> getCallID m \<notin> customToolCallIDs ids))
     \<or> (map_of m ''type'' = Some (JString ''local_shell_call_output'')
        \<and> (getCallID m = [] \<or> getCallID m \<notin> localShellCallIDs ids))"
proof -
  let ?cid = "getCallID m"
  have unfolded: "isOrphanedOutput all (JObject m) \<longleftrightarrow>
     (map_of m ''type'' = Some (JString ''function_call_output'')
        \<and> (?cid = [] \<or> \<not> (\<exists>item \<in> set all. isCallOf {''function_call'', ''local_shell_call''} ?cid item)))
     \<or> (map_of m ''type'' = Some (JString ''custom_tool_call_output'')
        \<and> (?cid = [] \<or> \<not> (\<exists>item \<in> set all. isCallOf {''custom_tool_call''} ?cid item)))
     \<or> (map_of m ''type'' = Some (JString ''local_shell_call_output'')
        \<and> (?cid = [] \<or> \<not> (\<exists>item \<in> set all. isCallOf {''local_shell_call''} ?cid item)))"
    by (simp add: isOrphanedOutput_def toolOutputTypes_def answeringCallTypes_def)
  have inF: "?cid \<in> functionCallIDs ids \<longleftrightarrow>
      ?cid \<noteq> [] \<and> (\<exists>item \<in> set all. isCallOf {''function_call''} ?cid item)"
    unfolding F by simp
  have inL: "?cid \<in> localShellCallIDs ids \<longleftrightarrow>
      ?cid \<noteq> [] \<and> (\<exists>item \<in> set all. isCallOf {''local_shell_call''} ?cid item)"
    unfolding L by simp
  have inC: "?cid \<in> customToolCallIDs ids \<longleftrightarrow>
      ?cid \<noteq> [] \<and> (\<exists>item \<in> set all. isCallOf {''custom_tool_call''} ?cid item)"
    unfolding C by simp
  show ?thesis
    unfolding unfolded inF inL inC isCallOf_pair by blast
qed

lemma rewriteOrphans_map:
  assumes F: "functionCallIDs ids = {c. c \<noteq> [] \<and> (\<exists>item \<in> set all. isCallOf {''function_call''} c item)}"
    and L: "localShellCallIDs ids = {c. c \<noteq> [] \<and> (\<exists>item \<in> set all. isCallOf {''local_shell_call''} c item)}"
    and C: "customToolCallIDs ids = {c. c \<noteq> [] \<and> (\<exists>item \<in> set all. isCallOf {''custom_tool_call''} c item)}"
  shows "rewriteOrphans codec ids input acc = acc @ map (rewriteItem codec all) input"
proof (induction input arbitrary: acc)
  case Nil
  show ?case by simp
next
  case (Cons item input)
  show ?case
  proof (cases item)
    case (JObject m)
    note test = orphan_test[OF F L C, of m]
    show ?thesis
    proof (cases "isOrphanedOutput all (JObject m)")
      case True
      then have "rewriteOrphans codec ids (item # input) acc
          = rewriteOrphans codec ids input (acc @ [convertOrphanedOutputToMessage codec m (getCallID m)])"
        using test JObject by (auto simp: Let_def)
      then show ?thesis
        using True JObject by (simp add: Cons.IH rewriteItem_def convert_is_orphanMessage)
    next
      case False
      then have "rewriteOrphans codec ids (item # input) acc
          = rewriteOrphans codec ids input (acc @ [JObject m])"
        using test JObject by (auto simp: Let_def)
      then show ?thesis
        using False JObject by (simp add: Cons.IH rewriteItem_def)
    qed
  qed (simp_all add: Cons.IH rewriteItem_def)
qed

text \<open>
  C3 (as amended). In the output list of \<open>normalizeOrphanedToolOutputs\<close>, every item of
  type \<open>function_call_output\<close>, \<open>custom_tool_call_output\<close> or
  \<open>local_shell_call_output\<close> whose trimmed \<open>call_id\<close> is empty, or is the \<open>call_id\<close> of
  no call item anywhere in the input list of a type that answers it
  (\<open>function_call\<close> or \<open>local_shell_call\<close> for the first, \<open>custom_tool_call\<close> for the
  second, \<open>local_shell_call\<close> for the third), has become the assistant message
  \<open>[Previous <tool> result; call_id=<id>]: <text>\<close>, the text cut after 16000 bytes and
  then followed by a truncation marker; every other item stands unchanged at its place.
\<close>

theorem orphaned_outputs_rewritten:
  "normalizeOrphanedToolOutputs codec input = map (rewriteItem codec input) input"
proof -
  let ?ids = "collectCallIDs input noCallIDs"
  have "rewriteOrphans codec ?ids input [] = [] @ map (rewriteItem codec input) input"
    by (rule rewriteOrphans_map)
      (simp_all add: collected_function_calls collected_local_shell_calls
        collected_custom_tool_calls noCallIDs_def)
  then show ?thesis by (simp add: normalizeOrphanedToolOutputs_def)
qed

lemmas item_eval = outputItem_def callItem_def getCallID_def trimSpace_def isSpaceByte_def
  toolNameOf_def callLabelOf_def fieldOrNil_def stringifyOutput_def truncateOutput_def

theorem orphaned_outputs_rewritten_witness:
  "normalizeOrphanedToolOutputs noCodec [outputItem ''X'' ''hi'']
     = [orphanMessage ''tool'' ''X'' ''hi'']
   \<and> normalizeOrphanedToolOutputs noCodec [callItem ''X'', outputItem ''X'' ''hi'']
     = [callItem ''X'', outputItem ''X'' ''hi'']
   \<and> normalizeOrphanedToolOutputs noCodec [outputItem ''X'' (replicate 16001 (CHR ''a''))]
     = [orphanMessage ''tool'' ''X'' (replicate 16000 (CHR ''a'') @ [CHR 0x0A] @ ''...[truncated]'')]"
proof -
  have o1: "isOrphanedOutput [outputItem ''X'' out] (outputItem ''X'' out)" for out
    by (simp add: isOrphanedOutput_def toolOutputTypes_def answeringCallTypes_def isCallOf_def item_eval)
  have o2: "\<not> isOrphanedOutput [callItem ''X'', outputItem ''X'' ''hi''] (outputItem ''X'' ''hi'')"
    by (simp add: isOrphanedOutput_def toolOutputTypes_def answeringCallTypes_def isCallOf_def item_eval)
  have o3: "\<not> isOrphanedOutput [callItem ''X'', outputItem ''X'' ''hi''] (callItem ''X'')"
    by (simp add: isOrphanedOutput_def toolOutputTypes_def item_eval)
  have r1: "rewriteItem noCodec [outputItem ''X'' out] (outputItem ''X'' out)
      = orphanMessage ''tool'' ''X'' (truncateOutput out)" for out
    using o1[of out] by (simp add: rewriteItem_def item_eval)
  have r2: "rewriteItem noCodec [callItem ''X'', outputItem ''X'' ''hi''] (outputItem ''X'' ''hi'')
      = outputItem ''X'' ''hi''"
    using o2 by (simp add: rewriteItem_def outputItem_def)
  have r3: "rewriteItem noCodec [callItem ''X'', outputItem ''X'' ''hi''] (callItem ''X'') = callItem ''X''"
    using o3 by (simp add: rewriteItem_def callItem_def)
  have t1: "truncateOutput ''hi'' = ''hi''" by (simp add: truncateOutput_def)
  have t2: "truncateOutput (replicate 16001 (CHR ''a''))
      = replicate 16000 (CHR ''a'') @ [CHR 0x0A] @ ''...[truncated]''"
    by (simp add: truncateOutput_def)
  show ?thesis
    using orphaned_outputs_rewritten[of noCodec "[outputItem ''X'' ''hi'']"]
      orphaned_outputs_rewritten[of noCodec "[callItem ''X'', outputItem ''X'' ''hi'']"]
      orphaned_outputs_rewritten[of noCodec "[outputItem ''X'' (replicate 16001 (CHR ''a''))]"]
    by (simp add: r1 r2 r3 t1 t2)
qed

text \<open>
  An output that comes before its call has no matching call preceding it, and is left
  as it is; and a text of 16001 bytes is not merely cut to 16000.
\<close>

theorem late_call_counterexample:
  "take 0 [outputItem ''X'' ''hi'', callItem ''X''] = []
   \<and> normalizeOrphanedToolOutputs noCodec [outputItem ''X'' ''hi'', callItem ''X''] ! 0
       = outputItem ''X'' ''hi''
   \<and> outputItem ''X'' ''hi'' \<noteq> orphanMessage ''tool'' ''X'' ''hi''
   \<and> normalizeOrphanedToolOutputs noCodec [outputItem ''X'' (replicate 16001 (CHR ''a''))]
       \<noteq> [orphanMessage ''tool'' ''X'' (take 16000 (replicate 16001 (CHR ''a'')))]"
  by (simp add: normalizeOrphanedToolOutputs_def noCallIDs_def orphanMessage_def Let_def item_eval
      convertOrphanedOutputToMessage_def)

section \<open>A Codex request without instructions, on an account in passthrough mode\<close>

lemmas codexMax_eval = codexMaxCodec_def tableCodec_def codexMaxBody_def codexMaxParsed_def
  codexMaxSent_def codexMaxInbound_def passthroughAccount_def openaiAccount_def
  recordedResponse_def recordedBody_def recordingUpstream_def fixedHosts_def noClock_def
  steadyClient_def

lemma codexMax_request_built:
  "\<exists>req. buildUpstreamRequest fixedHosts noUnicodeLower passthroughAccount codexMaxInbound
       codexMaxSent ''oauth-token'' False = Inr req
     \<and> reqURL req = chatgptCodexURL \<and> reqBody req = codexMaxSent"
  by (simp add: buildUpstreamRequest_def fixedHosts_def passthroughAccount_def openaiAccount_def)

text \<open>
  C4, on the request of the test \<open>CodexMissingInstructionsRejectedBeforeUpstream\<close>: a
  Codex model, the user agent of the Codex CLI, no \<open>instructions\<close>, an OAuth account with
  \<open>openai_passthrough\<close> set. \<open>Forward\<close> does not reject it: it sends one request to the
  upstream, returns a result and no error, and the client gets the status 200 and the
  body of the upstream, not 403.
\<close>

theorem missing_instructions_sent_upstream:
  "OpenAIPassthrough passthroughAccount
   \<and> UnmarshalMap codexMaxCodec codexMaxBody = Some codexMaxParsed
   \<and> requestModel codexMaxParsed = ''gpt-5.1-codex-max''
   \<and> map_of codexMaxParsed ''instructions'' = None
   \<and> map_of codexMaxInbound ''User-Agent''
       = Some [''codex_cli_rs/0.98.0 (Windows 10.0.19045; x86_64) unknown'']
   \<and> fwdResult (Forward codexMaxCodec recordingUpstream codexMaxInbound steadyClient
          passthroughAccount codexMaxBody)
       = Inr \<lparr>RequestID = [],
              Usage = \<lparr>InputTokens = 1, OutputTokens = 1, CacheCreationInputTokens = 0,
                       CacheReadInputTokens = 0\<rparr>,
              Model = ''gpt-5.1-codex-max'', Stream = False, FirstTokenMs = None\<rparr>
   \<and> respStatus (fwdClient (Forward codexMaxCodec recordingUpstream codexMaxInbound steadyClient
          passthroughAccount codexMaxBody)) = 200
   \<and> written (fwdClient (Forward codexMaxCodec recordingUpstream codexMaxInbound steadyClient
          passthroughAccount codexMaxBody)) = [recordedBody]
   \<and> map (\<lambda>call. (reqURL (fst call), reqBody (fst call)))
        (fwdUpstreamCalls (Forward codexMaxCodec recordingUpstream codexMaxInbound steadyClient
          passthroughAccount codexMaxBody))
       = [(chatgptCodexURL, codexMaxSent)]"
proof -
  obtain req where req:
    "buildUpstreamRequest fixedHosts noUnicodeLower passthroughAccount codexMaxInbound
       codexMaxSent ''oauth-token'' False = Inr req"
    "reqURL req = chatgptCodexURL" "reqBody req = codexMaxSent"
    using codexMax_request_built by blast
  have parsed: "UnmarshalMap codexMaxCodec codexMaxBody = Some codexMaxParsed"
    by (simp add: codexMax_eval)
  have prepared: "prepareBody codexMaxCodec passthroughAccount codexMaxBody codexMaxParsed
      = Inr codexMaxSent"
    by (simp add: prepareBody_def GetMappedModel_def requestModel_def codexMax_eval)
  have token: "GetAccessToken passthroughAccount = Inr ''oauth-token''"
    by (simp add: GetAccessToken_def passthroughAccount_def openaiAccount_def)
  have stream: "requestStream codexMaxParsed = False"
    by (simp add: requestStream_def codexMaxParsed_def)
  have model: "requestModel codexMaxParsed = ''gpt-5.1-codex-max''"
    "GetMappedModel passthroughAccount ''gpt-5.1-codex-max'' = ''gpt-5.1-codex-max''"
    by (simp_all add: requestModel_def GetMappedModel_def codexMaxParsed_def passthroughAccount_def
        openaiAccount_def)
  have answered: "forwardResponse codexMaxCodec recordingUpstream recordedResponse steadyClient
        passthroughAccount False ''gpt-5.1-codex-max'' ''gpt-5.1-codex-max''
      = (Inr \<lparr>RequestID = [],
               Usage = \<lparr>InputTokens = 1, OutputTokens = 1, CacheCreationInputTokens = 0,
                        CacheReadInputTokens = 0\<rparr>,
               Model = ''gpt-5.1-codex-max'', Stream = False, FirstTokenMs = None\<rparr>,
         contextData 200 ''application/json'' recordedBody
           (passHeaders (upHeader recordedResponse) steadyClient),
         [])"
    by (simp add: forwardResponse_def handleNonStreamingResponse_def responseHeaderGet_def
        forwardedBody_def codexMaxCodec_def tableCodec_def recordedResponse_def
        CanonicalMIMEHeaderKey_def validHeaderFieldByte_def isDigitOrLetter_def Let_def
        toUpperByte_def toLowerByte_def char_of_def bit_Suc_0_iff)
  have out: "Forward codexMaxCodec recordingUpstream codexMaxInbound steadyClient passthroughAccount
        codexMaxBody
      = \<lparr>fwdResult = Inr \<lparr>RequestID = [],
               Usage = \<lparr>InputTokens = 1, OutputTokens = 1, CacheCreationInputTokens = 0,
                        CacheReadInputTokens = 0\<rparr>,
               Model = ''gpt-5.1-codex-max'', Stream = False, FirstTokenMs = None\<rparr>,
         fwdClient = contextData 200 ''application/json'' recordedBody
           (passHeaders (upHeader recordedResponse) steadyClient),
         fwdUpstreamCalls = [(req, [])], fwdHealthReports = []\<rparr>"
  proof -
    have deps: "parseHost recordingUpstream = fixedHosts"
      "lowerUnicode recordingUpstream = noUnicodeLower"
      "doUpstream recordingUpstream r p = Some recordedResponse" for r p
      by (simp_all add: recordingUpstream_def)
    have proxy: "ProxyURL passthroughAccount = []"
      by (simp add: passthroughAccount_def openaiAccount_def)
    show ?thesis
      by (simp add: Forward_def parsed prepared token stream model answered req(1) deps proxy)
  qed
  have client: "respStatus (contextData 200 ''application/json'' recordedBody
          (passHeaders (upHeader recordedResponse) steadyClient)) = 200"
    "written (contextData 200 ''application/json'' recordedBody
          (passHeaders (upHeader recordedResponse) steadyClient)) = [recordedBody]"
    by (simp_all add: contextData_def writeContentType_def writeBody_def bodyAllowedForStatus_def
        contextHeader_def setHeader_def recordedResponse_def steadyClient_def Let_def)
  have flag: "OpenAIPassthrough passthroughAccount" by (simp add: passthroughAccount_def)
  have absent: "map_of codexMaxParsed ''instructions'' = None" by (simp add: codexMaxParsed_def)
  have agent: "map_of codexMaxInbound ''User-Agent''
      = Some [''codex_cli_rs/0.98.0 (Windows 10.0.19045; x86_64) unknown'']"
    by (simp add: codexMaxInbound_def)
  show ?thesis
    using flag absent agent parsed model(1) client req(2,3) by (simp add: out)
qed

section \<open>Header hygiene\<close>

lemma toLowerByte_toUpperByte: "toLowerByte (toUpperByte c) = toLowerByte c"
proof (cases "97 \<le> (of_char c :: nat) \<and> (of_char c :: nat) \<le> 122")
  case True
  define n where "n = (of_char c :: nat)"
  have range: "97 \<le> n" "n \<le> 122" using True by (simp_all add: n_def)
  have up: "toUpperByte c = char_of (n - 32)"
    using True by (simp add: toUpperByte_def n_def)
  have small: "(n - 32) mod 256 = n - 32" using range by simp
  have upper: "65 \<le> n - 32 \<and> n - 32 \<le> 90" using range by arith
  have "toLowerByte (char_of (n - 32)) = char_of (n - 32 + 32)"
    using upper by (simp add: toLowerByte_def small Let_def)
  also have "n - 32 + 32 = n" using range by simp
  also have "char_of n = c" by (simp add: n_def)
  finally have "toLowerByte (toUpperByte c) = c" by (simp add: up)
  moreover have "toLowerByte c = c" using True by (simp add: toLowerByte_def)
  ultimately show ?thesis by simp
next
  case False
  then show ?thesis by (auto simp: toUpperByte_def)
qed

lemma toLowerByte_idem: "toLowerByte (toLowerByte c) = toLowerByte c"
  by (simp add: toLowerByte_def Let_def)

lemma lowerBytes_canonicalizeFrom:
  "map toLowerByte (canonicalizeFrom upper s) = map toLowerByte s"
  by (induction s arbitrary: upper)
     (simp_all add: Let_def toLowerByte_toUpperByte toLowerByte_idem)

lemma toUpperByte_ascii: "(of_char c :: nat) < 128 \<Longrightarrow> (of_char (toUpperByte c) :: nat) < 128"
  by (auto simp: toUpperByte_def Let_def)

lemma toLowerByte_ascii: "(of_char c :: nat) < 128 \<Longrightarrow> (of_char (toLowerByte c) :: nat) < 128"
  by (auto simp: toLowerByte_def Let_def)

lemma isASCII_canonicalizeFrom: "isASCII s \<Longrightarrow> isASCII (canonicalizeFrom upper s)"
  by (induction s arbitrary: upper)
     (simp_all add: isASCII_def Let_def toUpperByte_ascii toLowerByte_ascii)

lemma validHeaderFieldByte_ascii: "validHeaderFieldByte c \<Longrightarrow> (of_char c :: nat) < 128"
  by (auto simp: validHeaderFieldByte_def isDigitOrLetter_def Let_def)

lemma valid_isASCII: "list_all validHeaderFieldByte s \<Longrightarrow> isASCII s"
  by (induction s) (simp_all add: isASCII_def validHeaderFieldByte_ascii)

lemma toLower_canonical: "toLower ul (CanonicalMIMEHeaderKey key) = toLower ul key"
proof (cases "list_all validHeaderFieldByte key")
  case True
  then have "isASCII key" by (rule valid_isASCII)
  then show ?thesis
    using True by (simp add: CanonicalMIMEHeaderKey_def toLower_def isASCII_canonicalizeFrom
        lowerBytes_canonicalizeFrom)
next
  case False
  then show ?thesis by (simp add: CanonicalMIMEHeaderKey_def)
qed

lemma canonical_names:
  "CanonicalMIMEHeaderKey ''authorization'' = ''Authorization''"
  "CanonicalMIMEHeaderKey ''chatgpt-account-id'' = ''Chatgpt-Account-Id''"
  "CanonicalMIMEHeaderKey ''accept'' = ''Accept''"
  "CanonicalMIMEHeaderKey ''user-agent'' = ''User-Agent''"
  "CanonicalMIMEHeaderKey ''content-type'' = ''Content-Type''"
  by code_simp+

lemma lower_names:
  "toLower ul ''Authorization'' = ''authorization''"
  "toLower ul ''Chatgpt-Account-Id'' = ''chatgpt-account-id''"
  "toLower ul ''Accept'' = ''accept''"
  "toLower ul ''User-Agent'' = ''user-agent''"
  "toLower ul ''Content-Type'' = ''content-type''"
  "toLower ul ''Cookie'' = ''cookie''"
  "toLower ul ''X-Api-Key'' = ''x-api-key''"
  by (simp_all add: lower_eval)

text \<open>Keys outside the whitelist are not written by the loop over the inbound header.\<close>

lemma addValues_other:
  "toLower ul k \<noteq> toLower ul key \<Longrightarrow> addValues key vs h k = h k"
proof (induction vs arbitrary: h)
  case Nil
  show ?case by simp
next
  case (Cons v vs)
  have "k \<noteq> CanonicalMIMEHeaderKey key"
    using Cons.prems toLower_canonical[of ul key] by auto
  then show ?case using Cons by (simp add: headerAdd_def)
qed

lemma passWhitelisted_other:
  "toLower ul k \<notin> set openaiAllowedHeaders \<Longrightarrow> passWhitelisted ul inbound h k = h k"
proof (induction inbound arbitrary: h)
  case Nil
  show ?case by simp
next
  case (Cons kv inbound)
  obtain key vs where kv: "kv = (key, vs)" by (cases kv)
  show ?case
  proof (cases "toLower ul key \<in> set openaiAllowedHeaders")
    case True
    with Cons.prems have "toLower ul k \<noteq> toLower ul key" by auto
    then show ?thesis using Cons True kv by (simp add: addValues_other)
  next
    case False
    then show ?thesis using Cons kv by simp
  qed
qed

text \<open>Every key the loop writes is a whitelisted name in lower case.\<close>

lemma addValues_keys:
  "addValues key vs h k \<noteq> None \<Longrightarrow> h k \<noteq> None \<or> toLower ul k = toLower ul key"
proof (induction vs arbitrary: h)
  case Nil
  then show ?case by simp
next
  case (Cons v vs)
  from Cons.IH[of "headerAdd key v h"] Cons.prems
  have "headerAdd key v h k \<noteq> None \<or> toLower ul k = toLower ul key" by simp
  then show ?case
    using toLower_canonical[of ul key] by (auto simp: headerAdd_def split: if_splits)
qed

lemma passWhitelisted_keys:
  "passWhitelisted ul inbound h k \<noteq> None \<Longrightarrow> h k \<noteq> None \<or> toLower ul k \<in> set openaiAllowedHeaders"
proof (induction inbound arbitrary: h)
  case Nil
  then show ?case by simp
next
  case (Cons kv inbound)
  obtain key vs where kv: "kv = (key, vs)" by (cases kv)
  show ?case
  proof (cases "toLower ul key \<in> set openaiAllowedHeaders")
    case True
    with Cons.prems kv have "passWhitelisted ul inbound (addValues key vs h) k \<noteq> None" by simp
    from Cons.IH[OF this] show ?thesis using addValues_keys[of key vs h k ul] True by auto
  next
    case False
    with Cons kv show ?thesis by simp
  qed
qed

text \<open>The loop sees the whitelisted entries only.\<close>

lemma passWhitelisted_filter: "passWhitelisted ul inbound h = passWhitelisted ul (whitelisted ul inbound) h"
  by (induction inbound arbitrary: h) (auto simp: whitelisted_def)


text \<open>The two stages around the loop write five fixed keys.\<close>

lemma credential_authorization:
  "setCredentialHeaders account token isStream ''Authorization'' = Some [''Bearer '' @ token]"
  by (simp add: setCredentialHeaders_def headerSet_def canonical_names Let_def)

lemma credential_keys:
  "setCredentialHeaders account token isStream k \<noteq> None \<Longrightarrow>
     k \<in> {''Authorization'', ''Chatgpt-Account-Id'', ''Accept''}"
  by (auto simp: setCredentialHeaders_def headerSet_def canonical_names Let_def split: if_splits)

lemma required_other:
  "k \<noteq> ''User-Agent'' \<Longrightarrow> k \<noteq> ''Content-Type'' \<Longrightarrow> setRequiredHeaders account h k = h k"
  by (simp add: setRequiredHeaders_def headerSet_def canonical_names Let_def)

lemma upstream_keys:
  assumes "upstreamHeader ul account inbound token isStream k \<noteq> None"
  shows "toLower ul k \<in> set upstreamHeaderNames"
proof (cases "k = ''User-Agent'' \<or> k = ''Content-Type''")
  case True
  then show ?thesis
    by (auto simp: upstreamHeaderNames_def openaiAllowedHeaders_def lower_names)
next
  case False
  with assms have "passWhitelisted ul inbound (setCredentialHeaders account token isStream) k \<noteq> None"
    by (simp add: upstreamHeader_def required_other)
  from passWhitelisted_keys[OF this]
  consider "setCredentialHeaders account token isStream k \<noteq> None"
    | "toLower ul k \<in> set openaiAllowedHeaders" by blast
  then show ?thesis
  proof cases
    case 1
    from credential_keys[OF this] show ?thesis
      by (auto simp: upstreamHeaderNames_def lower_names)
  next
    case 2
    then show ?thesis by (simp add: upstreamHeaderNames_def)
  qed
qed

lemma upstream_authorization:
  assumes "toLower ul k = ''authorization''"
  shows "upstreamHeader ul account inbound token isStream k =
     (if k = ''Authorization'' then Some [''Bearer '' @ token] else None)"
proof -
  have ne: "k \<noteq> ''User-Agent''" "k \<noteq> ''Content-Type''"
    using assms by (auto simp: lower_names)
  have "toLower ul k \<notin> set openaiAllowedHeaders"
    using assms by (simp add: openaiAllowedHeaders_def)
  then have eq: "upstreamHeader ul account inbound token isStream k
      = setCredentialHeaders account token isStream k"
    using ne by (simp add: upstreamHeader_def required_other passWhitelisted_other)
  show ?thesis
  proof (cases "k = ''Authorization''")
    case True
    with eq show ?thesis by (simp add: credential_authorization)
  next
    case False
    have "setCredentialHeaders account token isStream k = None"
    proof (rule ccontr)
      assume "setCredentialHeaders account token isStream k \<noteq> None"
      from credential_keys[OF this] False assms show False
        by (auto simp: lower_names)
    qed
    with False show ?thesis by (simp add: eq)
  qed
qed

lemma upstream_dropped:
  assumes "toLower ul k \<in> {''cookie'', ''x-api-key''}"
  shows "upstreamHeader ul account inbound token isStream k = None"
proof (rule ccontr)
  assume "upstreamHeader ul account inbound token isStream k \<noteq> None"
  from upstream_keys[OF this] assms show False
    by (auto simp: upstreamHeaderNames_def openaiAllowedHeaders_def)
qed

lemma upstream_whitelisted_only:
  "whitelisted ul inbound = whitelisted ul inbound' \<Longrightarrow>
     upstreamHeader ul account inbound token isStream = upstreamHeader ul account inbound' token isStream"
  using passWhitelisted_filter[of ul inbound] passWhitelisted_filter[of ul inbound']
  by (simp add: upstreamHeader_def)

lemma build_header:
  "buildUpstreamRequest hostOf ul account inbound body token isStream = Inr req \<Longrightarrow>
     reqHeader req = upstreamHeader ul account inbound token isStream"
  by (auto simp: buildUpstreamRequest_def Let_def split: option.splits)

text \<open>
  C5. For every upstream request that \<open>buildUpstreamRequest\<close> builds: its
  \<open>Authorization\<close> header is the upstream credential and nothing else, it has no
  \<open>Cookie\<close> and no \<open>X-Api-Key\<close> header under any spelling, and each of its headers is
  the credential, one of the two headers of an OAuth account, or one of the whitelisted
  headers \<open>content-type\<close>, \<open>accept-language\<close>, \<open>user-agent\<close>, \<open>originator\<close>,
  \<open>session_id\<close>. Two inbound headers with the same whitelisted entries give the same
  upstream request.
\<close>

theorem inbound_credentials_dropped:
  "(\<forall>req. buildUpstreamRequest hostOf unicodeLower account inbound body token isStream = Inr req \<longrightarrow>
       reqHeader req ''Authorization'' = Some [''Bearer '' @ token]
       \<and> (\<forall>k. toLower unicodeLower k = ''authorization'' \<and> k \<noteq> ''Authorization'' \<longrightarrow> reqHeader req k = None)
       \<and> (\<forall>k. toLower unicodeLower k \<in> {''cookie'', ''x-api-key''} \<longrightarrow> reqHeader req k = None)
       \<and> (\<forall>k. reqHeader req k \<noteq> None \<longrightarrow> toLower unicodeLower k \<in> set upstreamHeaderNames))
   \<and> (whitelisted unicodeLower inbound = whitelisted unicodeLower inbound' \<longrightarrow>
        buildUpstreamRequest hostOf unicodeLower account inbound body token isStream
          = buildUpstreamRequest hostOf unicodeLower account inbound' body token isStream)"
proof (intro conjI allI impI)
  fix req
  assume "buildUpstreamRequest hostOf unicodeLower account inbound body token isStream = Inr req"
  then have h: "reqHeader req = upstreamHeader unicodeLower account inbound token isStream"
    by (rule build_header)
  show "reqHeader req ''Authorization'' = Some [''Bearer '' @ token]"
    by (simp add: h upstream_authorization lower_names)
  show "reqHeader req k = None" if "toLower unicodeLower k = ''authorization'' \<and> k \<noteq> ''Authorization''" for k
    using that by (simp add: h upstream_authorization)
  show "reqHeader req k = None" if "toLower unicodeLower k \<in> {''cookie'', ''x-api-key''}" for k
    using that by (simp only: h upstream_dropped)
  show "toLower unicodeLower k \<in> set upstreamHeaderNames" if "reqHeader req k \<noteq> None" for k
    using that upstream_keys by (simp add: h)
next
  assume "whitelisted unicodeLower inbound = whitelisted unicodeLower inbound'"
  then have "upstreamHeader unicodeLower account inbound token isStream
      = upstreamHeader unicodeLower account inbound' token isStream"
    by (rule upstream_whitelisted_only)
  then show "buildUpstreamRequest hostOf unicodeLower account inbound body token isStream
      = buildUpstreamRequest hostOf unicodeLower account inbound' body token isStream"
    by (simp only: buildUpstreamRequest_def)
qed

lemma whitelisted_clientHeader:
  "whitelisted noUnicodeLower (clientHeader a c k) = [(''User-Agent'', [''codex_cli_rs/0.1.0'']), (''Session_id'', [''abc''])]"
  by (simp add: whitelisted_def clientHeader_def openaiAllowedHeaders_def lower_eval)

theorem inbound_credentials_dropped_witness:
  "whitelisted noUnicodeLower (clientHeader ''Bearer sk-inbound'' ''secret=1'' ''sk-inbound'')
     = whitelisted noUnicodeLower (clientHeader ''Bearer other'' ''secret=2'' ''sk-other'')
   \<and> (\<exists>req.
        buildUpstreamRequest fixedHosts noUnicodeLower (openaiAccount 1 1 None)
            (clientHeader ''Bearer sk-inbound'' ''secret=1'' ''sk-inbound'') ''{}'' ''oauth-token'' True = Inr req
        \<and> buildUpstreamRequest fixedHosts noUnicodeLower (openaiAccount 1 1 None)
            (clientHeader ''Bearer other'' ''secret=2'' ''sk-other'') ''{}'' ''oauth-token'' True = Inr req
        \<and> reqHeader req ''Authorization'' = Some [''Bearer oauth-token'']
        \<and> reqHeader req ''Cookie'' = None
        \<and> reqHeader req ''X-Api-Key'' = None)"
proof -
  let ?in1 = "clientHeader ''Bearer sk-inbound'' ''secret=1'' ''sk-inbound''"
  let ?in2 = "clientHeader ''Bearer other'' ''secret=2'' ''sk-other''"
  have same: "whitelisted noUnicodeLower ?in1 = whitelisted noUnicodeLower ?in2" by (simp add: whitelisted_clientHeader)
  obtain req where req: "buildUpstreamRequest fixedHosts noUnicodeLower (openaiAccount 1 1 None) ?in1 ''{}'' ''oauth-token'' True = Inr req"
    by (simp add: buildUpstreamRequest_def fixedHosts_def openaiAccount_def)
  note inst = inbound_credentials_dropped[of fixedHosts noUnicodeLower "openaiAccount 1 1 None" ?in1 "''{}''" "''oauth-token''" True ?in2]
  from inst same req
  have "buildUpstreamRequest fixedHosts noUnicodeLower (openaiAccount 1 1 None) ?in2 ''{}'' ''oauth-token'' True = Inr req"
    by simp
  moreover from inst req have "reqHeader req ''Authorization'' = Some [''Bearer oauth-token'']"
    by simp
  moreover from inst req have "reqHeader req ''Cookie'' = None \<and> reqHeader req ''X-Api-Key'' = None"
    using lower_names by simp
  ultimately show ?thesis using same req by blast
qed

section \<open>The model of a response\<close>

lemma map_of_setField: "map_of (setField key v m) = (map_of m)(key \<mapsto> v)"
  by (induction m) (auto simp: fun_eq_iff)

lemma data_line: "drop 6 (''data: '' @ data) = data"
  by simp

lemma hasPrefix_data: "hasPrefix (''data: '' @ data) ''data: ''"
  by (simp add: hasPrefix_def)

lemma hasPrefix_length:
  assumes "hasPrefix line ''data: ''"
  shows "6 \<le> length line"
proof -
  have "take (length ''data: '') line = ''data: ''" using assms by (simp only: hasPrefix_def)
  then have "length (take (length ''data: '') line) = length ''data: ''" by (rule arg_cong)
  then show ?thesis by simp
qed

lemma noteDataLine_writer: "stWriter (noteDataLine codec elapsedMs line st) = stWriter st"
  by (simp add: noteDataLine_def Let_def)

lemma noteDataLine_read: "stLinesRead (noteDataLine codec elapsedMs line st) = stLinesRead st"
  by (simp add: noteDataLine_def Let_def)

text \<open>What a client that never goes away is sent.\<close>

lemma streamLines_written:
  assumes "writesLeft (stWriter st) = None"
  shows "snd (streamLines codec elapsedMs (originalModel \<noteq> mappedModel) mappedModel originalModel lines st) = None
    \<and> written (stWriter (fst (streamLines codec elapsedMs (originalModel \<noteq> mappedModel) mappedModel
          originalModel lines st)))
      = written (stWriter st)
        @ map (\<lambda>scanned. forwardedLine codec originalModel mappedModel scanned @ [CHR 0x0A]) lines"
  using assms
proof (induction lines arbitrary: st)
  case Nil
  show ?case by simp
next
  case (Cons scanned lines)
  let ?line = "forwardedLine codec originalModel mappedModel scanned"
  let ?st1 = "st\<lparr>stLinesRead := Suc (stLinesRead st)\<rparr>"
  let ?w = "(stWriter st)\<lparr>written := written (stWriter st) @ [?line @ [CHR 0x0A]]\<rparr>"
  let ?st2 = "noteDataLine codec elapsedMs ?line (?st1\<lparr>stWriter := ?w\<rparr>)"
  have fp: "fprintLine (stWriter ?st1) ?line = Some ?w"
    using Cons.prems by (simp add: fprintLine_def)
  have step: "streamLines codec elapsedMs (originalModel \<noteq> mappedModel) mappedModel originalModel
        (scanned # lines) st
      = streamLines codec elapsedMs (originalModel \<noteq> mappedModel) mappedModel originalModel lines ?st2"
    using fp by (simp add: forwardedLine_def Let_def)
  have "writesLeft (stWriter ?st2) = None"
    using Cons.prems by (simp add: noteDataLine_writer)
  from Cons.IH[OF this] show ?case
    unfolding step by (simp add: noteDataLine_writer)
qed


lemma replace_top_level:
  assumes "data \<noteq> []" and "data \<noteq> ''[DONE]''"
    and "UnmarshalMap codec data = Some event"
    and "map_of event ''model'' = Some (JString fromModel)"
  shows "replaceModelInSSELine codec (''data: '' @ data) fromModel toModel
     = marshalDataLine codec (setField ''model'' (JString toModel) event) (''data: '' @ data)"
  using assms by (simp add: replaceModelInSSELine_def)

lemma replace_nested:
  assumes "data \<noteq> []" and "data \<noteq> ''[DONE]''"
    and "UnmarshalMap codec data = Some event"
    and "map_of event ''model'' \<noteq> Some (JString fromModel)"
    and "map_of event ''response'' = Some (JObject response)"
    and "map_of response ''model'' = Some (JString fromModel)"
  shows "replaceModelInSSELine codec (''data: '' @ data) fromModel toModel
     = marshalDataLine codec
         (setField ''response'' (JObject (setField ''model'' (JString toModel) response)) event)
         (''data: '' @ data)"
  using assms by (simp add: replaceModelInSSELine_def)

lemma replace_body:
  assumes "UnmarshalMap codec body = Some resp"
    and "map_of resp ''model'' = Some (JString fromModel)"
  shows "replaceModelInResponseBody codec body fromModel toModel
     = (case Marshal codec (JObject (setField ''model'' (JString toModel) resp)) of
          None \<Rightarrow> body | Some newBody \<Rightarrow> newBody)"
  using assms by (simp add: replaceModelInResponseBody_def)

lemma body_kept:
  assumes "UnmarshalMap codec body = Some resp"
    and "map_of resp ''model'' \<noteq> Some (JString fromModel)"
  shows "replaceModelInResponseBody codec body fromModel toModel = body"
  using assms by (simp add: replaceModelInResponseBody_def)

lemma forwarded_data_line:
  "originalModel \<noteq> mappedModel \<Longrightarrow>
     forwardedLine codec originalModel mappedModel (''data: '' @ data)
       = replaceModelInSSELine codec (''data: '' @ data) mappedModel originalModel"
  by (simp add: forwardedLine_def hasPrefix_def)

text \<open>
  C6 (as amended). When the model of the request was rewritten from \<open>X\<close> to \<open>Y\<close>
  (\<open>X \<noteq> Y\<close>): for a line \<open>data: <JSON object>\<close> of the upstream stream whose top-level
  \<open>model\<close> is \<open>Y\<close>, the line forwarded is \<open>data: \<close> and the encoding of the object with
  its top-level \<open>model\<close> set to \<open>X\<close>; for one whose top-level \<open>model\<close> is not \<open>Y\<close> and
  whose \<open>response\<close> object has the \<open>model\<close> \<open>Y\<close>, it is the encoding of the object with
  that field set to \<open>X\<close>. A non-streaming body whose top-level \<open>model\<close> is \<open>Y\<close> is
  forwarded as the encoding of the body with that field set to \<open>X\<close>; a body whose
  top-level \<open>model\<close> is not \<open>Y\<close> is forwarded as it came, whatever stands under its
  \<open>response\<close>. In each case \<open>json.Marshal\<close> is taken to encode the rewritten object, as
  it does every object that \<open>json.Unmarshal\<close> has produced. A client that stays is sent
  the forwarded lines, one per upstream line.
\<close>

theorem response_model_restored:
  assumes "originalModel \<noteq> mappedModel"
  shows
    "(data \<noteq> [] \<and> data \<noteq> ''[DONE]'' \<and> UnmarshalMap codec data = Some event
        \<and> map_of event ''model'' = Some (JString mappedModel)
        \<and> Marshal codec (JObject (setField ''model'' (JString originalModel) event)) = Some newData \<longrightarrow>
        forwardedLine codec originalModel mappedModel (''data: '' @ data) = ''data: '' @ newData
        \<and> map_of (setField ''model'' (JString originalModel) event) ''model''
            = Some (JString originalModel))
     \<and> (data \<noteq> [] \<and> data \<noteq> ''[DONE]'' \<and> UnmarshalMap codec data = Some event
        \<and> map_of event ''model'' \<noteq> Some (JString mappedModel)
        \<and> map_of event ''response'' = Some (JObject response)
        \<and> map_of response ''model'' = Some (JString mappedModel)
        \<and> Marshal codec
              (JObject (setField ''response''
                 (JObject (setField ''model'' (JString originalModel) response)) event))
            = Some newData \<longrightarrow>
        forwardedLine codec originalModel mappedModel (''data: '' @ data) = ''data: '' @ newData
        \<and> map_of (setField ''response''
                    (JObject (setField ''model'' (JString originalModel) response)) event) ''response''
            = Some (JObject (setField ''model'' (JString originalModel) response))
        \<and> map_of (setField ''model'' (JString originalModel) response) ''model''
            = Some (JString originalModel))
     \<and> (UnmarshalMap codec body = Some resp
        \<and> map_of resp ''model'' = Some (JString mappedModel)
        \<and> Marshal codec (JObject (setField ''model'' (JString originalModel) resp)) = Some newBody \<longrightarrow>
        forwardedBody codec originalModel mappedModel body = newBody
        \<and> map_of (setField ''model'' (JString originalModel) resp) ''model''
            = Some (JString originalModel))
     \<and> (UnmarshalMap codec body = Some resp
        \<and> map_of resp ''model'' \<noteq> Some (JString mappedModel) \<longrightarrow>
        forwardedBody codec originalModel mappedModel body = body)
     \<and> (writesLeft (stWriter st) = None \<longrightarrow>
        written (stWriter (fst (streamLines codec elapsedMs (originalModel \<noteq> mappedModel)
            mappedModel originalModel lines st)))
          = written (stWriter st)
            @ map (\<lambda>scanned. forwardedLine codec originalModel mappedModel scanned @ [CHR 0x0A]) lines)"
proof (intro conjI impI)
  assume a: "data \<noteq> [] \<and> data \<noteq> ''[DONE]'' \<and> UnmarshalMap codec data = Some event
        \<and> map_of event ''model'' = Some (JString mappedModel)
        \<and> Marshal codec (JObject (setField ''model'' (JString originalModel) event)) = Some newData"
  have "forwardedLine codec originalModel mappedModel (''data: '' @ data)
      = replaceModelInSSELine codec (''data: '' @ data) mappedModel originalModel"
    by (rule forwarded_data_line[OF assms])
  also have "\<dots>
      = marshalDataLine codec (setField ''model'' (JString originalModel) event) (''data: '' @ data)"
    using a by (intro replace_top_level) simp_all
  also have "\<dots> = ''data: '' @ newData"
    using a by (simp add: marshalDataLine_def)
  finally show "forwardedLine codec originalModel mappedModel (''data: '' @ data) = ''data: '' @ newData" .
  show "map_of (setField ''model'' (JString originalModel) event) ''model''
      = Some (JString originalModel)"
    by (simp add: map_of_setField)
next
  assume a: "data \<noteq> [] \<and> data \<noteq> ''[DONE]'' \<and> UnmarshalMap codec data = Some event
        \<and> map_of event ''model'' \<noteq> Some (JString mappedModel)
        \<and> map_of event ''response'' = Some (JObject response)
        \<and> map_of response ''model'' = Some (JString mappedModel)
        \<and> Marshal codec
              (JObject (setField ''response''
                 (JObject (setField ''model'' (JString originalModel) response)) event))
            = Some newData"
  have "forwardedLine codec originalModel mappedModel (''data: '' @ data)
      = replaceModelInSSELine codec (''data: '' @ data) mappedModel originalModel"
    by (rule forwarded_data_line[OF assms])
  also have "\<dots>
      = marshalDataLine codec
          (setField ''response'' (JObject (setField ''model'' (JString originalModel) response)) event)
          (''data: '' @ data)"
    using a by (intro replace_nested) simp_all
  also have "\<dots> = ''data: '' @ newData"
    using a by (simp add: marshalDataLine_def)
  finally show "forwardedLine codec originalModel mappedModel (''data: '' @ data) = ''data: '' @ newData" .
  show "map_of (setField ''response''
            (JObject (setField ''model'' (JString originalModel) response)) event) ''response''
      = Some (JObject (setField ''model'' (JString originalModel) response))"
    by (simp add: map_of_setField)
  show "map_of (setField ''model'' (JString originalModel) response) ''model''
      = Some (JString originalModel)"
    by (simp add: map_of_setField)
next
  assume a: "UnmarshalMap codec body = Some resp
        \<and> map_of resp ''model'' = Some (JString mappedModel)
        \<and> Marshal codec (JObject (setField ''model'' (JString originalModel) resp)) = Some newBody"
  have "replaceModelInResponseBody codec body mappedModel originalModel
      = (case Marshal codec (JObject (setField ''model'' (JString originalModel) resp)) of
           None \<Rightarrow> body | Some newBody \<Rightarrow> newBody)"
    using a by (intro replace_body) simp_all
  then show "forwardedBody codec originalModel mappedModel body = newBody"
    using a assms by (simp add: forwardedBody_def)
  show "map_of (setField ''model'' (JString originalModel) resp) ''model''
      = Some (JString originalModel)"
    by (simp add: map_of_setField)
next
  assume a: "UnmarshalMap codec body = Some resp
        \<and> map_of resp ''model'' \<noteq> Some (JString mappedModel)"
  then have "replaceModelInResponseBody codec body mappedModel originalModel = body"
    by (intro body_kept[of codec body resp]) simp_all
  then show "forwardedBody codec originalModel mappedModel body = body"
    by (simp add: forwardedBody_def)
next
  assume "writesLeft (stWriter st) = None"
  from streamLines_written[OF this]
  show "written (stWriter (fst (streamLines codec elapsedMs (originalModel \<noteq> mappedModel)
            mappedModel originalModel lines st)))
      = written (stWriter st)
        @ map (\<lambda>scanned. forwardedLine codec originalModel mappedModel scanned @ [CHR 0x0A]) lines"
    by simp
qed

lemmas created_eval = createdCodec_def tableCodec_def createdData_def createdDataRewritten_def

lemmas nested_eval = nestedCodec_def tableCodec_def nestedBody_def nestedBodyRewritten_def

theorem response_model_restored_witness:
  "forwardedLine createdCodec ''gpt-5'' ''gpt-5.1'' (''data: '' @ createdData)
     = ''data: '' @ createdDataRewritten
   \<and> UnmarshalMap createdCodec createdDataRewritten
     = Some [(''type'', JString ''response.created''), (''model'', JString ''gpt-5'')]
   \<and> forwardedLine nestedCodec ''gpt-5'' ''gpt-5.1'' (''data: '' @ nestedBody)
     = ''data: '' @ nestedBodyRewritten
   \<and> UnmarshalMap nestedCodec nestedBodyRewritten
     = Some [(''response'', JObject [(''model'', JString ''gpt-5'')])]
   \<and> forwardedBody createdCodec ''gpt-5'' ''gpt-5.1'' createdData = createdDataRewritten
   \<and> forwardedBody nestedCodec ''gpt-5'' ''gpt-5.1'' nestedBody = nestedBody
   \<and> written (stWriter (fst (streamLines createdCodec noClock (''gpt-5'' \<noteq> ''gpt-5.1'')
          ''gpt-5.1'' ''gpt-5'' [''data: '' @ createdData, []]
          \<lparr>stUsage = emptyUsage, stFirstTokenMs = None, stWriter = steadyClient, stLinesRead = 0\<rparr>)))
     = [''data: '' @ createdDataRewritten @ [CHR 0x0A], [CHR 0x0A]]"
proof -
  let ?event = "[(''type'', JString ''response.created''), (''model'', JString ''gpt-5.1'')]"
  let ?inner = "[(''model'', JString ''gpt-5.1'')]"
  let ?nested = "[(''response'', JObject ?inner)]"
  let ?st = "\<lparr>stUsage = emptyUsage, stFirstTokenMs = None, stWriter = steadyClient, stLinesRead = 0\<rparr>"
  have h0: "''gpt-5'' \<noteq> ''gpt-5.1''" by simp
  have h1: "createdData \<noteq> [] \<and> createdData \<noteq> ''[DONE]''
      \<and> UnmarshalMap createdCodec createdData = Some ?event
      \<and> map_of ?event ''model'' = Some (JString ''gpt-5.1'')
      \<and> Marshal createdCodec (JObject (setField ''model'' (JString ''gpt-5'') ?event))
          = Some createdDataRewritten"
    by (simp add: created_eval)
  have h2: "nestedBody \<noteq> [] \<and> nestedBody \<noteq> ''[DONE]''
      \<and> UnmarshalMap nestedCodec nestedBody = Some ?nested
      \<and> map_of ?nested ''model'' \<noteq> Some (JString ''gpt-5.1'')
      \<and> map_of ?nested ''response'' = Some (JObject ?inner)
      \<and> map_of ?inner ''model'' = Some (JString ''gpt-5.1'')
      \<and> Marshal nestedCodec
            (JObject (setField ''response'' (JObject (setField ''model'' (JString ''gpt-5'') ?inner)) ?nested))
          = Some nestedBodyRewritten"
    by (simp add: nested_eval)
  have h3: "UnmarshalMap createdCodec createdData = Some ?event
      \<and> map_of ?event ''model'' = Some (JString ''gpt-5.1'')
      \<and> Marshal createdCodec (JObject (setField ''model'' (JString ''gpt-5'') ?event))
          = Some createdDataRewritten"
    using h1 by simp
  have h4: "UnmarshalMap nestedCodec nestedBody = Some ?nested
      \<and> map_of ?nested ''model'' \<noteq> Some (JString ''gpt-5.1'')"
    using h2 by simp
  have h5: "writesLeft (stWriter ?st) = None" by (simp add: steadyClient_def)
  have dec1: "UnmarshalMap createdCodec createdDataRewritten
     = Some [(''type'', JString ''response.created''), (''model'', JString ''gpt-5'')]"
    by (simp add: created_eval)
  have dec2: "UnmarshalMap nestedCodec nestedBodyRewritten
     = Some [(''response'', JObject [(''model'', JString ''gpt-5'')])]"
    by (simp add: nested_eval)
  have c1: "forwardedLine createdCodec ''gpt-5'' ''gpt-5.1'' (''data: '' @ createdData)
     = ''data: '' @ createdDataRewritten"
    using response_model_restored[OF h0, where codec=createdCodec and data=createdData
        and event="?event" and newData=createdDataRewritten] h1 by blast
  have c2: "forwardedLine nestedCodec ''gpt-5'' ''gpt-5.1'' (''data: '' @ nestedBody)
     = ''data: '' @ nestedBodyRewritten"
    using response_model_restored[OF h0, where codec=nestedCodec and data=nestedBody
        and event="?nested" and response="?inner" and newData=nestedBodyRewritten] h2 by blast
  have c3: "forwardedBody createdCodec ''gpt-5'' ''gpt-5.1'' createdData = createdDataRewritten"
    using response_model_restored[OF h0, where codec=createdCodec and body=createdData
        and resp="?event" and newBody=createdDataRewritten] h3 by blast
  have c4: "forwardedBody nestedCodec ''gpt-5'' ''gpt-5.1'' nestedBody = nestedBody"
    using response_model_restored[OF h0, where codec=nestedCodec and body=nestedBody
        and resp="?nested"] h4 by blast
  have "written (stWriter (fst (streamLines createdCodec noClock (''gpt-5'' \<noteq> ''gpt-5.1'')
          ''gpt-5.1'' ''gpt-5'' [''data: '' @ createdData, []] ?st)))
     = written (stWriter ?st)
        @ map (\<lambda>scanned. forwardedLine createdCodec ''gpt-5'' ''gpt-5.1'' scanned @ [CHR 0x0A])
            [''data: '' @ createdData, []]"
    using response_model_restored[OF h0, where codec=createdCodec and st="?st"
        and elapsedMs=noClock and lines="[''data: '' @ createdData, []]"] h5 by blast
  moreover have "forwardedLine createdCodec ''gpt-5'' ''gpt-5.1'' [] = []"
    by (simp add: forwardedLine_def hasPrefix_def)
  ultimately have c5: "written (stWriter (fst (streamLines createdCodec noClock (''gpt-5'' \<noteq> ''gpt-5.1'')
          ''gpt-5.1'' ''gpt-5'' [''data: '' @ createdData, []] ?st)))
     = [''data: '' @ createdDataRewritten @ [CHR 0x0A], [CHR 0x0A]]"
    using c1 by (simp add: steadyClient_def)
  from c1 dec1 c2 dec2 c3 c4 c5 show ?thesis by blast
qed


text \<open>
  A non-streaming body whose model stands under \<open>response\<close> is forwarded as it came:
  the client reads \<open>gpt-5.1\<close> there, not the \<open>gpt-5\<close> it asked for.
\<close>

theorem nested_body_model_counterexample:
  "UnmarshalMap nestedCodec nestedBody
     = Some [(''response'', JObject [(''model'', JString ''gpt-5.1'')])]
   \<and> Marshal nestedCodec (JObject [(''response'', JObject [(''model'', JString ''gpt-5'')])])
     = Some nestedBodyRewritten
   \<and> forwardedBody nestedCodec ''gpt-5'' ''gpt-5.1'' nestedBody = nestedBody
   \<and> nestedBody \<noteq> nestedBodyRewritten"
  by (simp add: forwardedBody_def replaceModelInResponseBody_def nested_eval)

section \<open>A failed write ends the stream\<close>

lemmas stream_eval = forwardStreaming_def handleStreamingResponse_def disconnectLines_def
  clientFailingAfter_def setHeader_def fprintLine_def noteDataLine_def hasPrefix_def Let_def

text \<open>
  C7, on the stream of the test \<open>StreamClientDisconnectStillCollectsUsage\<close>. The
  client takes the first write and fails the second. \<open>handleStreamingResponse\<close>
  returns the write error after two of the five upstream lines, \<open>Forward\<close> returns it as
  its own error, and the usage of the \<open>response.completed\<close> event (11, 7 and 3 tokens)
  is never read: the usage of the result is empty.
\<close>

theorem write_failure_aborts_stream:
  "forwardStreaming codec elapsedMs requestID disconnectLines False (clientFailingAfter 1)
       ''gpt-5.2'' ''gpt-5.2'' = Inl WriteFailed
   \<and> stLinesRead (snd (snd (handleStreamingResponse codec elapsedMs requestID disconnectLines False
        (clientFailingAfter 1) ''gpt-5.2'' ''gpt-5.2''))) = 2
   \<and> length disconnectLines = 5
   \<and> fst (handleStreamingResponse usageCodec elapsedMs requestID disconnectLines False
        (clientFailingAfter 1) ''gpt-5.2'' ''gpt-5.2'')
       = Some \<lparr>usage = emptyUsage, firstTokenMs = Some (elapsedMs 1)\<rparr>
   \<and> parseSSEUsage usageCodec completedData emptyUsage
       = \<lparr>InputTokens = 11, OutputTokens = 7, CacheCreationInputTokens = 0, CacheReadInputTokens = 3\<rparr>"
proof (intro conjI)
  show "forwardStreaming codec elapsedMs requestID disconnectLines False (clientFailingAfter 1)
       ''gpt-5.2'' ''gpt-5.2'' = Inl WriteFailed"
    by (simp add: stream_eval)
  show "stLinesRead (snd (snd (handleStreamingResponse codec elapsedMs requestID disconnectLines False
        (clientFailingAfter 1) ''gpt-5.2'' ''gpt-5.2''))) = 2"
    by (simp add: stream_eval)
  show "length disconnectLines = 5" by (simp add: disconnectLines_def)
  show "fst (handleStreamingResponse usageCodec elapsedMs requestID disconnectLines False
        (clientFailingAfter 1) ''gpt-5.2'' ''gpt-5.2'')
       = Some \<lparr>usage = emptyUsage, firstTokenMs = Some (elapsedMs 1)\<rparr>"
    by (simp add: stream_eval parseSSEUsage_def usageCodec_def tableCodec_def deltaData_def
        completedData_def emptyUsage_def)
  show "parseSSEUsage usageCodec completedData emptyUsage
       = \<lparr>InputTokens = 11, OutputTokens = 7, CacheCreationInputTokens = 0, CacheReadInputTokens = 3\<rparr>"
    by (simp add: parseSSEUsage_def usageCodec_def tableCodec_def deltaData_def
        completedData_def emptyUsage_def)
qed

section \<open>Admission errors\<close>

lemma jsonStatuses_append: "jsonStatuses (xs @ ys) = jsonStatuses xs @ jsonStatuses ys"
  by (induction xs rule: jsonStatuses.induct) simp_all

lemma concurrency_error_events:
  "handleConcurrencyError env slotType streamStarted =
     (if streamStarted then
        (if clientFlushes env
           then [Respond (SSEErrorEvent ''rate_limit_error''
                   (''Concurrency limit exceeded for '' @ slotType @ '', please retry later''))]
         else [])
      else [Respond (JSONError 429 ''rate_limit_error''
              (''Concurrency limit exceeded for '' @ slotType @ '', please retry later''))])"
  by (simp add: handleConcurrencyError_def handleStreamingAwareError_def errorResponse_def)

lemma concurrency_error_statuses:
  "jsonStatuses (handleConcurrencyError env slotType streamStarted)
     = (if streamStarted then [] else [429])"
  by (simp add: concurrency_error_events)

lemma concurrency_error_no_forward:
  "ForwardRequest \<notin> set (handleConcurrencyError env slotType streamStarted)"
  by (simp add: concurrency_error_events)

text \<open>The answer of \<open>IncrementWaitCount\<close> is read once, at the head of the admission.\<close>

lemma streaming_aware_wait [simp]:
  "handleStreamingAwareError (env\<lparr>incrementWait := w\<rparr>) status errType message started
     = handleStreamingAwareError env status errType message started"
  by (simp add: handleStreamingAwareError_def)

lemma concurrency_error_wait [simp]:
  "handleConcurrencyError (env\<lparr>incrementWait := w\<rparr>) slotType started
     = handleConcurrencyError env slotType started"
  by (simp add: handleConcurrencyError_def)

lemma serveWithAccount_wait [simp]:
  "serveWithAccount (env\<lparr>incrementWait := w\<rparr>) started = serveWithAccount env started"
  by (simp add: serveWithAccount_def Let_def split: sum.splits)

lemma admit_fail_open:
  "admit (env\<lparr>incrementWait := None\<rparr>) = admit (env\<lparr>incrementWait := Some True\<rparr>)"
  by (simp add: admit_def Let_def split: option.splits)

lemma admit_user_slot_error:
  assumes "incrementWait env \<noteq> Some False" and "slotError (userSlot env)"
  shows "admit env =
     [IncrementWaitCount, AcquireUserSlot]
     @ handleConcurrencyError env ''user'' (startedStream (userSlot env))
     @ [DecrementWaitCount]"
  using assms by (simp add: admit_def)

lemma admit_account_slot_error:
  assumes "incrementWait env \<noteq> Some False" and "\<not> slotError (userSlot env)"
    and "billingError env = None" and "selection env = Inr account"
    and "slotError (accountSlot env)"
  shows "admit env =
     [IncrementWaitCount, AcquireUserSlot, CheckBillingEligibility, SelectAccount, AcquireAccountSlot]
     @ handleConcurrencyError env ''account''
         (startedStream (userSlot env) \<or> startedStream (accountSlot env))
     @ (if hasRelease (userSlot env) then [ReleaseUserSlot] else [])
     @ [DecrementWaitCount]"
  using assms by (simp add: admit_def serveWithAccount_def)

text \<open>
  C8 (as amended). During admission an error of \<open>IncrementWaitCount\<close> is fail-open:
  the handler goes on exactly as if the counter had answered that the request may wait,
  and so reaches the acquisition of the user slot. An error of the acquisition of the
  user slot or of the account slot is fail-closed: the request is not forwarded, and the
  client is sent the error \<open>rate_limit_error\<close> with HTTP status 429, or as an SSE error
  event when the stream has started.
\<close>

theorem admission_fail_open_and_closed:
  "admit (env\<lparr>incrementWait := None\<rparr>) = admit (env\<lparr>incrementWait := Some True\<rparr>)
   \<and> AcquireUserSlot \<in> set (admit (env\<lparr>incrementWait := None\<rparr>))
   \<and> (incrementWait env \<noteq> Some False \<and> slotError (userSlot env) \<longrightarrow>
        admit env =
          [IncrementWaitCount, AcquireUserSlot]
          @ handleConcurrencyError env ''user'' (startedStream (userSlot env))
          @ [DecrementWaitCount]
        \<and> ForwardRequest \<notin> set (admit env)
        \<and> jsonStatuses (admit env) = (if startedStream (userSlot env) then [] else [429]))
   \<and> (incrementWait env \<noteq> Some False \<and> \<not> slotError (userSlot env)
        \<and> billingError env = None \<and> selection env = Inr account
        \<and> slotError (accountSlot env) \<longrightarrow>
        admit env =
          [IncrementWaitCount, AcquireUserSlot, CheckBillingEligibility, SelectAccount,
           AcquireAccountSlot]
          @ handleConcurrencyError env ''account''
              (startedStream (userSlot env) \<or> startedStream (accountSlot env))
          @ (if hasRelease (userSlot env) then [ReleaseUserSlot] else [])
          @ [DecrementWaitCount]
        \<and> ForwardRequest \<notin> set (admit env)
        \<and> jsonStatuses (admit env)
            = (if startedStream (userSlot env) \<or> startedStream (accountSlot env) then [] else [429]))
   \<and> handleConcurrencyError env slotType False =
        [Respond (JSONError 429 ''rate_limit_error''
           (''Concurrency limit exceeded for '' @ slotType @ '', please retry later''))]"
proof (intro conjI impI)
  show "admit (env\<lparr>incrementWait := None\<rparr>) = admit (env\<lparr>incrementWait := Some True\<rparr>)"
    by (rule admit_fail_open)
  show "AcquireUserSlot \<in> set (admit (env\<lparr>incrementWait := None\<rparr>))"
    by (simp add: admit_def)
  show "handleConcurrencyError env slotType False =
        [Respond (JSONError 429 ''rate_limit_error''
           (''Concurrency limit exceeded for '' @ slotType @ '', please retry later''))]"
    by (simp add: concurrency_error_events)
next
  assume a: "incrementWait env \<noteq> Some False \<and> slotError (userSlot env)"
  then have eq: "admit env =
     [IncrementWaitCount, AcquireUserSlot]
     @ handleConcurrencyError env ''user'' (startedStream (userSlot env))
     @ [DecrementWaitCount]"
    by (intro admit_user_slot_error) simp_all
  show "admit env =
     [IncrementWaitCount, AcquireUserSlot]
     @ handleConcurrencyError env ''user'' (startedStream (userSlot env))
     @ [DecrementWaitCount]" by (rule eq)
  show "ForwardRequest \<notin> set (admit env)"
    unfolding eq using concurrency_error_no_forward by simp
  show "jsonStatuses (admit env) = (if startedStream (userSlot env) then [] else [429])"
    unfolding eq by (simp add: jsonStatuses_append concurrency_error_statuses)
next
  assume a: "incrementWait env \<noteq> Some False \<and> \<not> slotError (userSlot env)
        \<and> billingError env = None \<and> selection env = Inr account
        \<and> slotError (accountSlot env)"
  then have eq: "admit env =
     [IncrementWaitCount, AcquireUserSlot, CheckBillingEligibility, SelectAccount, AcquireAccountSlot]
     @ handleConcurrencyError env ''account''
         (startedStream (userSlot env) \<or> startedStream (accountSlot env))
     @ (if hasRelease (userSlot env) then [ReleaseUserSlot] else [])
     @ [DecrementWaitCount]"
    by (intro admit_account_slot_error[of env account]) simp_all
  show "admit env =
     [IncrementWaitCount, AcquireUserSlot, CheckBillingEligibility, SelectAccount, AcquireAccountSlot]
     @ handleConcurrencyError env ''account''
         (startedStream (userSlot env) \<or> startedStream (accountSlot env))
     @ (if hasRelease (userSlot env) then [ReleaseUserSlot] else [])
     @ [DecrementWaitCount]" by (rule eq)
  show "ForwardRequest \<notin> set (admit env)"
    unfolding eq using concurrency_error_no_forward by simp
  show "jsonStatuses (admit env)
      = (if startedStream (userSlot env) \<or> startedStream (accountSlot env) then [] else [429])"
    unfolding eq by (simp add: jsonStatuses_append concurrency_error_statuses)
qed

lemmas request_eval = Responses_def smoothRequest_def smoothSlot_def failedSlot_def
  emptyObjectCodec_def tableCodec_def

theorem admission_fail_open_and_closed_witness:
  "Responses emptyObjectCodec (smoothRequest\<lparr>incrementWait := None\<rparr>)
     = [IncrementWaitCount, AcquireUserSlot, CheckBillingEligibility, SelectAccount,
        AcquireAccountSlot, ForwardRequest, SpawnRecordUsage, ReleaseAccountSlot, ReleaseUserSlot,
        DecrementWaitCount]
   \<and> jsonStatuses (Responses emptyObjectCodec (smoothRequest\<lparr>userSlot := failedSlot\<rparr>)) = [429]
   \<and> jsonStatuses (Responses emptyObjectCodec (smoothRequest\<lparr>accountSlot := failedSlot\<rparr>)) = [429]"
proof -
  let ?user = "smoothRequest\<lparr>userSlot := failedSlot\<rparr>"
  let ?acct = "smoothRequest\<lparr>accountSlot := failedSlot\<rparr>"
  have smooth: "admit (smoothRequest\<lparr>incrementWait := Some True\<rparr>)
     = [IncrementWaitCount, AcquireUserSlot, CheckBillingEligibility, SelectAccount,
        AcquireAccountSlot, ForwardRequest, SpawnRecordUsage, ReleaseAccountSlot, ReleaseUserSlot,
        DecrementWaitCount]"
    by (simp add: admit_def serveWithAccount_def smoothRequest_def smoothSlot_def)
  have "admit (smoothRequest\<lparr>incrementWait := None\<rparr>)
      = admit (smoothRequest\<lparr>incrementWait := Some True\<rparr>)"
    using admission_fail_open_and_closed[of smoothRequest] by (rule conjunct1)
  with smooth have 1: "Responses emptyObjectCodec (smoothRequest\<lparr>incrementWait := None\<rparr>)
     = [IncrementWaitCount, AcquireUserSlot, CheckBillingEligibility, SelectAccount,
        AcquireAccountSlot, ForwardRequest, SpawnRecordUsage, ReleaseAccountSlot, ReleaseUserSlot,
        DecrementWaitCount]"
    by (simp add: request_eval)
  have u: "incrementWait ?user \<noteq> Some False \<and> slotError (userSlot ?user)"
    by (simp add: smoothRequest_def failedSlot_def)
  have "jsonStatuses (admit ?user) = (if startedStream (userSlot ?user) then [] else [429])"
    using admission_fail_open_and_closed[of ?user] u by blast
  then have 2: "jsonStatuses (Responses emptyObjectCodec ?user) = [429]"
    by (simp add: request_eval)
  have a: "incrementWait ?acct \<noteq> Some False \<and> \<not> slotError (userSlot ?acct)
      \<and> billingError ?acct = None \<and> selection ?acct = Inr 1 \<and> slotError (accountSlot ?acct)"
    by (simp add: smoothRequest_def smoothSlot_def failedSlot_def)
  have "jsonStatuses (admit ?acct)
      = (if startedStream (userSlot ?acct) \<or> startedStream (accountSlot ?acct) then [] else [429])"
    using admission_fail_open_and_closed[of ?acct 1] a by blast
  then have 3: "jsonStatuses (Responses emptyObjectCodec ?acct) = [429]"
    by (simp add: request_eval)
  from 1 2 3 show ?thesis by blast
qed

text \<open>
  The status of a failed slot acquisition is 429: the handler never answers it with 503.
\<close>

theorem slot_error_status_counterexample:
  "slotError (userSlot (smoothRequest\<lparr>userSlot := failedSlot\<rparr>))
   \<and> Responses emptyObjectCodec (smoothRequest\<lparr>userSlot := failedSlot\<rparr>)
     = [IncrementWaitCount, AcquireUserSlot,
        Respond (JSONError 429 ''rate_limit_error''
          ''Concurrency limit exceeded for user, please retry later''),
        DecrementWaitCount]
   \<and> 503 \<notin> set (jsonStatuses (Responses emptyObjectCodec (smoothRequest\<lparr>userSlot := failedSlot\<rparr>)))"
  by (simp add: request_eval admit_def handleConcurrencyError_def handleStreamingAwareError_def
      errorResponse_def)

section \<open>Image prices\<close>




lemma inDelta_bounds: "inDelta e a d \<Longrightarrow> e - d \<le> a \<and> a \<le> e + d"
  unfolding inDelta_def abs_le_iff by linarith

text \<open>
  No pricing of the specification passes the tests of the default prices of 1K and of
  4K together, whatever its price of 1K: the first asks for a price of 1K between 0.1339
  and 0.1341, the second for three times that price to lie between 0.2679 and 0.2681.
\<close>

lemma spec_pricing_fails_tests:
  "\<not> (TestGetDefaultImagePrice_FallbackHardcoded (specImageCost base other)
       \<and> TestCalculateImageCost_4KDoublePrice (specImageCost base other))"
proof
  assume a: "TestGetDefaultImagePrice_FallbackHardcoded (specImageCost base other)
       \<and> TestCalculateImageCost_4KDoublePrice (specImageCost base other)"
  have one: "TotalCost (specImageCost base other ''gemini-3-pro-image'' ''1K'' 1 None 1) = base"
    and four: "TotalCost (specImageCost base other ''gemini-3-pro-image'' ''4K'' 1 None 1) = 3 * base"
    by (simp_all add: specImageCost_def specImageUnitPrice_def specDefaultImagePrice_def Let_def)
  from a have "inDelta (134 / 1000) base (1 / 10000)" "inDelta (268 / 1000) (3 * base) (1 / 10000)"
    by (simp_all only: TestGetDefaultImagePrice_FallbackHardcoded_def
        TestCalculateImageCost_4KDoublePrice_def one four)
  from inDelta_bounds[OF this(1)] inDelta_bounds[OF this(2)] show False by linarith
qed






section \<open>Codex model normalisation is total\<close>

lemma codexModelMap_values_canonical:
  "snd ` set codexModelMap \<subseteq> set canonicalCodexModels"
  by (simp add: codexModelMap_def canonicalCodexModels_def)

lemma toLower_ascii: "isASCII s \<Longrightarrow> toLower ul s = map toLowerByte s"
  by (simp add: toLower_def)

lemma codexModelMap_keys_ascii: "\<forall>kv \<in> set codexModelMap. isASCII (fst kv)"
  by code_simp

lemma codexModelMap_lower_keys_distinct:
  "distinct (map (\<lambda>kv. toLower ul (fst kv)) codexModelMap)"
proof -
  have eq: "map (\<lambda>kv. toLower ul (fst kv)) codexModelMap
      = map (\<lambda>kv. map toLowerByte (fst kv)) codexModelMap"
    using codexModelMap_keys_ascii by (intro map_cong) (simp_all add: toLower_ascii)
  have "distinct (map (\<lambda>kv. map toLowerByte (fst kv)) codexModelMap)"
    by code_simp
  then show ?thesis by (simp only: eq)
qed

lemma getNormalized_range:
  "getNormalizedCodexModel ul m = [] \<or> getNormalizedCodexModel ul m \<in> set canonicalCodexModels"
proof -
  have a: "map_of codexModelMap m = Some v \<Longrightarrow> v \<in> set canonicalCodexModels" for v
    using codexModelMap_values_canonical by (force dest: map_of_SomeD)
  have b: "find P codexModelMap = Some kv \<Longrightarrow> snd kv \<in> set canonicalCodexModels" for P kv
    using codexModelMap_values_canonical by (force simp: find_Some_iff)
  show ?thesis
    by (auto simp: getNormalizedCodexModel_def a b split: option.splits)
qed

lemma normalize_range: "normalizeCodexModel ul m \<in> set canonicalCodexModels"
proof (cases "m = []")
  case True
  then show ?thesis by (simp add: normalizeCodexModel_def canonicalCodexModels_def)
next
  case False
  define modelID where "modelID = (if strContains m ''/'' then lastSegment m else m)"
  show ?thesis
  proof (cases "getNormalizedCodexModel ul modelID = []")
    case True
    with False show ?thesis
      unfolding normalizeCodexModel_def Let_def modelID_def[symmetric]
      by (simp add: canonicalCodexModels_def)
  next
    case nonempty: False
    with False have "normalizeCodexModel ul m = getNormalizedCodexModel ul modelID"
      unfolding normalizeCodexModel_def Let_def modelID_def[symmetric] by simp
    with nonempty getNormalized_range[of ul modelID] show ?thesis by simp
  qed
qed

lemma strContains_single: "strContains s [c] \<longleftrightarrow> c \<in> set s"
  by (induction s) (auto simp: hasPrefix_def)

lemma lastSegment_no_slash: "\<not> strContains s ''/'' \<Longrightarrow> lastSegment s = s"
proof -
  assume "\<not> strContains s ''/''"
  then have "\<forall>c\<in>set (rev s). c \<noteq> CHR ''/''" by (auto simp: strContains_single)
  then have tw: "takeWhile (\<lambda>c. c \<noteq> CHR ''/'') (rev s) = rev s"
    by (simp add: takeWhile_eq_all_conv)
  show ?thesis unfolding lastSegment_def tw by simp
qed

lemma getNormalized_unmapped:
  assumes "\<forall>k \<in> fst ` set codexModelMap. toLower ul k \<noteq> toLower ul modelID"
  shows "getNormalizedCodexModel ul modelID = []"
proof -
  have "map_of codexModelMap modelID = None"
  proof (rule ccontr)
    assume "map_of codexModelMap modelID \<noteq> None"
    then obtain v where "(modelID, v) \<in> set codexModelMap" by (auto dest: map_of_SomeD)
    then have "modelID \<in> fst ` set codexModelMap" by force
    with assms show False by blast
  qed
  moreover have "find (\<lambda>kv. toLower ul (fst kv) = toLower ul modelID) codexModelMap = None"
    using assms by (auto simp: find_None_iff)
  ultimately show ?thesis by (simp add: getNormalizedCodexModel_def)
qed

lemma normalize_default:
  assumes k: "\<forall>k \<in> fst ` set codexModelMap. toLower ul k \<noteq> toLower ul (lastSegment model)"
    and p: "\<forall>p \<in> set codexFallbackPatterns. \<not> strContains (toLower ul (lastSegment model)) p"
  shows "normalizeCodexModel ul model = ''gpt-5.1''"
proof -
  define modelID where "modelID = (if strContains model ''/'' then lastSegment model else model)"
  have id: "modelID = lastSegment model"
    by (simp add: modelID_def lastSegment_no_slash)
  have unmapped: "getNormalizedCodexModel ul modelID = []"
    using k by (simp add: id getNormalized_unmapped)
  have "\<forall>p \<in> set codexFallbackPatterns. \<not> strContains (toLower ul modelID) p"
    using p by (simp add: id)
  then have none: "\<not> strContains (toLower ul modelID) ''gpt-5.2-codex''"
    "\<not> strContains (toLower ul modelID) ''gpt 5.2 codex''"
    "\<not> strContains (toLower ul modelID) ''gpt-5.2''"
    "\<not> strContains (toLower ul modelID) ''gpt 5.2''"
    "\<not> strContains (toLower ul modelID) ''gpt-5.1-codex-max''"
    "\<not> strContains (toLower ul modelID) ''gpt 5.1 codex max''"
    "\<not> strContains (toLower ul modelID) ''gpt-5.1-codex-mini''"
    "\<not> strContains (toLower ul modelID) ''gpt 5.1 codex mini''"
    "\<not> strContains (toLower ul modelID) ''codex-mini-latest''"
    "\<not> strContains (toLower ul modelID) ''gpt-5-codex-mini''"
    "\<not> strContains (toLower ul modelID) ''gpt 5 codex mini''"
    "\<not> strContains (toLower ul modelID) ''gpt-5.1-codex''"
    "\<not> strContains (toLower ul modelID) ''gpt 5.1 codex''"
    "\<not> strContains (toLower ul modelID) ''gpt-5.1''"
    "\<not> strContains (toLower ul modelID) ''gpt 5.1''"
    "\<not> strContains (toLower ul modelID) ''codex''"
    by (simp_all add: codexFallbackPatterns_def)
  show ?thesis
    unfolding normalizeCodexModel_def Let_def modelID_def[symmetric]
    by (simp only: unmapped none if_False if_True simp_thms if_cancel)
qed

text \<open>
  C10. \<open>normalizeCodexModel\<close> is a total function that never rejects: for every input it
  returns a non-empty name of the canonical set; the empty string is mapped to \<open>gpt-5.1\<close>,
  and so is every string whose last path segment has no key of \<open>codexModelMap\<close> equal to
  it in lower case and contains none of the fallback substrings.
\<close>

theorem normalizeCodexModel_total:
  "normalizeCodexModel unicodeLower model \<in> set canonicalCodexModels
   \<and> normalizeCodexModel unicodeLower model \<noteq> []
   \<and> normalizeCodexModel unicodeLower [] = ''gpt-5.1''
   \<and> ((\<forall>k \<in> fst ` set codexModelMap. toLower unicodeLower k \<noteq> toLower unicodeLower (lastSegment model))
        \<and> (\<forall>p \<in> set codexFallbackPatterns. \<not> strContains (toLower unicodeLower (lastSegment model)) p)
       \<longrightarrow> normalizeCodexModel unicodeLower model = ''gpt-5.1'')"
proof -
  have "[] \<notin> set canonicalCodexModels" by (simp add: canonicalCodexModels_def)
  with normalize_range[of unicodeLower model] have "normalizeCodexModel unicodeLower model \<noteq> []" by metis
  moreover have "normalizeCodexModel unicodeLower [] = ''gpt-5.1''" by (simp add: normalizeCodexModel_def)
  ultimately show ?thesis using normalize_range[of unicodeLower model] normalize_default[of unicodeLower model] by blast
qed

theorem normalizeCodexModel_total_witness:
  "normalizeCodexModel noUnicodeLower ''openai/claude-3-opus'' = ''gpt-5.1''
   \<and> normalizeCodexModel noUnicodeLower ''openai/claude-3-opus'' \<in> set canonicalCodexModels"
proof -
  have h1: "\<forall>k \<in> fst ` set codexModelMap. toLower noUnicodeLower k \<noteq> toLower noUnicodeLower (lastSegment ''openai/claude-3-opus'')"
    by code_simp
  have h2: "\<forall>p \<in> set codexFallbackPatterns.
      \<not> strContains (toLower noUnicodeLower (lastSegment ''openai/claude-3-opus'')) p"
    by code_simp
  show ?thesis
    using normalizeCodexModel_total[of noUnicodeLower "''openai/claude-3-opus''"] h1 h2 by blast
qed

end
